theory Spec2Isabelle
  imports Complex_Main "HOL-Library.Monad_Syntax"
begin

section \<open>JavaScript values used by the evaluator\<close>

text \<open>
  A JavaScript number is an IEEE 754 double. The model keeps the special values apart and
  takes a finite value as an exact rational: \<open>NaN\<close>, the two infinities, negative zero, and
  \<open>Fin r\<close> (with \<open>Fin 0\<close> for positive zero). Rounding of finite results to 53 bits and
  overflow are not modelled: \<open>js_add\<close>, \<open>js_sub\<close>, \<open>js_mul\<close> and \<open>js_div\<close> are exact on finite
  values, and agree with the code where the exact result is a double. A theorem that depends
  on the arithmetic is stated for operands of a magnitude at which every intermediate result
  is an integer below \<open>2^53\<close>, and so is exact in the code too.
\<close>

datatype jsnum = NaN | PosInf | NegInf | NegZero | Fin rat

type_synonym jsstring = string
  \<comment> \<open>a sequence of code units; one \<open>char\<close> stands for one code unit\<close>

definition isNaN :: "jsnum \<Rightarrow> bool" where
  "isNaN x = (x = NaN)"

definition js_is_zero :: "jsnum \<Rightarrow> bool" where
  "js_is_zero x = (x = NegZero \<or> x = Fin 0)"

definition js_negative :: "jsnum \<Rightarrow> bool" where
  \<comment> \<open>the sign bit\<close>
  "js_negative x = (case x of NegInf \<Rightarrow> True | NegZero \<Rightarrow> True | Fin r \<Rightarrow> r < 0 | _ \<Rightarrow> False)"

definition js_zero :: "bool \<Rightarrow> jsnum" where
  "js_zero neg = (if neg then NegZero else Fin 0)"

definition js_inf :: "bool \<Rightarrow> jsnum" where
  "js_inf neg = (if neg then NegInf else PosInf)"

definition js_rat :: "jsnum \<Rightarrow> rat" where
  "js_rat x = (case x of Fin r \<Rightarrow> r | _ \<Rightarrow> 0)"

definition js_finite :: "jsnum \<Rightarrow> bool" where
  "js_finite x = (case x of Fin r \<Rightarrow> True | NegZero \<Rightarrow> True | _ \<Rightarrow> False)"

definition js_neg :: "jsnum \<Rightarrow> jsnum" where
  \<comment> \<open>unary \<open>-x\<close>\<close>
  "js_neg x = (case x of NaN \<Rightarrow> NaN | PosInf \<Rightarrow> NegInf | NegInf \<Rightarrow> PosInf
     | NegZero \<Rightarrow> Fin 0 | Fin r \<Rightarrow> (if r = 0 then NegZero else Fin (- r)))"

definition js_add :: "jsnum \<Rightarrow> jsnum \<Rightarrow> jsnum" where
  \<comment> \<open>\<open>x + y\<close>\<close>
  "js_add x y =
     (if x = NaN \<or> y = NaN then NaN
      else if x = PosInf then (if y = NegInf then NaN else PosInf)
      else if x = NegInf then (if y = PosInf then NaN else NegInf)
      else if y = PosInf \<or> y = NegInf then y
      else if x = NegZero \<and> y = NegZero then NegZero
      else Fin (js_rat x + js_rat y))"

definition js_sub :: "jsnum \<Rightarrow> jsnum \<Rightarrow> jsnum" where
  \<comment> \<open>\<open>x - y\<close>\<close>
  "js_sub x y = js_add x (js_neg y)"

definition js_mul :: "jsnum \<Rightarrow> jsnum \<Rightarrow> jsnum" where
  \<comment> \<open>\<open>x * y\<close>\<close>
  "js_mul x y =
     (if x = NaN \<or> y = NaN then NaN
      else if \<not> js_finite x \<or> \<not> js_finite y
        then (if js_is_zero x \<or> js_is_zero y then NaN
              else js_inf (js_negative x \<noteq> js_negative y))
      else if js_rat x * js_rat y = 0 then js_zero (js_negative x \<noteq> js_negative y)
      else Fin (js_rat x * js_rat y))"

definition js_div :: "jsnum \<Rightarrow> jsnum \<Rightarrow> jsnum" where
  \<comment> \<open>\<open>x / y\<close>\<close>
  "js_div x y =
     (if x = NaN \<or> y = NaN then NaN
      else if \<not> js_finite x
        then (if \<not> js_finite y then NaN else js_inf (js_negative x \<noteq> js_negative y))
      else if \<not> js_finite y then js_zero (js_negative x \<noteq> js_negative y)
      else if js_is_zero y
        then (if js_is_zero x then NaN else js_inf (js_negative x \<noteq> js_negative y))
      else if js_is_zero x then js_zero (js_negative x \<noteq> js_negative y)
      else Fin (js_rat x / js_rat y))"

definition js_trunc :: "rat \<Rightarrow> int" where
  "js_trunc r = (if r < 0 then - \<lfloor>- r\<rfloor> else \<lfloor>r\<rfloor>)"

definition js_mod :: "jsnum \<Rightarrow> jsnum \<Rightarrow> jsnum" where
  \<comment> \<open>\<open>x % y\<close>: the remainder takes the sign of the dividend\<close>
  "js_mod x y =
     (if x = NaN \<or> y = NaN then NaN
      else if \<not> js_finite x \<or> js_is_zero y then NaN
      else if \<not> js_finite y then x
      else if js_is_zero x then x
      else (let r = js_rat x - js_rat y * of_int (js_trunc (js_rat x / js_rat y))
            in if r = 0 then js_zero (js_negative x) else Fin r))"

definition js_lt :: "jsnum \<Rightarrow> jsnum \<Rightarrow> bool" where
  \<comment> \<open>\<open>x < y\<close>\<close>
  "js_lt x y =
     (if x = NaN \<or> y = NaN then False
      else if x = PosInf \<or> y = NegInf then False
      else if x = NegInf \<or> y = PosInf then True
      else js_rat x < js_rat y)"

definition js_eq :: "jsnum \<Rightarrow> jsnum \<Rightarrow> bool" where
  \<comment> \<open>\<open>x === y\<close> on numbers\<close>
  "js_eq x y =
     (if x = NaN \<or> y = NaN then False
      else if js_finite x \<and> js_finite y then js_rat x = js_rat y
      else x = y)"

definition js_le :: "jsnum \<Rightarrow> jsnum \<Rightarrow> bool" where
  "js_le x y = (js_lt x y \<or> js_eq x y)"

definition js_gt :: "jsnum \<Rightarrow> jsnum \<Rightarrow> bool" where
  "js_gt x y = js_lt y x"

definition js_ge :: "jsnum \<Rightarrow> jsnum \<Rightarrow> bool" where
  "js_ge x y = js_le y x"

definition js_truthy :: "jsnum \<Rightarrow> bool" where
  \<comment> \<open>\<open>!!x\<close>\<close>
  "js_truthy x = (\<not> (x = NaN \<or> js_is_zero x))"

definition Math_round :: "jsnum \<Rightarrow> jsnum" where
  \<comment> \<open>\<open>Math.round\<close>: the nearest integer, a tie goes towards \<open>+\<infinity>\<close>\<close>
  "Math_round x = (case x of
       Fin r \<Rightarrow> (if - (1/2) \<le> r \<and> r < 0 then NegZero else Fin (of_int \<lfloor>r + 1/2\<rfloor>))
     | _ \<Rightarrow> x)"

definition Math_floor :: "jsnum \<Rightarrow> jsnum" where
  "Math_floor x = (case x of Fin r \<Rightarrow> Fin (of_int \<lfloor>r\<rfloor>) | _ \<Rightarrow> x)"

definition Math_ceil :: "jsnum \<Rightarrow> jsnum" where
  "Math_ceil x = (case x of
       Fin r \<Rightarrow> (if - 1 < r \<and> r < 0 then NegZero else Fin (of_int \<lceil>r\<rceil>))
     | _ \<Rightarrow> x)"

definition toIntegerOrInfinity :: "jsnum \<Rightarrow> jsnum" where
  \<comment> \<open>the conversion \<open>String.prototype.slice\<close> applies to its arguments\<close>
  "toIntegerOrInfinity x = (case x of NaN \<Rightarrow> Fin 0 | NegZero \<Rightarrow> Fin 0
     | Fin r \<Rightarrow> Fin (of_int (js_trunc r)) | _ \<Rightarrow> x)"

definition relativeIndex :: "nat \<Rightarrow> jsnum \<Rightarrow> nat" where
  \<comment> \<open>how \<open>slice\<close> turns an argument into an offset of a string of length \<open>len\<close>\<close>
  "relativeIndex len x = (case toIntegerOrInfinity x of
       NegInf \<Rightarrow> 0
     | PosInf \<Rightarrow> len
     | Fin r \<Rightarrow> (if r < 0 then nat (max (int len + \<lfloor>r\<rfloor>) 0) else min (nat \<lfloor>r\<rfloor>) len)
     | _ \<Rightarrow> 0)"

definition js_slice :: "jsstring \<Rightarrow> jsnum \<Rightarrow> jsnum option \<Rightarrow> jsstring" where
  \<comment> \<open>\<open>str.slice(start, end)\<close>; \<open>None\<close> is an omitted \<open>end\<close>\<close>
  "js_slice str start end =
     (let len = length str;
          from = relativeIndex len start;
          to = (case end of None \<Rightarrow> len | Some e \<Rightarrow> relativeIndex len e)
      in take (to - from) (drop from str))"


section \<open>The document tree (nodes.ts)\<close>

text \<open>
  The evaluator reads a parsed document through \<open>children\<close>, \<open>parent\<close> and \<open>index\<close>.
  The tree is kept as nested children sequences, and a node is referred to by the sequence of
  child offsets that leads to it from the root, so that for every member \<open>n\<close> of a children
  sequence \<open>n.parent\<close> is the owner of that sequence and \<open>n.index\<close> its offset there (what
  \<open>XmlParser.setParent\<close> stores). Attribute and namespace nodes are referred to through
  their owner element; a node-set never holds a namespace node, since \<open>PathState\<close> has no
  step function for the namespace axis. DTD and XML-declaration nodes are no members of any
  children sequence and are left out.

  A node-set can hold \<open>null\<close>, and a read of a field of \<open>null\<close> is a \<open>TypeError\<close>. The
  functions of this section read a node of the tree; the evaluator calls them through
  \<open>readNode\<close>, \<open>step\<close> and \<open>sortNodesetE\<close>, which throw for \<open>null\<close>, so what the functions give
  for \<open>NullRef\<close> is never used.
\<close>

datatype RNodeType = Text | Comment | Attribute | Element | ProcessingInstruction
  | Namespace | Root | DTD | XmlDecl

record RName =
  qname :: jsstring
  lname :: jsstring
  pname :: jsstring

type_synonym nsref = "nat list \<times> nat"
  \<comment> \<open>a namespace node: the node that declares it, and its offset in that node's
      \<open>namespaces\<close>\<close>

record NamespaceNode =
  prefix :: jsstring
  uri :: jsstring
  isDefault :: bool
  isGlobal :: bool
  nsPos :: int

record AttributeNode =
  attrName :: RName
  attrValue :: jsstring
  attrNamespace :: "nsref option"
  attrPos :: int

record ElementInfo =
  name :: RName
  attributes :: "(jsstring \<times> AttributeNode) list"
  namespaces :: "NamespaceNode list"
  namespace :: "nsref option"
  hasAttribute :: bool
  elemPos :: int

datatype rnode =
    RootNode "rnode list" "nat option" "NamespaceNode list"
      \<comment> \<open>\<open>children\<close>, \<open>rootElement\<close> (its offset in \<open>children\<close>), \<open>namespaces\<close>\<close>
  | ElementNode ElementInfo "rnode list"
  | TextNode int jsstring
  | CommentNode int jsstring
  | PINode int jsstring jsstring

datatype nref = NRef "nat list" | ARef "nat list" jsstring | NullRef
  \<comment> \<open>\<open>NullRef\<close> is \<open>null\<close>: the first step \<open>/*\<close> or \<open>/node()\<close> puts \<open>this.root.rootElement\<close>
      into its node-set, also when the document has no root element\<close>

type_synonym XNodeSet = "nref list"
  \<comment> \<open>a JavaScript \<open>Set\<close> of nodes: no duplicates, iterated in insertion order\<close>

fun children :: "rnode \<Rightarrow> rnode list" where
  "children (RootNode cs re nss) = cs"
| "children (ElementNode info cs) = cs"
| "children _ = []"

fun getNode :: "rnode \<Rightarrow> nat list \<Rightarrow> rnode option" where
  "getNode t [] = Some t"
| "getNode t (i # p) =
     (if i < length (children t) then getNode (children t ! i) p else None)"

fun nodeNamespaces :: "rnode \<Rightarrow> NamespaceNode list" where
  "nodeNamespaces (RootNode cs re nss) = nss"
| "nodeNamespaces (ElementNode info cs) = namespaces info"
| "nodeNamespaces _ = []"

fun typeOfNode :: "rnode \<Rightarrow> RNodeType" where
  "typeOfNode (RootNode cs re nss) = Root"
| "typeOfNode (ElementNode info cs) = Element"
| "typeOfNode (TextNode p v) = Text"
| "typeOfNode (CommentNode p v) = Comment"
| "typeOfNode (PINode p t v) = ProcessingInstruction"

definition getAttribute :: "rnode \<Rightarrow> nat list \<Rightarrow> jsstring \<Rightarrow> AttributeNode option" where
  "getAttribute doc p k = (case getNode doc p of
       Some (ElementNode info cs) \<Rightarrow> map_of (attributes info) k
     | _ \<Rightarrow> None)"

definition getNamespace :: "rnode \<Rightarrow> nsref \<Rightarrow> NamespaceNode option" where
  "getNamespace doc r = (case getNode doc (fst r) of
       Some n \<Rightarrow> (if snd r < length (nodeNamespaces n) then Some (nodeNamespaces n ! snd r)
                  else None)
     | None \<Rightarrow> None)"

definition nodeType :: "rnode \<Rightarrow> nref \<Rightarrow> RNodeType option" where
  \<comment> \<open>\<open>node._type\<close>\<close>
  "nodeType doc r = (case r of
       NRef p \<Rightarrow> map_option typeOfNode (getNode doc p)
     | ARef p k \<Rightarrow> map_option (\<lambda>a. Attribute) (getAttribute doc p k)
     | NullRef \<Rightarrow> None)"

definition isRoot :: "rnode \<Rightarrow> nref \<Rightarrow> bool" where
  "isRoot doc r = (nodeType doc r = Some Root)"

definition isElement :: "rnode \<Rightarrow> nref \<Rightarrow> bool" where
  "isElement doc r = (nodeType doc r = Some Element)"

definition isAttribute :: "rnode \<Rightarrow> nref \<Rightarrow> bool" where
  "isAttribute doc r = (nodeType doc r = Some Attribute)"

definition isNamespace :: "rnode \<Rightarrow> nref \<Rightarrow> bool" where
  "isNamespace doc r = (nodeType doc r = Some Namespace)"

definition isText :: "rnode \<Rightarrow> nref \<Rightarrow> bool" where
  "isText doc r = (nodeType doc r = Some Text)"

definition isComment :: "rnode \<Rightarrow> nref \<Rightarrow> bool" where
  "isComment doc r = (nodeType doc r = Some Comment)"

definition isPI :: "rnode \<Rightarrow> nref \<Rightarrow> bool" where
  "isPI doc r = (nodeType doc r = Some ProcessingInstruction)"

definition isParent :: "rnode \<Rightarrow> nref \<Rightarrow> bool" where
  "isParent doc r = (isRoot doc r \<or> isElement doc r)"

definition parent :: "rnode \<Rightarrow> nref \<Rightarrow> nref option" where
  \<comment> \<open>\<open>node.parent\<close>: \<open>null\<close> for the root\<close>
  "parent doc r = (case r of
       NRef p \<Rightarrow> (if p = [] \<or> isRoot doc r then None else Some (NRef (butlast p)))
     | ARef p k \<Rightarrow> Some (NRef p)
     | NullRef \<Rightarrow> None)"

definition index :: "rnode \<Rightarrow> nref \<Rightarrow> int option" where
  \<comment> \<open>\<open>node.index\<close>; \<open>None\<close> is \<open>NaN\<close>\<close>
  "index doc r = (case r of
       NRef p \<Rightarrow> (if p = [] \<or> isRoot doc r then None else Some (int (last p)))
     | _ \<Rightarrow> None)"

definition childRefs :: "rnode \<Rightarrow> nref \<Rightarrow> nref list" where
  \<comment> \<open>\<open>node.children\<close>\<close>
  "childRefs doc r = (case r of
       NRef p \<Rightarrow> (case getNode doc p of
           Some n \<Rightarrow> map (\<lambda>i. NRef (p @ [i])) [0..<length (children n)]
         | None \<Rightarrow> [])
     | _ \<Rightarrow> [])"

definition position :: "rnode \<Rightarrow> nref \<Rightarrow> int" where
  \<comment> \<open>\<open>node.position()\<close>; a position that was never set is \<open>-1\<close>\<close>
  "position doc r = (case r of
       NRef p \<Rightarrow> (case getNode doc p of
           Some (ElementNode info cs) \<Rightarrow> elemPos info
         | Some (TextNode q v) \<Rightarrow> q
         | Some (CommentNode q v) \<Rightarrow> q
         | Some (PINode q t v) \<Rightarrow> q
         | _ \<Rightarrow> - 1)
     | ARef p k \<Rightarrow> (case getAttribute doc p k of Some a \<Rightarrow> attrPos a | None \<Rightarrow> - 1)
     | NullRef \<Rightarrow> - 1)"

definition nodeName :: "rnode \<Rightarrow> nref \<Rightarrow> RName option" where
  \<comment> \<open>\<open>node.name\<close> of an element or an attribute\<close>
  "nodeName doc r = (case r of
       NRef p \<Rightarrow> (case getNode doc p of
           Some (ElementNode info cs) \<Rightarrow> Some (name info) | _ \<Rightarrow> None)
     | ARef p k \<Rightarrow> map_option attrName (getAttribute doc p k)
     | NullRef \<Rightarrow> None)"

definition boundNamespace :: "rnode \<Rightarrow> nref \<Rightarrow> nsref option" where
  \<comment> \<open>\<open>node.namespace\<close> of an element or an attribute\<close>
  "boundNamespace doc r = (case r of
       NRef p \<Rightarrow> (case getNode doc p of
           Some (ElementNode info cs) \<Rightarrow> namespace info | _ \<Rightarrow> None)
     | ARef p k \<Rightarrow> (case getAttribute doc p k of Some a \<Rightarrow> attrNamespace a | None \<Rightarrow> None)
     | NullRef \<Rightarrow> None)"

definition add :: "nref \<Rightarrow> XNodeSet \<Rightarrow> XNodeSet" where
  \<comment> \<open>\<open>Set.prototype.add\<close>\<close>
  "add n s = (if n \<in> set s then s else s @ [n])"

definition addAll :: "nref list \<Rightarrow> XNodeSet \<Rightarrow> XNodeSet" where
  "addAll ns s = fold add ns s"

definition newSet :: "nref list \<Rightarrow> XNodeSet" where
  \<comment> \<open>\<open>new Set(array)\<close>\<close>
  "newSet ns = addAll ns []"

section \<open>The query tree (xpath.ts)\<close>

datatype error =
    ParseError jsstring      \<comment> \<open>\<open>XmlParser.error\<close>\<close>
  | EvalError jsstring       \<comment> \<open>\<open>XPath.error\<close>\<close>
  | Unreachable jsstring     \<comment> \<open>\<open>unreachable(...)\<close>\<close>
  | AssertionError jsstring  \<comment> \<open>a failed \<open>assert\<close>\<close>
  | TypeError                \<comment> \<open>the runtime's error on a property of \<open>undefined\<close> or \<open>null\<close>\<close>
  | OutOfFuel                \<comment> \<open>no error of the code: a loop of the parser model needs more fuel\<close>

datatype OpType = OpPlus | OpMinus | OpMul | OpDiv | OpMod | OpEq | OpNeq | OpLt | OpLeq
  | OpGt | OpGeq | OpAnd | OpOr | OpPipe

datatype KindTestType = KindComment | KindText | KindNode | KindPi

text \<open>
  A name test carries the name it compares with. \<open>NameTestType.WildcardLocal\<close> is never
  built by \<open>XParser\<close> and has no constructor here.
\<close>

datatype NameTest = Wildcard | Name RName | PrefixWildcard RName | PrefixLocal RName

datatype NodeTest = NameTest NameTest | KindTest KindTestType "jsstring option"
  \<comment> \<open>a kind test and the \<open>target\<close> of \<open>processing-instruction('target')\<close>\<close>

datatype Axis = Ancestor | AncestorOrSelf | AttributeAxis | Child | Descendant
  | DescendantOrSelf | Following | FollowingSibling | NamespaceAxis | Parent | Preceding
  | PrecedingSibling | Self

datatype DocumentOrder = Forward | Reverse

datatype PathSpec = PathNil | Single | Double

text \<open>
  \<open>XParser\<close> builds a \<open>StepNode\<close> in three ways: for \<open>.\<close> (\<open>StepSpec.Self\<close>), for \<open>..\<close>
  (\<open>StepSpec.Parent\<close>), and for an axis step, which has \<open>StepSpec.Nil\<close>, an axis and a node
  test. \<open>PathState.step\<close> reads the axis and the node test of an axis step only.
\<close>

datatype StepSpec = StepSelf | StepParent | AxisStep Axis NodeTest

datatype XNodeT =
    NumberNode jsnum
  | StringNode jsstring
  | CallNode jsstring "XNodeT list"
  | UnaryOpNode XNodeT OpType
  | BinaryOpNode XNodeT XNodeT OpType
  | StepNode PathSpec StepSpec "XNodeT list"     \<comment> \<open>\<open>path\<close>, the step, \<open>predicates\<close>\<close>
  | PredicateNode XNodeT DocumentOrder "XNodeT option"   \<comment> \<open>\<open>expr\<close>, \<open>order\<close>, \<open>leftExpr\<close>\<close>
  | PathNode "XNodeT list"

fun transformStepNode :: "XNodeT \<Rightarrow> XNodeT list" where
  \<comment> \<open>\<open>//xyz\<close> becomes \<open>/descendant-or-self::node()/xyz\<close>\<close>
  "transformStepNode (StepNode Double st preds) =
     [StepNode Single (AxisStep DescendantOrSelf (KindTest KindNode None)) [],
      StepNode Single st preds]"
| "transformStepNode node = [node]"

fun getOrder :: "Axis \<Rightarrow> DocumentOrder" where
  "getOrder Parent = Reverse"
| "getOrder Ancestor = Reverse"
| "getOrder AncestorOrSelf = Reverse"
| "getOrder Preceding = Reverse"
| "getOrder PrecedingSibling = Reverse"
| "getOrder _ = Forward"

section \<open>Node tests and axis walks (PathState)\<close>

definition piTarget :: "rnode \<Rightarrow> nref \<Rightarrow> jsstring option" where
  "piTarget doc r = (case r of
       NRef p \<Rightarrow> (case getNode doc p of Some (PINode q t v) \<Rightarrow> Some t | _ \<Rightarrow> None)
     | _ \<Rightarrow> None)"

fun isKindTestPassed :: "rnode \<Rightarrow> nref \<Rightarrow> KindTestType \<Rightarrow> jsstring option \<Rightarrow> bool" where
  "isKindTestPassed doc node KindText target = isText doc node"
| "isKindTestPassed doc node KindComment target = isComment doc node"
| "isKindTestPassed doc node KindNode target = True"
| "isKindTestPassed doc node KindPi target =
     (if target \<noteq> None \<and> target \<noteq> Some []
      then (if isPI doc node then target = piTarget doc node else False)
      else isPI doc node)"

function findTestNS :: "rnode \<Rightarrow> jsstring \<Rightarrow> nat list \<Rightarrow> NamespaceNode option
    \<Rightarrow> NamespaceNode option" where
  \<comment> \<open>the loop of \<open>compareName\<close>: at every node from \<open>curr\<close> up to the root, the first
      declaration of the prefix replaces what was found below\<close>
  "findTestNS doc pn p testNS =
     (let found = (case getNode doc p of
                     Some n \<Rightarrow> find (\<lambda>d. prefix d = pn) (nodeNamespaces n)
                   | None \<Rightarrow> None);
          testNS' = (case found of Some d \<Rightarrow> Some d | None \<Rightarrow> testNS)
      in if p = [] \<or> isRoot doc (NRef p) then testNS'
         else findTestNS doc pn (butlast p) testNS')"
  by pat_completeness auto
termination
  by (relation "measure (\<lambda>(doc, pn, p, t). length p)") auto

definition compareName :: "rnode \<Rightarrow> nref \<Rightarrow> NameTest \<Rightarrow> bool" where
  "compareName doc node test =
     (case (case boundNamespace doc node of Some r \<Rightarrow> getNamespace doc r | None \<Rightarrow> None) of
        None \<Rightarrow> False
      | Some ownNS \<Rightarrow>
          if isDefault ownNS then False
          else (let curr = (case node of NRef p \<Rightarrow> p | ARef p k \<Rightarrow> p | NullRef \<Rightarrow> [])
                in case test of
                     PrefixLocal nm \<Rightarrow>
                       (case findTestNS doc (pname nm) curr None of
                          None \<Rightarrow> False
                        | Some testNS \<Rightarrow> uri testNS = uri ownNS
                            \<and> map_option lname (nodeName doc node) = Some (lname nm))
                   | PrefixWildcard nm \<Rightarrow>
                       (case findTestNS doc (pname nm) curr None of
                          None \<Rightarrow> False
                        | Some testNS \<Rightarrow> uri testNS = uri ownNS)
                   | _ \<Rightarrow> False))"

fun isNameTestPassed :: "rnode \<Rightarrow> nref \<Rightarrow> NameTest \<Rightarrow> bool" where
  "isNameTestPassed doc node Wildcard = True"
| "isNameTestPassed doc node (Name nm) = (map_option qname (nodeName doc node) = Some (qname nm))"
| "isNameTestPassed doc node (PrefixLocal nm) = compareName doc node (PrefixLocal nm)"
| "isNameTestPassed doc node (PrefixWildcard nm) = compareName doc node (PrefixWildcard nm)"

definition elementNameTest :: "rnode \<Rightarrow> NameTest \<Rightarrow> nref \<Rightarrow> bool" where
  \<comment> \<open>the filter \<open>(n) => nodes.isElement(n) && this.isNameTestPassed(n, test)\<close>\<close>
  "elementNameTest doc test n = (isElement doc n \<and> isNameTestPassed doc n test)"

definition kindTest :: "rnode \<Rightarrow> KindTestType \<Rightarrow> jsstring option \<Rightarrow> nref \<Rightarrow> bool" where
  \<comment> \<open>the filter \<open>(n) => this.isKindTestPassed(n, test)\<close>\<close>
  "kindTest doc kt target n = isKindTestPassed doc n kt target"

definition addIf :: "(nref \<Rightarrow> bool) \<Rightarrow> nref \<Rightarrow> XNodeSet \<Rightarrow> XNodeSet" where
  \<comment> \<open>\<open>if (test(n)) nodeset.add(n)\<close>\<close>
  "addIf test n s = (if test n then add n s else s)"

definition traverseAllLinear :: "rnode \<Rightarrow> nref \<Rightarrow> (nref \<Rightarrow> bool) \<Rightarrow> XNodeSet \<Rightarrow> XNodeSet" where
  "traverseAllLinear doc node test result =
     (if isParent doc node then fold (addIf test) (childRefs doc node) result else result)"

function findAncestorsFrom :: "rnode \<Rightarrow> (nref \<Rightarrow> bool) \<Rightarrow> nat list \<Rightarrow> XNodeSet \<Rightarrow> XNodeSet" where
  \<comment> \<open>the loop of \<open>findAncestors\<close>, entered with a parent that is not \<open>null\<close>\<close>
  "findAncestorsFrom doc test p nodeset =
     (let nodeset' = addIf test (NRef p) nodeset
      in if p = [] \<or> isRoot doc (NRef p) then nodeset'
         else findAncestorsFrom doc test (butlast p) nodeset')"
  by pat_completeness auto
termination
  by (relation "measure (\<lambda>(doc, test, p, s). length p)") auto

definition findAncestors :: "rnode \<Rightarrow> nref \<Rightarrow> (nref \<Rightarrow> bool) \<Rightarrow> XNodeSet \<Rightarrow> XNodeSet" where
  "findAncestors doc node test nodeset =
     (case parent doc node of
        Some (NRef p) \<Rightarrow> findAncestorsFrom doc test p nodeset
      | _ \<Rightarrow> nodeset)"

function descend :: "(nref \<Rightarrow> bool) \<Rightarrow> nat list \<Rightarrow> rnode \<Rightarrow> XNodeSet \<Rightarrow> XNodeSet"
  and descendList :: "(nref \<Rightarrow> bool) \<Rightarrow> nat list \<Rightarrow> nat \<Rightarrow> rnode list \<Rightarrow> XNodeSet \<Rightarrow> XNodeSet" where
  \<comment> \<open>\<open>findDescendants\<close> on the subtree \<open>n\<close> found at \<open>p\<close>; \<open>descendList\<close> is its loop over
      \<open>node.children\<close>, at the child with offset \<open>i\<close>\<close>
  "descend test p n nodeset = descendList test p 0 (children n) nodeset"
| "descendList test p i [] nodeset = nodeset"
| "descendList test p i (c # cs) nodeset =
     descendList test p (Suc i) cs (descend test (p @ [i]) c (addIf test (NRef (p @ [i])) nodeset))"
  by pat_completeness auto
termination
proof (relation "measure (\<lambda>x. case x of Inl (t, p, n, s) \<Rightarrow> 2 * size n + 1
                                      | Inr (t, p, i, cs, s) \<Rightarrow> 2 * size_list size cs)")
  fix test :: "nref \<Rightarrow> bool" and p :: "nat list" and n :: rnode and nodeset :: XNodeSet
  show "(Inr (test, p, 0, children n, nodeset), Inl (test, p, n, nodeset))
      \<in> measure (\<lambda>x. case x of Inl (t, p, n, s) \<Rightarrow> 2 * size n + 1
                                 | Inr (t, p, i, cs, s) \<Rightarrow> 2 * size_list size cs)"
    by (cases n) auto
qed auto

definition findDescendants :: "rnode \<Rightarrow> nref \<Rightarrow> (nref \<Rightarrow> bool) \<Rightarrow> XNodeSet \<Rightarrow> XNodeSet" where
  "findDescendants doc node test nodeset =
     (case node of
        NRef p \<Rightarrow> (case getNode doc p of Some n \<Rightarrow> descend test p n nodeset | None \<Rightarrow> nodeset)
      | _ \<Rightarrow> nodeset)"

definition visitWithDescendants :: "rnode \<Rightarrow> (nref \<Rightarrow> bool) \<Rightarrow> nref list \<Rightarrow> XNodeSet \<Rightarrow> XNodeSet" where
  \<comment> \<open>the body of the \<open>for\<close> loops of \<open>findFollowing\<close> and \<open>findPreceding\<close>, run over the
      children \<open>cs\<close> in the order given\<close>
  "visitWithDescendants doc test cs nodeset =
     fold (\<lambda>c acc. findDescendants doc c test (addIf test c acc)) cs nodeset"

function followLoop :: "rnode \<Rightarrow> (nref \<Rightarrow> bool) \<Rightarrow> nat list \<Rightarrow> nat \<Rightarrow> XNodeSet \<Rightarrow> XNodeSet" where
  \<comment> \<open>the \<open>do ... while (!nodes.isRoot(parent))\<close> loop of \<open>findFollowing\<close>, at the parent
      found at \<open>p\<close> and the offset \<open>i\<close>\<close>
  "followLoop doc test p i nodeset =
     (let nodeset' = visitWithDescendants doc test (drop i (childRefs doc (NRef p))) nodeset
      in if p = [] \<or> isRoot doc (NRef p) then nodeset'
         else if isRoot doc (NRef (butlast p)) then nodeset'
         else followLoop doc test (butlast p) (Suc (last p)) nodeset')"
  by pat_completeness auto
termination
  by (relation "measure (\<lambda>(doc, test, p, i, s). length p)") auto

definition findFollowing :: "rnode \<Rightarrow> nref \<Rightarrow> (nref \<Rightarrow> bool) \<Rightarrow> XNodeSet \<Rightarrow> XNodeSet" where
  "findFollowing doc node test nodeset =
     (if isAttribute doc node \<or> isNamespace doc node
      then (case parent doc node of
              Some (NRef p) \<Rightarrow> followLoop doc test p 0 nodeset
            | _ \<Rightarrow> nodeset)
      else (case (parent doc node, index doc node) of
              (Some (NRef p), Some i) \<Rightarrow> followLoop doc test p (nat (i + 1)) nodeset
            | _ \<Rightarrow> nodeset))"

function precedeLoop :: "rnode \<Rightarrow> (nref \<Rightarrow> bool) \<Rightarrow> nat list \<Rightarrow> nat \<Rightarrow> XNodeSet \<Rightarrow> XNodeSet" where
  \<comment> \<open>the \<open>do ... while (!nodes.isRoot(parent))\<close> loop of \<open>findPreceding\<close>; its \<open>for\<close> loop
      runs from the offset \<open>i\<close> down to 0\<close>
  "precedeLoop doc test p i nodeset =
     (let cs = childRefs doc (NRef p);
          nodeset' = visitWithDescendants doc test
                       (if i < length cs then rev (take (Suc i) cs) else []) nodeset
      in if p = [] \<or> isRoot doc (NRef p) then nodeset'
         else if last p = 0 then nodeset'
         else if isRoot doc (NRef (butlast p)) then nodeset'
         else precedeLoop doc test (butlast p) (last p - 1) nodeset')"
  by pat_completeness auto
termination
  by (relation "measure (\<lambda>(doc, test, p, i, s). length p)") auto

definition findPreceding :: "rnode \<Rightarrow> nref \<Rightarrow> (nref \<Rightarrow> bool) \<Rightarrow> XNodeSet \<Rightarrow> XNodeSet" where
  "findPreceding doc node test nodeset =
     (let start = (if isAttribute doc node \<or> isNamespace doc node
                   then (case parent doc node of Some owner \<Rightarrow> owner | None \<Rightarrow> node)
                   else node)
      in case (parent doc start, index doc start) of
           (Some (NRef p), Some i) \<Rightarrow>
             (if i - 1 < 0 then nodeset else precedeLoop doc test p (nat (i - 1)) nodeset)
         | _ \<Rightarrow> nodeset)"

definition findFollowingSibling :: "rnode \<Rightarrow> nref \<Rightarrow> (nref \<Rightarrow> bool) \<Rightarrow> XNodeSet \<Rightarrow> XNodeSet" where
  "findFollowingSibling doc node test nodeset =
     (if isAttribute doc node \<or> isNamespace doc node \<or> isRoot doc node then nodeset
      else (case (parent doc node, index doc node) of
              (Some par, Some i) \<Rightarrow> fold (addIf test) (drop (nat (i + 1)) (childRefs doc par)) nodeset
            | _ \<Rightarrow> nodeset))"

definition findPrecedingSibling :: "rnode \<Rightarrow> nref \<Rightarrow> (nref \<Rightarrow> bool) \<Rightarrow> XNodeSet \<Rightarrow> XNodeSet" where
  "findPrecedingSibling doc node test nodeset =
     (if isAttribute doc node \<or> isNamespace doc node \<or> isRoot doc node then nodeset
      else (case (parent doc node, index doc node) of
              (Some par, Some i) \<Rightarrow> fold (addIf test) (rev (take (nat i) (childRefs doc par))) nodeset
            | _ \<Rightarrow> nodeset))"

definition attributeTest :: "rnode \<Rightarrow> NodeTest \<Rightarrow> nref \<Rightarrow> bool" where
  \<comment> \<open>the test \<open>findAttribute\<close> applies to each attribute: of the kind tests only \<open>node()\<close>
      passes\<close>
  "attributeTest doc test a = (case test of
       KindTest kt target \<Rightarrow> kt = KindNode
     | NameTest nt \<Rightarrow> isNameTestPassed doc a nt)"

definition findAttribute :: "rnode \<Rightarrow> nref \<Rightarrow> NodeTest \<Rightarrow> XNodeSet \<Rightarrow> XNodeSet" where
  "findAttribute doc node test nodeset =
     (case node of
        NRef p \<Rightarrow> (case getNode doc p of
            Some (ElementNode info cs) \<Rightarrow>
              (if \<not> hasAttribute info then nodeset
               else fold (addIf (attributeTest doc test))
                      (map (\<lambda>kv. ARef p (fst kv)) (attributes info)) nodeset)
          | _ \<Rightarrow> nodeset)
      | _ \<Rightarrow> nodeset)"

definition addNodeset :: "XNodeSet \<Rightarrow> XNodeSet list \<Rightarrow> XNodeSet list" where
  \<comment> \<open>\<open>if (nodeset.size) this.nodesetArray.push(nodeset)\<close>\<close>
  "addNodeset nodeset arr = (if nodeset \<noteq> [] then arr @ [nodeset] else arr)"

definition forEachItem :: "XNodeSet \<Rightarrow> (nref \<Rightarrow> XNodeSet) \<Rightarrow> XNodeSet list" where
  \<comment> \<open>\<open>for (const item of this.nodeset) { ...; this.addNodeset(nodeset) }\<close>\<close>
  "forEachItem items f = fold (\<lambda>item arr. addNodeset (f item) arr) items []"

subsection \<open>Steps without a leading slash: the context node\<close>

definition s0Self :: "rnode \<Rightarrow> nref \<Rightarrow> XNodeSet list" where
  "s0Self doc node = [[node]]"

definition s0Parent :: "rnode \<Rightarrow> nref \<Rightarrow> XNodeSet list" where
  "s0Parent doc node = (case parent doc node of Some par \<Rightarrow> [[par]] | None \<Rightarrow> [])"

definition s0ChildNameTest :: "rnode \<Rightarrow> nref \<Rightarrow> NameTest \<Rightarrow> XNodeSet list" where
  "s0ChildNameTest doc node test =
     (if isParent doc node
      then addNodeset (traverseAllLinear doc node (elementNameTest doc test) []) []
      else [])"

definition s0ChildKindTest :: "rnode \<Rightarrow> nref \<Rightarrow> KindTestType \<Rightarrow> jsstring option \<Rightarrow> XNodeSet list" where
  "s0ChildKindTest doc node kt target =
     (if isParent doc node
      then addNodeset (traverseAllLinear doc node (kindTest doc kt target) []) []
      else [])"

definition s0SelfNameTest :: "rnode \<Rightarrow> nref \<Rightarrow> NameTest \<Rightarrow> XNodeSet list" where
  "s0SelfNameTest doc node test = (if elementNameTest doc test node then [[node]] else [])"

definition s0SelfKindTest :: "rnode \<Rightarrow> nref \<Rightarrow> KindTestType \<Rightarrow> jsstring option \<Rightarrow> XNodeSet list" where
  "s0SelfKindTest doc node kt target = (if kindTest doc kt target node then [[node]] else [])"

definition s0AncestorNameTest :: "rnode \<Rightarrow> nref \<Rightarrow> NameTest \<Rightarrow> XNodeSet list" where
  "s0AncestorNameTest doc node test =
     addNodeset (findAncestors doc node (elementNameTest doc test) []) []"

definition s0AncestorKindTest :: "rnode \<Rightarrow> nref \<Rightarrow> KindTestType \<Rightarrow> jsstring option \<Rightarrow> XNodeSet list" where
  "s0AncestorKindTest doc node kt target =
     addNodeset (findAncestors doc node (kindTest doc kt target) []) []"

definition s0AncestorOrSelfNameTest :: "rnode \<Rightarrow> nref \<Rightarrow> NameTest \<Rightarrow> XNodeSet list" where
  "s0AncestorOrSelfNameTest doc node test =
     addNodeset (findAncestors doc node (elementNameTest doc test)
                   (addIf (elementNameTest doc test) node [])) []"

definition s0AncestorOrSelfKindTest :: "rnode \<Rightarrow> nref \<Rightarrow> KindTestType \<Rightarrow> jsstring option \<Rightarrow> XNodeSet list" where
  "s0AncestorOrSelfKindTest doc node kt target =
     addNodeset (findAncestors doc node (kindTest doc kt target)
                   (addIf (kindTest doc kt target) node [])) []"

definition s0Attribute :: "rnode \<Rightarrow> nref \<Rightarrow> NodeTest \<Rightarrow> XNodeSet list" where
  \<comment> \<open>\<open>s0AttributeNameTest\<close> and \<open>s0AttributeKindTest\<close>, which have the same body\<close>
  "s0Attribute doc node test =
     (if isElement doc node then addNodeset (findAttribute doc node test []) [] else [])"

definition s0DescendantNameTest :: "rnode \<Rightarrow> nref \<Rightarrow> NameTest \<Rightarrow> XNodeSet list" where
  "s0DescendantNameTest doc node test =
     addNodeset (findDescendants doc node (elementNameTest doc test) []) []"

definition s0DescendantKindTest :: "rnode \<Rightarrow> nref \<Rightarrow> KindTestType \<Rightarrow> jsstring option \<Rightarrow> XNodeSet list" where
  "s0DescendantKindTest doc node kt target =
     addNodeset (findDescendants doc node (kindTest doc kt target) []) []"

definition s0DescendantOrSelfNameTest :: "rnode \<Rightarrow> nref \<Rightarrow> NameTest \<Rightarrow> XNodeSet list" where
  "s0DescendantOrSelfNameTest doc node test =
     addNodeset (findDescendants doc node (elementNameTest doc test)
                   (addIf (elementNameTest doc test) node [])) []"

definition s0DescendantOrSelfKindTest :: "rnode \<Rightarrow> nref \<Rightarrow> KindTestType \<Rightarrow> jsstring option \<Rightarrow> XNodeSet list" where
  "s0DescendantOrSelfKindTest doc node kt target =
     addNodeset (findDescendants doc node (kindTest doc kt target)
                   (addIf (kindTest doc kt target) node [])) []"

definition s0FollowingNameTest :: "rnode \<Rightarrow> nref \<Rightarrow> NameTest \<Rightarrow> XNodeSet list" where
  "s0FollowingNameTest doc node test =
     addNodeset (findFollowing doc node (elementNameTest doc test) []) []"

definition s0FollowingKindTest :: "rnode \<Rightarrow> nref \<Rightarrow> KindTestType \<Rightarrow> jsstring option \<Rightarrow> XNodeSet list" where
  "s0FollowingKindTest doc node kt target =
     addNodeset (findFollowing doc node (kindTest doc kt target) []) []"

definition s0FollowingSiblingNameTest :: "rnode \<Rightarrow> nref \<Rightarrow> NameTest \<Rightarrow> XNodeSet list" where
  "s0FollowingSiblingNameTest doc node test =
     addNodeset (findFollowingSibling doc node (elementNameTest doc test) []) []"

definition s0FollowingSiblingKindTest :: "rnode \<Rightarrow> nref \<Rightarrow> KindTestType \<Rightarrow> jsstring option \<Rightarrow> XNodeSet list" where
  "s0FollowingSiblingKindTest doc node kt target =
     addNodeset (findFollowingSibling doc node (kindTest doc kt target) []) []"

definition s0ParentNameTest :: "rnode \<Rightarrow> nref \<Rightarrow> NameTest \<Rightarrow> XNodeSet list" where
  "s0ParentNameTest doc node test =
     (case parent doc node of
        Some par \<Rightarrow> (if \<not> isRoot doc par \<and> isNameTestPassed doc par test then [[par]] else [])
      | None \<Rightarrow> [])"

definition s0ParentKindTest :: "rnode \<Rightarrow> nref \<Rightarrow> KindTestType \<Rightarrow> jsstring option \<Rightarrow> XNodeSet list" where
  "s0ParentKindTest doc node kt target =
     (case parent doc node of
        Some par \<Rightarrow> (if isKindTestPassed doc par kt target then [[par]] else [])
      | None \<Rightarrow> [])"

definition s0PrecedingNameTest :: "rnode \<Rightarrow> nref \<Rightarrow> NameTest \<Rightarrow> XNodeSet list" where
  "s0PrecedingNameTest doc node test =
     addNodeset (findPreceding doc node (elementNameTest doc test) []) []"

definition s0PrecedingKindTest :: "rnode \<Rightarrow> nref \<Rightarrow> KindTestType \<Rightarrow> jsstring option \<Rightarrow> XNodeSet list" where
  "s0PrecedingKindTest doc node kt target =
     addNodeset (findPreceding doc node (kindTest doc kt target) []) []"

definition s0PrecedingSiblingNameTest :: "rnode \<Rightarrow> nref \<Rightarrow> NameTest \<Rightarrow> XNodeSet list" where
  "s0PrecedingSiblingNameTest doc node test =
     addNodeset (findPrecedingSibling doc node (elementNameTest doc test) []) []"

definition s0PrecedingSiblingKindTest :: "rnode \<Rightarrow> nref \<Rightarrow> KindTestType \<Rightarrow> jsstring option \<Rightarrow> XNodeSet list" where
  "s0PrecedingSiblingKindTest doc node kt target =
     addNodeset (findPrecedingSibling doc node (kindTest doc kt target) []) []"

subsection \<open>Steps after a slash: the node-set of the previous step\<close>

text \<open>
  \<open>visitStepNode\<close> hands \<open>data.value\<close> to \<open>PathState\<close> unchecked, so \<open>this.nodeset\<close> is any
  value a datum can hold: a \<open>Set\<close>, a scalar (whose \<open>size\<close> is \<open>undefined\<close>), or \<open>null\<close>.
\<close>

datatype XDataCType = VNumber jsnum | VString jsstring | VBoolean bool | VNodeset XNodeSet
  | VNull

definition sizeFalsy :: "XDataCType \<Rightarrow> error + bool" where
  \<comment> \<open>\<open>!this.nodeset.size\<close>\<close>
  "sizeFalsy v = (case v of VNodeset ns \<Rightarrow> Inr (ns = []) | VNull \<Rightarrow> Inl TypeError | _ \<Rightarrow> Inr True)"

definition items :: "XDataCType \<Rightarrow> XNodeSet" where
  \<comment> \<open>the members a \<open>for ... of\<close> loop visits, once \<open>size\<close> is known to be truthy\<close>
  "items v = (case v of VNodeset ns \<Rightarrow> ns | _ \<Rightarrow> [])"

definition whenNonEmpty :: "XDataCType \<Rightarrow> (XNodeSet \<Rightarrow> XNodeSet list) \<Rightarrow> error + XNodeSet list" where
  \<comment> \<open>\<open>if (!this.nodeset.size) return; ...\<close>\<close>
  "whenNonEmpty v f = (case sizeFalsy v of
       Inl e \<Rightarrow> Inl e
     | Inr emp \<Rightarrow> Inr (if emp then [] else f (items v)))"

definition firstOrEach :: "XDataCType \<Rightarrow> XNodeSet list \<Rightarrow> (XNodeSet \<Rightarrow> XNodeSet list)
    \<Rightarrow> error + XNodeSet list" where
  \<comment> \<open>\<open>if (!this.nodeset.size) { first step } else { for (const item of this.nodeset) ... }\<close>\<close>
  "firstOrEach v first f = (case sizeFalsy v of
       Inl e \<Rightarrow> Inl e
     | Inr emp \<Rightarrow> Inr (if emp then first else f (items v)))"

definition rootElementRef :: "rnode \<Rightarrow> nref option" where
  \<comment> \<open>\<open>this.root.rootElement\<close>\<close>
  "rootElementRef doc = (case doc of RootNode cs (Some i) nss \<Rightarrow> Some (NRef [i]) | _ \<Rightarrow> None)"

definition s1Self :: "rnode \<Rightarrow> XDataCType \<Rightarrow> error + XNodeSet list" where
  "s1Self doc nodeset = firstOrEach nodeset [[NRef []]] (\<lambda>ns. addNodeset (newSet ns) [])"

definition s1Parent :: "rnode \<Rightarrow> XDataCType \<Rightarrow> error + XNodeSet list" where
  "s1Parent doc nodeset = whenNonEmpty nodeset (\<lambda>ns.
     forEachItem ns (\<lambda>n. case parent doc n of Some par \<Rightarrow> [par] | None \<Rightarrow> []))"

definition s1ChildNameTest :: "rnode \<Rightarrow> XDataCType \<Rightarrow> NameTest \<Rightarrow> error + XNodeSet list" where
  \<comment> \<open>at the first step the test is applied to \<open>this.root.rootElement\<close>; when that is \<open>null\<close>
      a name is read from \<open>null\<close>, except that the wildcard reads nothing and puts \<open>null\<close> into
      the node-set\<close>
  "s1ChildNameTest doc nodeset test = (case sizeFalsy nodeset of
       Inl e \<Rightarrow> Inl e
     | Inr True \<Rightarrow> (case rootElementRef doc of
           None \<Rightarrow> (if test = Wildcard then Inr (addNodeset [NullRef] []) else Inl TypeError)
         | Some rootElem \<Rightarrow>
             Inr (addNodeset (if isNameTestPassed doc rootElem test then [rootElem] else []) []))
     | Inr False \<Rightarrow> Inr (forEachItem (items nodeset) (\<lambda>item.
           if isParent doc item
           then traverseAllLinear doc item (elementNameTest doc test) [] else [])))"

definition s1ChildKindTest :: "rnode \<Rightarrow> XDataCType \<Rightarrow> KindTestType \<Rightarrow> jsstring option
    \<Rightarrow> error + XNodeSet list" where
  "s1ChildKindTest doc nodeset kt target = (case sizeFalsy nodeset of
       Inl e \<Rightarrow> Inl e
     | Inr True \<Rightarrow> (case rootElementRef doc of
           None \<Rightarrow> (if kt = KindNode then Inr (addNodeset [NullRef] []) else Inl TypeError)
         | Some rootElem \<Rightarrow>
             Inr (addNodeset (if isKindTestPassed doc rootElem kt target then [rootElem] else []) []))
     | Inr False \<Rightarrow> Inr (forEachItem (items nodeset) (\<lambda>item.
           if isParent doc item
           then traverseAllLinear doc item (kindTest doc kt target) [] else [])))"

definition s1SelfNameTest :: "rnode \<Rightarrow> XDataCType \<Rightarrow> NameTest \<Rightarrow> error + XNodeSet list" where
  "s1SelfNameTest doc nodeset test = whenNonEmpty nodeset (\<lambda>ns.
     forEachItem ns (\<lambda>n. if elementNameTest doc test n then [n] else []))"

definition s1SelfKindTest :: "rnode \<Rightarrow> XDataCType \<Rightarrow> KindTestType \<Rightarrow> jsstring option
    \<Rightarrow> error + XNodeSet list" where
  "s1SelfKindTest doc nodeset kt target =
     firstOrEach nodeset (if kt \<noteq> KindNode then [] else [[NRef []]])
       (\<lambda>ns. forEachItem ns (\<lambda>n. if kindTest doc kt target n then [n] else []))"

definition s1AncestorNameTest :: "rnode \<Rightarrow> XDataCType \<Rightarrow> NameTest \<Rightarrow> error + XNodeSet list" where
  "s1AncestorNameTest doc nodeset test = whenNonEmpty nodeset (\<lambda>ns.
     forEachItem ns (\<lambda>item. findAncestors doc item (elementNameTest doc test) []))"

definition s1AncestorKindTest :: "rnode \<Rightarrow> XDataCType \<Rightarrow> KindTestType \<Rightarrow> jsstring option
    \<Rightarrow> error + XNodeSet list" where
  "s1AncestorKindTest doc nodeset kt target = whenNonEmpty nodeset (\<lambda>ns.
     forEachItem ns (\<lambda>item. findAncestors doc item (kindTest doc kt target) []))"

definition s1AncestorOrSelfNameTest :: "rnode \<Rightarrow> XDataCType \<Rightarrow> NameTest \<Rightarrow> error + XNodeSet list" where
  "s1AncestorOrSelfNameTest doc nodeset test = whenNonEmpty nodeset (\<lambda>ns.
     forEachItem ns (\<lambda>item. findAncestors doc item (elementNameTest doc test)
                               (addIf (elementNameTest doc test) item [])))"

definition s1AncestorOrSelfKindTest :: "rnode \<Rightarrow> XDataCType \<Rightarrow> KindTestType \<Rightarrow> jsstring option
    \<Rightarrow> error + XNodeSet list" where
  "s1AncestorOrSelfKindTest doc nodeset kt target =
     firstOrEach nodeset (if kt \<noteq> KindNode then [] else [[NRef []]])
       (\<lambda>ns. forEachItem ns (\<lambda>item. findAncestors doc item (kindTest doc kt target)
                                       (addIf (kindTest doc kt target) item [])))"

definition s1Attribute :: "rnode \<Rightarrow> XDataCType \<Rightarrow> NodeTest \<Rightarrow> error + XNodeSet list" where
  \<comment> \<open>\<open>s1AttributeNameTest\<close> and \<open>s1AttributeKindTest\<close>, which have the same body\<close>
  "s1Attribute doc nodeset test = whenNonEmpty nodeset (\<lambda>ns.
     forEachItem ns (\<lambda>item. if isElement doc item then findAttribute doc item test [] else []))"

definition s1DescendantNameTest :: "rnode \<Rightarrow> XDataCType \<Rightarrow> NameTest \<Rightarrow> error + XNodeSet list" where
  "s1DescendantNameTest doc nodeset test =
     firstOrEach nodeset
       (addNodeset (findDescendants doc (NRef []) (elementNameTest doc test) []) [])
       (\<lambda>ns. forEachItem ns (\<lambda>item. findDescendants doc item (elementNameTest doc test) []))"

definition s1DescendantKindTest :: "rnode \<Rightarrow> XDataCType \<Rightarrow> KindTestType \<Rightarrow> jsstring option
    \<Rightarrow> error + XNodeSet list" where
  "s1DescendantKindTest doc nodeset kt target =
     firstOrEach nodeset
       (addNodeset (findDescendants doc (NRef []) (kindTest doc kt target) []) [])
       (\<lambda>ns. forEachItem ns (\<lambda>item. findDescendants doc item (kindTest doc kt target) []))"

definition s1DescendantOrSelfNameTest :: "rnode \<Rightarrow> XDataCType \<Rightarrow> NameTest \<Rightarrow> error + XNodeSet list" where
  "s1DescendantOrSelfNameTest doc nodeset test =
     firstOrEach nodeset
       (addNodeset (findDescendants doc (NRef []) (elementNameTest doc test) []) [])
       (\<lambda>ns. forEachItem ns (\<lambda>item. findDescendants doc item (elementNameTest doc test)
                                       (addIf (elementNameTest doc test) item [])))"

definition s1DescendantOrSelfKindTest :: "rnode \<Rightarrow> XDataCType \<Rightarrow> KindTestType \<Rightarrow> jsstring option
    \<Rightarrow> error + XNodeSet list" where
  "s1DescendantOrSelfKindTest doc nodeset kt target =
     firstOrEach nodeset
       (addNodeset (findDescendants doc (NRef []) (kindTest doc kt target)
                      (addIf (kindTest doc kt target) (NRef []) [])) [])
       (\<lambda>ns. forEachItem ns (\<lambda>item. findDescendants doc item (kindTest doc kt target)
                                       (addIf (kindTest doc kt target) item [])))"

definition s1FollowingNameTest :: "rnode \<Rightarrow> XDataCType \<Rightarrow> NameTest \<Rightarrow> error + XNodeSet list" where
  "s1FollowingNameTest doc nodeset test = whenNonEmpty nodeset (\<lambda>ns.
     forEachItem ns (\<lambda>item. findFollowing doc item (elementNameTest doc test) []))"

definition s1FollowingKindTest :: "rnode \<Rightarrow> XDataCType \<Rightarrow> KindTestType \<Rightarrow> jsstring option
    \<Rightarrow> error + XNodeSet list" where
  "s1FollowingKindTest doc nodeset kt target = whenNonEmpty nodeset (\<lambda>ns.
     forEachItem ns (\<lambda>item. findFollowing doc item (kindTest doc kt target) []))"

definition s1FollowingSiblingNameTest :: "rnode \<Rightarrow> XDataCType \<Rightarrow> NameTest \<Rightarrow> error + XNodeSet list" where
  "s1FollowingSiblingNameTest doc nodeset test = whenNonEmpty nodeset (\<lambda>ns.
     forEachItem ns (\<lambda>item. findFollowingSibling doc item (elementNameTest doc test) []))"

definition s1FollowingSiblingKindTest :: "rnode \<Rightarrow> XDataCType \<Rightarrow> KindTestType \<Rightarrow> jsstring option
    \<Rightarrow> error + XNodeSet list" where
  "s1FollowingSiblingKindTest doc nodeset kt target = whenNonEmpty nodeset (\<lambda>ns.
     forEachItem ns (\<lambda>item. findFollowingSibling doc item (kindTest doc kt target) []))"

definition s1ParentNameTest :: "rnode \<Rightarrow> XDataCType \<Rightarrow> NameTest \<Rightarrow> error + XNodeSet list" where
  "s1ParentNameTest doc nodeset test = whenNonEmpty nodeset (\<lambda>ns.
     forEachItem ns (\<lambda>item. case parent doc item of
         Some par \<Rightarrow> (if \<not> isRoot doc par \<and> isNameTestPassed doc par test then [par] else [])
       | None \<Rightarrow> []))"

definition s1ParentKindTest :: "rnode \<Rightarrow> XDataCType \<Rightarrow> KindTestType \<Rightarrow> jsstring option
    \<Rightarrow> error + XNodeSet list" where
  \<comment> \<open>no test of \<open>size\<close> here: the loop runs over whatever \<open>this.nodeset\<close> is. A number, a
      boolean and \<open>null\<close> are not iterable; the characters of a string have no \<open>parent\<close>\<close>
  "s1ParentKindTest doc nodeset kt target = (case nodeset of
       VNodeset ns \<Rightarrow> Inr (forEachItem ns (\<lambda>item. case parent doc item of
           Some par \<Rightarrow> (if isKindTestPassed doc par kt target then [par] else [])
         | None \<Rightarrow> []))
     | VString s \<Rightarrow> Inr []
     | _ \<Rightarrow> Inl TypeError)"

definition s1PrecedingNameTest :: "rnode \<Rightarrow> XDataCType \<Rightarrow> NameTest \<Rightarrow> error + XNodeSet list" where
  "s1PrecedingNameTest doc nodeset test = whenNonEmpty nodeset (\<lambda>ns.
     forEachItem ns (\<lambda>item. findPreceding doc item (elementNameTest doc test) []))"

definition s1PrecedingKindTest :: "rnode \<Rightarrow> XDataCType \<Rightarrow> KindTestType \<Rightarrow> jsstring option
    \<Rightarrow> error + XNodeSet list" where
  "s1PrecedingKindTest doc nodeset kt target = whenNonEmpty nodeset (\<lambda>ns.
     forEachItem ns (\<lambda>item. findPreceding doc item (kindTest doc kt target) []))"

definition s1PrecedingSiblingNameTest :: "rnode \<Rightarrow> XDataCType \<Rightarrow> NameTest \<Rightarrow> error + XNodeSet list" where
  "s1PrecedingSiblingNameTest doc nodeset test = whenNonEmpty nodeset (\<lambda>ns.
     forEachItem ns (\<lambda>item. findPrecedingSibling doc item (elementNameTest doc test) []))"

definition s1PrecedingSiblingKindTest :: "rnode \<Rightarrow> XDataCType \<Rightarrow> KindTestType \<Rightarrow> jsstring option
    \<Rightarrow> error + XNodeSet list" where
  "s1PrecedingSiblingKindTest doc nodeset kt target = whenNonEmpty nodeset (\<lambda>ns.
     forEachItem ns (\<lambda>item. findPrecedingSibling doc item (kindTest doc kt target) []))"

subsection \<open>The dispatch of \<open>PathState.step\<close>\<close>

fun s0NameTest :: "rnode \<Rightarrow> nref \<Rightarrow> Axis \<Rightarrow> NameTest \<Rightarrow> error + XNodeSet list" where
  "s0NameTest doc node Ancestor t = Inr (s0AncestorNameTest doc node t)"
| "s0NameTest doc node AncestorOrSelf t = Inr (s0AncestorOrSelfNameTest doc node t)"
| "s0NameTest doc node AttributeAxis t = Inr (s0Attribute doc node (NameTest t))"
| "s0NameTest doc node Child t = Inr (s0ChildNameTest doc node t)"
| "s0NameTest doc node Descendant t = Inr (s0DescendantNameTest doc node t)"
| "s0NameTest doc node DescendantOrSelf t = Inr (s0DescendantOrSelfNameTest doc node t)"
| "s0NameTest doc node Following t = Inr (s0FollowingNameTest doc node t)"
| "s0NameTest doc node FollowingSibling t = Inr (s0FollowingSiblingNameTest doc node t)"
| "s0NameTest doc node NamespaceAxis t = Inl TypeError"
| "s0NameTest doc node Parent t = Inr (s0ParentNameTest doc node t)"
| "s0NameTest doc node Preceding t = Inr (s0PrecedingNameTest doc node t)"
| "s0NameTest doc node PrecedingSibling t = Inr (s0PrecedingSiblingNameTest doc node t)"
| "s0NameTest doc node Self t = Inr (s0SelfNameTest doc node t)"

fun s0KindTest :: "rnode \<Rightarrow> nref \<Rightarrow> Axis \<Rightarrow> KindTestType \<Rightarrow> jsstring option \<Rightarrow> error + XNodeSet list" where
  "s0KindTest doc node Ancestor k g = Inr (s0AncestorKindTest doc node k g)"
| "s0KindTest doc node AncestorOrSelf k g = Inr (s0AncestorOrSelfKindTest doc node k g)"
| "s0KindTest doc node AttributeAxis k g = Inr (s0Attribute doc node (KindTest k g))"
| "s0KindTest doc node Child k g = Inr (s0ChildKindTest doc node k g)"
| "s0KindTest doc node Descendant k g = Inr (s0DescendantKindTest doc node k g)"
| "s0KindTest doc node DescendantOrSelf k g = Inr (s0DescendantOrSelfKindTest doc node k g)"
| "s0KindTest doc node Following k g = Inr (s0FollowingKindTest doc node k g)"
| "s0KindTest doc node FollowingSibling k g = Inr (s0FollowingSiblingKindTest doc node k g)"
| "s0KindTest doc node NamespaceAxis k g = Inl TypeError"
| "s0KindTest doc node Parent k g = Inr (s0ParentKindTest doc node k g)"
| "s0KindTest doc node Preceding k g = Inr (s0PrecedingKindTest doc node k g)"
| "s0KindTest doc node PrecedingSibling k g = Inr (s0PrecedingSiblingKindTest doc node k g)"
| "s0KindTest doc node Self k g = Inr (s0SelfKindTest doc node k g)"

fun s1NameTest :: "rnode \<Rightarrow> XDataCType \<Rightarrow> Axis \<Rightarrow> NameTest \<Rightarrow> error + XNodeSet list" where
  "s1NameTest doc ns Ancestor t = s1AncestorNameTest doc ns t"
| "s1NameTest doc ns AncestorOrSelf t = s1AncestorOrSelfNameTest doc ns t"
| "s1NameTest doc ns AttributeAxis t = s1Attribute doc ns (NameTest t)"
| "s1NameTest doc ns Child t = s1ChildNameTest doc ns t"
| "s1NameTest doc ns Descendant t = s1DescendantNameTest doc ns t"
| "s1NameTest doc ns DescendantOrSelf t = s1DescendantOrSelfNameTest doc ns t"
| "s1NameTest doc ns Following t = s1FollowingNameTest doc ns t"
| "s1NameTest doc ns FollowingSibling t = s1FollowingSiblingNameTest doc ns t"
| "s1NameTest doc ns NamespaceAxis t = Inl TypeError"
| "s1NameTest doc ns Parent t = s1ParentNameTest doc ns t"
| "s1NameTest doc ns Preceding t = s1PrecedingNameTest doc ns t"
| "s1NameTest doc ns PrecedingSibling t = s1PrecedingSiblingNameTest doc ns t"
| "s1NameTest doc ns Self t = s1SelfNameTest doc ns t"

fun s1KindTest :: "rnode \<Rightarrow> XDataCType \<Rightarrow> Axis \<Rightarrow> KindTestType \<Rightarrow> jsstring option \<Rightarrow> error + XNodeSet list" where
  "s1KindTest doc ns Ancestor k g = s1AncestorKindTest doc ns k g"
| "s1KindTest doc ns AncestorOrSelf k g = s1AncestorOrSelfKindTest doc ns k g"
| "s1KindTest doc ns AttributeAxis k g = s1Attribute doc ns (KindTest k g)"
| "s1KindTest doc ns Child k g = s1ChildKindTest doc ns k g"
| "s1KindTest doc ns Descendant k g = s1DescendantKindTest doc ns k g"
| "s1KindTest doc ns DescendantOrSelf k g = s1DescendantOrSelfKindTest doc ns k g"
| "s1KindTest doc ns Following k g = s1FollowingKindTest doc ns k g"
| "s1KindTest doc ns FollowingSibling k g = s1FollowingSiblingKindTest doc ns k g"
| "s1KindTest doc ns NamespaceAxis k g = Inl TypeError"
| "s1KindTest doc ns Parent k g = s1ParentKindTest doc ns k g"
| "s1KindTest doc ns Preceding k g = s1PrecedingKindTest doc ns k g"
| "s1KindTest doc ns PrecedingSibling k g = s1PrecedingSiblingKindTest doc ns k g"
| "s1KindTest doc ns Self k g = s1SelfKindTest doc ns k g"

definition readsNode :: "StepSpec \<Rightarrow> bool" where
  \<comment> \<open>whether the method of a step reads a field of the nodes it starts from. \<open>s0Self\<close> and
      \<open>s1Self\<close> put them into the result unread, and so do \<open>s0SelfKindTest\<close> and
      \<open>s1SelfKindTest\<close> for \<open>node()\<close>, for which \<open>isKindTestPassed\<close> returns \<open>true\<close> at once;
      every other method tests the type of the node or reads its parent\<close>
  "readsNode st = (case st of
       StepSelf \<Rightarrow> False
     | StepParent \<Rightarrow> True
     | AxisStep axis (NameTest t) \<Rightarrow> True
     | AxisStep axis (KindTest k g) \<Rightarrow> \<not> (axis = Self \<and> k = KindNode))"

definition step :: "rnode \<Rightarrow> XDataCType \<Rightarrow> nref \<Rightarrow> PathSpec \<Rightarrow> StepSpec \<Rightarrow> error + XNodeSet list" where
  \<comment> \<open>\<open>construct(nodeset, node, root)\<close>, \<open>step(stepNode)\<close> and \<open>result()\<close>: the method is
      picked by \<open>s1\<close> for \<open>PathSpec.Single\<close> and \<open>s0\<close> otherwise, then by the step, the axis
      and the kind of node test; the namespace axis has no method. An \<open>s1\<close> method starts from
      the members of \<open>nodeset\<close>, an \<open>s0\<close> method from \<open>node\<close>; one that reads them throws a
      \<open>TypeError\<close> at \<open>null\<close>\<close>
  "step doc nodeset node path st =
     (if readsNode st \<and> (if path = Single then NullRef \<in> set (items nodeset) else node = NullRef)
      then Inl TypeError
      else if path = Single
      then (case st of
              StepSelf \<Rightarrow> s1Self doc nodeset
            | StepParent \<Rightarrow> s1Parent doc nodeset
            | AxisStep axis (NameTest t) \<Rightarrow> s1NameTest doc nodeset axis t
            | AxisStep axis (KindTest k g) \<Rightarrow> s1KindTest doc nodeset axis k g)
      else (case st of
              StepSelf \<Rightarrow> Inr (s0Self doc node)
            | StepParent \<Rightarrow> Inr (s0Parent doc node)
            | AxisStep axis (NameTest t) \<Rightarrow> s0NameTest doc node axis t
            | AxisStep axis (KindTest k g) \<Rightarrow> s0KindTest doc node axis k g))"

section \<open>Values and conversions (XDataEval)\<close>

text \<open>
  What the code takes from the JavaScript runtime and from \<open>render.ts\<close> (whose entity table
  is in \<open>constants.ts\<close>) is a parameter of the evaluator: the conversion of a string to a
  number (unary \<open>+\<close>), \<open>Number.prototype.toString\<close>, \<open>String.prototype.toLowerCase\<close> and
  \<open>Render.transposeEntities\<close>.
\<close>

record jsenv =
  stringToNumber :: "jsstring \<Rightarrow> jsnum"
  numberToString :: "jsnum \<Rightarrow> jsstring"
  toLowerCase :: "jsstring \<Rightarrow> jsstring"
  transposeEntities :: "jsstring \<Rightarrow> jsstring"

definition isWhiteSpace :: "char \<Rightarrow> bool" where
  \<comment> \<open>the white space and line terminators among the code units below 256\<close>
  "isWhiteSpace c = (of_char c \<in> {9, 10, 11, 12, 13, 32, 160 :: nat})"

definition trim :: "jsstring \<Rightarrow> jsstring" where
  \<comment> \<open>\<open>String.prototype.trim\<close>\<close>
  "trim s = rev (dropWhile isWhiteSpace (rev (dropWhile isWhiteSpace s)))"

definition valueNumber :: "jsenv \<Rightarrow> jsstring \<Rightarrow> jsnum" where
  \<comment> \<open>\<open>this.value.trim().length ? +this.value : NaN\<close>\<close>
  "valueNumber env v = (if trim v \<noteq> [] then stringToNumber env v else NaN)"

fun childrenString :: "jsenv \<Rightarrow> bool \<Rightarrow> bool \<Rightarrow> rnode list \<Rightarrow> jsstring" where
  \<comment> \<open>the loop of \<open>ElementNode.stringValue(transformNamedEntities, checkType)\<close> over
      \<open>this.children\<close>; with \<open>checkType\<close> it stops at the first text that is no number\<close>
  "childrenString env tr chk [] = []"
| "childrenString env tr chk (TextNode q v # cs) =
     (if chk \<and> isNaN (valueNumber env v) then []
      else (if tr then transposeEntities env v else v) @ childrenString env tr chk cs)"
| "childrenString env tr chk (ElementNode info cs' # cs) =
     childrenString env tr chk cs' @ childrenString env tr chk cs"
| "childrenString env tr chk (c # cs) = childrenString env tr chk cs"

definition stringValue :: "jsenv \<Rightarrow> rnode \<Rightarrow> nref \<Rightarrow> jsstring" where
  \<comment> \<open>\<open>node.stringValue()\<close>\<close>
  "stringValue env doc r = (case r of
       NRef p \<Rightarrow> (case getNode doc p of
           Some (RootNode cs re nss) \<Rightarrow> childrenString env True False cs
         | Some (ElementNode info cs) \<Rightarrow> childrenString env True False cs
         | Some (TextNode q v) \<Rightarrow> transposeEntities env v
         | Some (CommentNode q v) \<Rightarrow> v
         | Some (PINode q t v) \<Rightarrow> v
         | None \<Rightarrow> [])
     | ARef p k \<Rightarrow> (case getAttribute doc p k of Some a \<Rightarrow> attrValue a | None \<Rightarrow> [])
     | NullRef \<Rightarrow> [])"

definition numberValue :: "jsenv \<Rightarrow> rnode \<Rightarrow> nref \<Rightarrow> jsnum" where
  \<comment> \<open>\<open>node.numberValue()\<close>\<close>
  "numberValue env doc r = (case r of
       NRef p \<Rightarrow> (case getNode doc p of
           Some (RootNode cs re nss) \<Rightarrow> NaN
         | Some (ElementNode info cs) \<Rightarrow> valueNumber env (childrenString env False True cs)
         | Some (TextNode q v) \<Rightarrow> valueNumber env v
         | Some (CommentNode q v) \<Rightarrow> valueNumber env v
         | Some (PINode q t v) \<Rightarrow> valueNumber env v
         | None \<Rightarrow> NaN)
     | ARef p k \<Rightarrow> (case getAttribute doc p k of Some a \<Rightarrow> valueNumber env (attrValue a)
                    | None \<Rightarrow> NaN)
     | NullRef \<Rightarrow> NaN)"

text \<open>
  A datum \<open>{cType, value, nodesetArray?}\<close>. Every datum the evaluator builds has a value of
  the type its \<open>cType\<close> names, except the one \<open>visitStepNode\<close> pushes for a step with
  predicates: \<open>cType\<close> is \<open>Nodeset\<close>, \<open>value\<close> is \<open>null\<close>, and \<open>nodesetArray\<close> holds the
  partitions. That one is \<open>XPartitions\<close>.
\<close>

datatype XData =
    XNumber jsnum
  | XString jsstring
  | XBoolean bool
  | XNodeset XNodeSet "XNodeSet list option"   \<comment> \<open>\<open>value\<close> and \<open>nodesetArray\<close>\<close>
  | XPartitions "XNodeSet list"

fun dataValue :: "XData \<Rightarrow> XDataCType" where
  \<comment> \<open>\<open>data.value\<close>\<close>
  "dataValue (XNumber v) = VNumber v"
| "dataValue (XString v) = VString v"
| "dataValue (XBoolean v) = VBoolean v"
| "dataValue (XNodeset v arr) = VNodeset v"
| "dataValue (XPartitions arr) = VNull"

fun nodesetArray :: "XData \<Rightarrow> XNodeSet list option" where
  \<comment> \<open>\<open>data.nodesetArray\<close>\<close>
  "nodesetArray (XNodeset v arr) = arr"
| "nodesetArray (XPartitions arr) = Some arr"
| "nodesetArray _ = None"

fun isNodeset :: "XData \<Rightarrow> bool" where
  "isNodeset (XNodeset v arr) = True"
| "isNodeset (XPartitions arr) = True"
| "isNodeset _ = False"

fun isBoolean :: "XData \<Rightarrow> bool" where
  "isBoolean (XBoolean v) = True"
| "isBoolean _ = False"

fun isString :: "XData \<Rightarrow> bool" where
  "isString (XString v) = True"
| "isString _ = False"

fun isNumber :: "XData \<Rightarrow> bool" where
  "isNumber (XNumber v) = True"
| "isNumber _ = False"

definition bindE :: "error + 'a \<Rightarrow> ('a \<Rightarrow> error + 'b) \<Rightarrow> error + 'b" where
  \<comment> \<open>run the rest unless an error was thrown\<close>
  "bindE m f = (case m of Inl e \<Rightarrow> Inl e | Inr x \<Rightarrow> f x)"

definition readNode :: "nref \<Rightarrow> (nref \<Rightarrow> 'a) \<Rightarrow> error + 'a" where
  \<comment> \<open>a read of a field, or a call of a method, of a member of a node-set or of the context
      node: a \<open>TypeError\<close> when that is \<open>null\<close>\<close>
  "readNode n f = (if n = NullRef then Inl TypeError else Inr (f n))"

fun toString :: "jsenv \<Rightarrow> rnode \<Rightarrow> XData \<Rightarrow> error + jsstring" where
  "toString env doc (XString v) = Inr v"
| "toString env doc (XBoolean v) = Inr (if v then ''true'' else ''false'')"
| "toString env doc (XNumber v) = Inr (numberToString env v)"
| "toString env doc (XNodeset v arr) =
     (case v of [] \<Rightarrow> Inr []
      | n # ns \<Rightarrow> readNode n (stringValue env doc))"
| "toString env doc (XPartitions arr) = Inl TypeError"

fun toBoolean :: "XData \<Rightarrow> error + bool" where
  "toBoolean (XBoolean v) = Inr v"
| "toBoolean (XNodeset v arr) = Inr (v \<noteq> [])"
| "toBoolean (XNumber v) = Inr (js_truthy v)"
| "toBoolean (XString v) = Inr (v \<noteq> [])"
| "toBoolean (XPartitions arr) = Inl TypeError"

fun toNumber :: "jsenv \<Rightarrow> rnode \<Rightarrow> XData \<Rightarrow> error + jsnum" where
  "toNumber env doc (XNumber v) = Inr v"
| "toNumber env doc (XBoolean v) = Inr (if v then Fin 1 else Fin 0)"
| "toNumber env doc (XNodeset v arr) =
     (case v of [] \<Rightarrow> Inr NaN
      | n # ns \<Rightarrow> readNode n (numberValue env doc))"
| "toNumber env doc (XString v) = Inr (if v \<noteq> [] then stringToNumber env v else NaN)"
| "toNumber env doc (XPartitions arr) = Inl TypeError"

section \<open>The evaluator (XPath)\<close>

record XContext =
  pos :: nat
  size' :: nat
  node :: nref

record XPath =
  ctxStack :: "XContext list"     \<comment> \<open>the top is the head; \<open>this.ctx\<close> is the top\<close>
  dataStack :: "XData list"       \<comment> \<open>the top is the head\<close>

definition pushContext :: "XContext \<Rightarrow> XPath \<Rightarrow> XPath" where
  "pushContext c s = s\<lparr>ctxStack := c # ctxStack s\<rparr>"

definition popContext :: "XPath \<Rightarrow> XPath" where
  "popContext s = s\<lparr>ctxStack := tl (ctxStack s)\<rparr>"

definition ctx :: "XPath \<Rightarrow> error + XContext" where
  \<comment> \<open>a read of \<open>this.ctx\<close> for one of its fields; \<open>this.ctx\<close> is \<open>undefined\<close> when the
      stack is empty\<close>
  "ctx s = (case ctxStack s of [] \<Rightarrow> Inl TypeError | c # cs \<Rightarrow> Inr c)"

definition pushData :: "XData \<Rightarrow> XPath \<Rightarrow> XPath" where
  "pushData d s = s\<lparr>dataStack := d # dataStack s\<rparr>"

definition popData :: "XPath \<Rightarrow> XData option \<times> XPath" where
  \<comment> \<open>\<open>Array.prototype.pop\<close> gives \<open>undefined\<close> on an empty stack\<close>
  "popData s = (case dataStack s of [] \<Rightarrow> (None, s) | d # ds \<Rightarrow> (Some d, s\<lparr>dataStack := ds\<rparr>))"

definition popDatum :: "XPath \<Rightarrow> error + (XData \<times> XPath)" where
  \<comment> \<open>\<open>popData()\<close> followed by a read of a field of the datum\<close>
  "popDatum s = (case popData s of (None, s') \<Rightarrow> Inl TypeError | (Some d, s') \<Rightarrow> Inr (d, s'))"

definition sortNodeset :: "rnode \<Rightarrow> nref list \<Rightarrow> XNodeSet" where
  \<comment> \<open>a new \<open>Set\<close> of the nodes sorted by \<open>position()\<close>; the sort is stable\<close>
  "sortNodeset doc ns = newSet (sort_key (position doc) ns)"

definition comparesNull :: "nref list \<Rightarrow> bool" where
  \<comment> \<open>\<open>Array.prototype.sort\<close> compares every member of an array of two or more with another,
      and the comparison function calls \<open>position()\<close> of both its arguments\<close>
  "comparesNull ns = (NullRef \<in> set ns \<and> 2 \<le> length ns)"

definition sortNodesetE :: "rnode \<Rightarrow> nref list \<Rightarrow> error + XNodeSet" where
  \<comment> \<open>\<open>sortNodeset\<close> as it is called: a \<open>TypeError\<close> when the comparison function is called
      with \<open>null\<close>\<close>
  "sortNodesetE doc ns = (if comparesNull ns then Inl TypeError else Inr (sortNodeset doc ns))"

definition reorderNodesetArrayInPlace :: "rnode \<Rightarrow> XNodeSet list \<Rightarrow> DocumentOrder \<Rightarrow> XNodeSet list" where
  "reorderNodesetArrayInPlace doc arr order =
     map (\<lambda>nodeset. newSet (sort_key (\<lambda>n. if order = Forward then position doc n
                                            else - position doc n) nodeset)) arr"

definition reorderE :: "rnode \<Rightarrow> XNodeSet list \<Rightarrow> DocumentOrder \<Rightarrow> error + XNodeSet list" where
  \<comment> \<open>\<open>reorderNodesetArrayInPlace\<close> as it is called: each partition is sorted with a comparison
      function that calls \<open>position()\<close> of both its arguments\<close>
  "reorderE doc arr order =
     (if list_ex comparesNull arr then Inl TypeError
      else Inr (reorderNodesetArrayInPlace doc arr order))"

type_synonym thunk = "XPath \<Rightarrow> error + XPath"
  \<comment> \<open>\<open>this.visit(n)\<close> for a fixed query node \<open>n\<close>\<close>

definition nodesOf :: "XData \<Rightarrow> error + XNodeSet" where
  \<comment> \<open>\<open>data.value as XNodeSet\<close>, about to be iterated or asked for its \<open>size\<close>\<close>
  "nodesOf d = (case d of XNodeset v arr \<Rightarrow> Inr v | _ \<Rightarrow> Inl TypeError)"

fun cmpNumber :: "OpType \<Rightarrow> jsnum \<Rightarrow> jsnum \<Rightarrow> bool" where
  "cmpNumber OpEq l r = js_eq l r"
| "cmpNumber OpNeq l r = (\<not> js_eq l r)"
| "cmpNumber OpLt l r = js_lt l r"
| "cmpNumber OpGt l r = js_gt l r"
| "cmpNumber OpLeq l r = js_le l r"
| "cmpNumber OpGeq l r = js_ge l r"
| "cmpNumber _ l r = False"

fun isRelativeOp :: "OpType \<Rightarrow> bool" where
  "isRelativeOp OpEq = True"
| "isRelativeOp OpNeq = True"
| "isRelativeOp OpLt = True"
| "isRelativeOp OpGt = True"
| "isRelativeOp OpLeq = True"
| "isRelativeOp OpGeq = True"
| "isRelativeOp _ = False"

fun someE :: "('a \<Rightarrow> error + bool) \<Rightarrow> 'a list \<Rightarrow> error + bool" where
  \<comment> \<open>\<open>for (const x of xs) { if (cmp(x)) { ret = true; break; } }\<close>\<close>
  "someE cmp [] = Inr False"
| "someE cmp (x # xs) = bindE (cmp x) (\<lambda>b. if b then Inr True else someE cmp xs)"

fun eachE :: "('a \<Rightarrow> error + bool) \<Rightarrow> 'a list \<Rightarrow> error + bool" where
  \<comment> \<open>the outer loop of \<open>compare_Nodeset_Nodeset\<close>, which no \<open>break\<close> leaves: \<open>ret\<close> is \<open>true\<close>
      once the inner loop has found a pair\<close>
  "eachE inner [] = Inr False"
| "eachE inner (x # xs) = bindE (inner x) (\<lambda>b. bindE (eachE inner xs) (\<lambda>c. Inr (b \<or> c)))"

definition cmpNodes :: "jsenv \<Rightarrow> rnode \<Rightarrow> OpType \<Rightarrow> nref \<Rightarrow> nref \<Rightarrow> error + bool" where
  \<comment> \<open>the comparison of two nodes: by \<open>stringValue()\<close> for \<open>=\<close> and \<open>!=\<close>, by \<open>numberValue()\<close>
      otherwise\<close>
  "cmpNodes env doc op i j =
     (if op = OpEq \<or> op = OpNeq
      then bindE (readNode i (stringValue env doc)) (\<lambda>l.
             bindE (readNode j (stringValue env doc)) (\<lambda>r.
               Inr (if op = OpEq then l = r else l \<noteq> r)))
      else bindE (readNode i (numberValue env doc)) (\<lambda>l.
             bindE (readNode j (numberValue env doc)) (\<lambda>r. Inr (cmpNumber op l r))))"

definition compare_Nodeset_Nodeset :: "jsenv \<Rightarrow> rnode \<Rightarrow> XData \<Rightarrow> XData \<Rightarrow> OpType \<Rightarrow> error + bool" where
  "compare_Nodeset_Nodeset env doc left right op =
     bindE (nodesOf left) (\<lambda>ls. if ls = [] then Inr False else
     bindE (nodesOf right) (\<lambda>rs. eachE (\<lambda>i. someE (cmpNodes env doc op i) rs) ls))"

definition compare_Nodeset_String :: "jsenv \<Rightarrow> rnode \<Rightarrow> XData \<Rightarrow> XData \<Rightarrow> OpType \<Rightarrow> error + bool" where
  "compare_Nodeset_String env doc left right op =
     bindE (nodesOf left) (\<lambda>ls. if ls = [] then Inr False else
     (case right of
        XString r \<Rightarrow>
          if op = OpEq \<or> op = OpNeq
          then someE (\<lambda>nd. bindE (readNode nd (stringValue env doc)) (\<lambda>l.
                        Inr (if op = OpEq then l = r else l \<noteq> r))) ls
          else bindE (toNumber env doc right) (\<lambda>rn.
                 someE (\<lambda>nd. bindE (readNode nd (numberValue env doc)) (\<lambda>l.
                          Inr (cmpNumber op l rn))) ls)
      | _ \<Rightarrow> Inl TypeError))"

definition compare_Nodeset_Number :: "jsenv \<Rightarrow> rnode \<Rightarrow> XData \<Rightarrow> XData \<Rightarrow> OpType \<Rightarrow> error + bool" where
  "compare_Nodeset_Number env doc left right op =
     bindE (nodesOf left) (\<lambda>ls.
     (case right of
        XNumber r \<Rightarrow> someE (\<lambda>nd. bindE (readNode nd (numberValue env doc)) (\<lambda>l.
                              Inr (cmpNumber op l r))) ls
      | _ \<Rightarrow> Inl TypeError))"

definition compare_Nodeset_Boolean :: "jsenv \<Rightarrow> rnode \<Rightarrow> XData \<Rightarrow> XData \<Rightarrow> OpType \<Rightarrow> error + bool" where
  "compare_Nodeset_Boolean env doc left right op =
     (case right of
        XBoolean r \<Rightarrow>
          if op = OpEq then bindE (toBoolean left) (\<lambda>l. Inr (l = r))
          else if op = OpNeq then bindE (toBoolean left) (\<lambda>l. Inr (l \<noteq> r))
          else bindE (toNumber env doc left) (\<lambda>l. bindE (toNumber env doc right) (\<lambda>rn.
                 Inr (cmpNumber op l rn)))
      | _ \<Rightarrow> Inl TypeError)"

fun swapOp :: "OpType \<Rightarrow> OpType" where
  \<comment> \<open>\<open>scalar op nodeset\<close> is \<open>nodeset op' scalar\<close>\<close>
  "swapOp OpGt = OpLt"
| "swapOp OpLt = OpGt"
| "swapOp OpLeq = OpGeq"
| "swapOp OpGeq = OpLeq"
| "swapOp op = op"

definition evaluateNodesetRelativeExpr :: "jsenv \<Rightarrow> rnode \<Rightarrow> XData \<Rightarrow> XData \<Rightarrow> OpType \<Rightarrow> error + bool" where
  "evaluateNodesetRelativeExpr env doc left right op =
     (if isNodeset left
      then (if isNodeset right then compare_Nodeset_Nodeset env doc left right op
            else if isString right then compare_Nodeset_String env doc left right op
            else if isNumber right then compare_Nodeset_Number env doc left right op
            else compare_Nodeset_Boolean env doc left right op)
      else if isString left then compare_Nodeset_String env doc right left (swapOp op)
      else if isNumber left then compare_Nodeset_Number env doc right left (swapOp op)
      else compare_Nodeset_Boolean env doc right left (swapOp op))"

definition evaluateNonNodesetRelativeExpr :: "jsenv \<Rightarrow> rnode \<Rightarrow> XData \<Rightarrow> XData \<Rightarrow> OpType \<Rightarrow> error + bool" where
  "evaluateNonNodesetRelativeExpr env doc left right op =
     (if op = OpEq \<or> op = OpNeq
      then (if isBoolean left \<or> isBoolean right
            then bindE (toBoolean left) (\<lambda>l. bindE (toBoolean right) (\<lambda>r.
                   Inr (if op = OpEq then l = r else l \<noteq> r)))
            else if isNumber left \<or> isNumber right
            then bindE (toNumber env doc left) (\<lambda>l. bindE (toNumber env doc right) (\<lambda>r.
                   Inr (cmpNumber op l r)))
            else bindE (toString env doc left) (\<lambda>l. bindE (toString env doc right) (\<lambda>r.
                   Inr (if op = OpEq then l = r else l \<noteq> r))))
      else bindE (toNumber env doc left) (\<lambda>l. bindE (toNumber env doc right) (\<lambda>r.
             Inr (cmpNumber op l r))))"

definition evaluateRelativeExpr :: "jsenv \<Rightarrow> rnode \<Rightarrow> XData \<Rightarrow> XData \<Rightarrow> OpType \<Rightarrow> XPath \<Rightarrow> error + XPath" where
  "evaluateRelativeExpr env doc left right op s =
     bindE (if \<not> isNodeset left \<and> \<not> isNodeset right
            then evaluateNonNodesetRelativeExpr env doc left right op
            else evaluateNodesetRelativeExpr env doc left right op)
       (\<lambda>ret. Inr (pushData (XBoolean ret) s))"

definition evaluateConditionalExpr :: "XData \<Rightarrow> XData \<Rightarrow> OpType \<Rightarrow> XPath \<Rightarrow> error + XPath" where
  "evaluateConditionalExpr left right op s =
     bindE (toBoolean left) (\<lambda>leftVal.
       bindE (if op = OpOr then (if leftVal then Inr leftVal else toBoolean right)
              else (if \<not> leftVal then Inr leftVal else toBoolean right))
         (\<lambda>ret. Inr (pushData (XBoolean ret) s)))"

definition evaluatePipeExpr :: "rnode \<Rightarrow> XData \<Rightarrow> XData \<Rightarrow> XPath \<Rightarrow> error + XPath" where
  "evaluatePipeExpr doc left right s =
     (if \<not> isNodeset left \<or> \<not> isNodeset right
      then Inl (EvalError ''Pipe/union operator takes only nodesets as arguments'')
      else bindE (nodesOf left) (\<lambda>l. bindE (nodesOf right) (\<lambda>r.
             bindE (sortNodesetE doc (addAll r l)) (\<lambda>v.
               Inr (pushData (XNodeset v None) s)))))"

definition evaluateArithmeticExpr :: "jsenv \<Rightarrow> rnode \<Rightarrow> XData \<Rightarrow> XData \<Rightarrow> OpType \<Rightarrow> XPath \<Rightarrow> error + XPath" where
  "evaluateArithmeticExpr env doc left right op s =
     bindE (toNumber env doc left) (\<lambda>leftVal. bindE (toNumber env doc right) (\<lambda>rightVal.
       Inr (pushData (XNumber
         (if isNaN leftVal \<or> isNaN rightVal then NaN
          else if op = OpPlus then js_add leftVal rightVal
          else if op = OpMinus then js_sub leftVal rightVal
          else if op = OpMul then js_mul leftVal rightVal
          else if op = OpDiv then js_div leftVal rightVal
          else js_mod leftVal rightVal)) s)))"

definition binaryOp :: "jsenv \<Rightarrow> rnode \<Rightarrow> OpType \<Rightarrow> XPath \<Rightarrow> error + XPath" where
  \<comment> \<open>\<open>visitBinaryOpNode\<close> after its two visits: the right operand is on top\<close>
  "binaryOp env doc op s =
     (case popData s of (r, s1) \<Rightarrow> (case popData s1 of (l, s2) \<Rightarrow>
        (case (l, r) of
           (Some left, Some right) \<Rightarrow>
             if op \<in> {OpPlus, OpMinus, OpMul, OpDiv, OpMod}
               then evaluateArithmeticExpr env doc left right op s2
             else if isRelativeOp op then evaluateRelativeExpr env doc left right op s2
             else if op = OpOr \<or> op = OpAnd then evaluateConditionalExpr left right op s2
             else evaluatePipeExpr doc left right s2
         | _ \<Rightarrow> Inl TypeError)))"

definition unaryOp :: "jsenv \<Rightarrow> rnode \<Rightarrow> OpType \<Rightarrow> XPath \<Rightarrow> error + XPath" where
  \<comment> \<open>\<open>visitUnaryOpNode\<close> after its visit\<close>
  "unaryOp env doc op s =
     bindE (popDatum s) (\<lambda>(right, s1). bindE (toNumber env doc right) (\<lambda>v.
       if op = OpPlus then Inr (pushData (XNumber v) s1)
       else if op = OpMinus then Inr (pushData (XNumber (js_neg v)) s1)
       else Inl (Unreachable ''visitUnaryOpNode::Illegal operator for unary'')))"

definition evaluatePredicateExpr :: "XData \<Rightarrow> XPath \<Rightarrow> error + bool" where
  "evaluatePredicateExpr res s = (case res of
       XNumber v \<Rightarrow> bindE (ctx s) (\<lambda>c. Inr (js_eq v (Fin (of_nat (pos c)))))
     | XBoolean b \<Rightarrow> Inr b
     | _ \<Rightarrow> toBoolean res)"

subsection \<open>The core function library\<close>

fun indexOfFrom :: "jsstring \<Rightarrow> jsstring \<Rightarrow> nat \<Rightarrow> nat option" where
  "indexOfFrom [] sub i = (if sub = [] then Some i else None)"
| "indexOfFrom (c # cs) sub i =
     (if take (length sub) (c # cs) = sub then Some i else indexOfFrom cs sub (Suc i))"

definition indexOf :: "jsstring \<Rightarrow> jsstring \<Rightarrow> nat option" where
  \<comment> \<open>\<open>String.prototype.indexOf\<close>; \<open>None\<close> is \<open>-1\<close>\<close>
  "indexOf s sub = indexOfFrom s sub 0"

definition firstSplit :: "jsstring \<Rightarrow> jsstring \<Rightarrow> jsstring option" where
  \<comment> \<open>\<open>splits[0]\<close> of \<open>s.split(sep)\<close> when \<open>splits.length > 1\<close>; an empty separator
      splits between all code units\<close>
  "firstSplit s sep =
     (if sep = [] then (if length s > 1 then Some [hd s] else None)
      else (case indexOf s sep of Some i \<Rightarrow> Some (take i s) | None \<Rightarrow> None))"

function collapseSpace :: "jsstring \<Rightarrow> jsstring" where
  \<comment> \<open>\<open>replace(/\s+/g, " ")\<close>\<close>
  "collapseSpace [] = []"
| "collapseSpace (c # cs) =
     (if isWhiteSpace c then CHR '' '' # collapseSpace (dropWhile isWhiteSpace cs)
      else c # collapseSpace cs)"
  by pat_completeness auto
termination
  by (relation "measure length") (auto simp: length_dropWhile_le le_imp_less_Suc)

definition replaceChars :: "jsstring \<Rightarrow> jsstring \<Rightarrow> jsstring \<Rightarrow> nat \<Rightarrow> jsstring" where
  \<comment> \<open>the local \<open>replace\<close> of \<open>translateFn\<close>: the first occurrence of a character in
      \<open>placeholder\<close> decides\<close>
  "replaceChars original placeholder replacement stopIndex =
     map (\<lambda>ch. case map_of (zip (take stopIndex placeholder) (take stopIndex replacement)) ch of
                  Some r \<Rightarrow> r | None \<Rightarrow> ch) original"

definition pushE :: "XData \<Rightarrow> XPath \<Rightarrow> error + XPath" where
  "pushE d s = Inr (pushData d s)"

definition visitPop :: "thunk \<Rightarrow> XPath \<Rightarrow> error + (XData \<times> XPath)" where
  \<comment> \<open>\<open>this.visit(arg); data = this.popData()\<close>, the datum being read afterwards\<close>
  "visitPop a s = bindE (a s) popDatum"

definition visitString :: "jsenv \<Rightarrow> rnode \<Rightarrow> thunk \<Rightarrow> XPath \<Rightarrow> error + (jsstring \<times> XPath)" where
  \<comment> \<open>\<open>this.visit(arg); XDataEval.toString(this.popData())\<close>\<close>
  "visitString env doc a s =
     bindE (visitPop a s) (\<lambda>(d, s1). bindE (toString env doc d) (\<lambda>str. Inr (str, s1)))"

fun visitStrings :: "jsenv \<Rightarrow> rnode \<Rightarrow> thunk list \<Rightarrow> XPath \<Rightarrow> error + (jsstring list \<times> XPath)" where
  \<comment> \<open>\<open>for (const arg of node.args) { this.visit(arg); args.push(toString(this.popData())) }\<close>\<close>
  "visitStrings env doc [] s = Inr ([], s)"
| "visitStrings env doc (a # as) s =
     bindE (visitString env doc a s) (\<lambda>(str, s1).
       bindE (visitStrings env doc as s1) (\<lambda>(strs, s2). Inr (str # strs, s2)))"

definition argOrContext :: "thunk list \<Rightarrow> XPath \<Rightarrow> error + (XData \<times> XPath)" where
  \<comment> \<open>the argument if there is one, else a node-set of the context node\<close>
  "argOrContext argv s = (case argv of
       [] \<Rightarrow> bindE (ctx s) (\<lambda>c. Inr (XNodeset [node c] None, s))
     | a # as \<Rightarrow> visitPop a s)"

definition getNodesetData :: "thunk list \<Rightarrow> XPath \<Rightarrow> error + (XNodeSet \<times> XPath)" where
  "getNodesetData argv s =
     bindE (argOrContext argv s) (\<lambda>(data, s1).
       if \<not> isNodeset data then Inl (EvalError ''Expected type XNodeset'')
       else bindE (nodesOf data) (\<lambda>v. Inr (v, s1)))"

definition lastFn :: "jsenv \<Rightarrow> rnode \<Rightarrow> thunk list \<Rightarrow> thunk" where
  "lastFn env doc argv s = bindE (ctx s) (\<lambda>c. pushE (XNumber (Fin (of_nat (size' c)))) s)"

definition positionFn :: "jsenv \<Rightarrow> rnode \<Rightarrow> thunk list \<Rightarrow> thunk" where
  "positionFn env doc argv s = bindE (ctx s) (\<lambda>c. pushE (XNumber (Fin (of_nat (pos c)))) s)"

definition countFn :: "jsenv \<Rightarrow> rnode \<Rightarrow> thunk list \<Rightarrow> thunk" where
  "countFn env doc argv s = (case argv of
       [] \<Rightarrow> Inl TypeError
     | a # as \<Rightarrow> bindE (visitPop a s) (\<lambda>(data, s1).
         if \<not> isNodeset data then pushE (XNumber NaN) s1
         else bindE (nodesOf data) (\<lambda>nodeset.
                pushE (XNumber (Fin (of_nat (length nodeset)))) s1)))"

definition nameLikeFn :: "(rnode \<Rightarrow> nref \<Rightarrow> jsstring) \<Rightarrow> rnode \<Rightarrow> thunk list \<Rightarrow> thunk" where
  \<comment> \<open>the common shape of \<open>localNameFn\<close>, \<open>namespaceUriFn\<close> and \<open>nameFn\<close>: a string read
      from the first member of the node-set, or the empty string\<close>
  "nameLikeFn f doc argv s =
     bindE (getNodesetData argv s) (\<lambda>(nodeset, s1).
       case nodeset of
         [] \<Rightarrow> pushE (XString []) s1
       | first # rest \<Rightarrow> bindE (readNode first (f doc)) (\<lambda>str. pushE (XString str) s1))"

definition localNameFn :: "jsenv \<Rightarrow> rnode \<Rightarrow> thunk list \<Rightarrow> thunk" where
  "localNameFn env = nameLikeFn (\<lambda>doc first.
     case nodeName doc first of Some nm \<Rightarrow> lname nm | None \<Rightarrow> [])"

definition namespaceUriFn :: "jsenv \<Rightarrow> rnode \<Rightarrow> thunk list \<Rightarrow> thunk" where
  "namespaceUriFn env = nameLikeFn (\<lambda>doc first.
     case boundNamespace doc first of
       Some r \<Rightarrow> (case getNamespace doc r of Some ns \<Rightarrow> uri ns | None \<Rightarrow> [])
     | None \<Rightarrow> [])"

definition nameFn :: "jsenv \<Rightarrow> rnode \<Rightarrow> thunk list \<Rightarrow> thunk" where
  "nameFn env = nameLikeFn (\<lambda>doc first.
     case nodeName doc first of Some nm \<Rightarrow> qname nm | None \<Rightarrow> [])"

definition booleanFn :: "jsenv \<Rightarrow> rnode \<Rightarrow> thunk list \<Rightarrow> thunk" where
  "booleanFn env doc argv s = (case argv of
       [] \<Rightarrow> Inl TypeError
     | a # as \<Rightarrow> bindE (visitPop a s) (\<lambda>(data, s1).
         bindE (toBoolean data) (\<lambda>b. pushE (XBoolean b) s1)))"

definition notFn :: "jsenv \<Rightarrow> rnode \<Rightarrow> thunk list \<Rightarrow> thunk" where
  "notFn env doc argv s = (case argv of
       [] \<Rightarrow> Inl TypeError
     | a # as \<Rightarrow> bindE (visitPop a s) (\<lambda>(data, s1).
         bindE (toBoolean data) (\<lambda>b. pushE (XBoolean (\<not> b)) s1)))"

definition trueFn :: "jsenv \<Rightarrow> rnode \<Rightarrow> thunk list \<Rightarrow> thunk" where
  "trueFn env doc argv s = pushE (XBoolean True) s"

definition falseFn :: "jsenv \<Rightarrow> rnode \<Rightarrow> thunk list \<Rightarrow> thunk" where
  "falseFn env doc argv s = pushE (XBoolean False) s"

function findLang :: "jsenv \<Rightarrow> rnode \<Rightarrow> nref \<Rightarrow> jsstring option" where
  \<comment> \<open>the \<open>do ... while (n && !nodes.isRoot(n))\<close> loop of \<open>langFn\<close>\<close>
  "findLang env doc n =
     (case n of
        ARef p k \<Rightarrow>
          (case getAttribute doc p k of
             Some a \<Rightarrow> if qname (attrName a) = ''xml:lang'' then Some (toLowerCase env (attrValue a))
                       else findLang env doc (NRef p)
           | None \<Rightarrow> findLang env doc (NRef p))
      | NRef p \<Rightarrow>
          (case getAttribute doc p ''xml:lang'' of
             Some a \<Rightarrow> Some (toLowerCase env (attrValue a))
           | None \<Rightarrow> if p = [] \<or> isRoot doc (NRef p) \<or> isRoot doc (NRef (butlast p)) then None
                     else findLang env doc (NRef (butlast p)))
      | NullRef \<Rightarrow> None)"
  by pat_completeness auto
termination
  by (relation "measure (\<lambda>(env, doc, n). case n of NRef p \<Rightarrow> 2 * length p
                                             | ARef p k \<Rightarrow> 2 * length p + 1
                                             | NullRef \<Rightarrow> 0)") auto

definition langFn :: "jsenv \<Rightarrow> rnode \<Rightarrow> thunk list \<Rightarrow> thunk" where
  "langFn env doc argv s = (case argv of
       [] \<Rightarrow> Inl TypeError
     | a # as \<Rightarrow> bindE (a s) (\<lambda>s0. case popData s0 of (data, s1) \<Rightarrow>
         bindE (ctx s1) (\<lambda>c. bindE (readNode (node c) (findLang env doc)) (\<lambda>found.
           case found of
             None \<Rightarrow> pushE (XBoolean False) s1
           | Some foundLang \<Rightarrow>
               if foundLang = [] then pushE (XBoolean False) s1
               else (case data of
                       None \<Rightarrow> Inl TypeError
                     | Some d \<Rightarrow> bindE (toString env doc d) (\<lambda>str.
                         let argLang = toLowerCase env str
                         in pushE (XBoolean (argLang = foundLang
                                       \<or> takeWhile (\<lambda>ch. ch \<noteq> CHR ''-'') foundLang = argLang))
                              s1))))))"

definition numberFn :: "jsenv \<Rightarrow> rnode \<Rightarrow> thunk list \<Rightarrow> thunk" where
  "numberFn env doc argv s =
     bindE (argOrContext argv s) (\<lambda>(data, s1).
       bindE (toNumber env doc data) (\<lambda>v. pushE (XNumber v) s1))"

fun sumLoop :: "jsenv \<Rightarrow> rnode \<Rightarrow> nref list \<Rightarrow> jsnum \<Rightarrow> error + jsnum" where
  \<comment> \<open>\<open>for (const n of nodeset) { sum += n.numberValue(); if (Number.isNaN(sum)) break; }\<close>\<close>
  "sumLoop env doc [] acc = Inr acc"
| "sumLoop env doc (n # ns) acc =
     bindE (readNode n (numberValue env doc)) (\<lambda>v.
       let acc' = js_add acc v
       in if isNaN acc' then Inr acc' else sumLoop env doc ns acc')"

definition sumFn :: "jsenv \<Rightarrow> rnode \<Rightarrow> thunk list \<Rightarrow> thunk" where
  "sumFn env doc argv s = (case argv of
       [] \<Rightarrow> Inl TypeError
     | a # as \<Rightarrow> bindE (visitPop a s) (\<lambda>(data, s1).
         if \<not> isNodeset data then Inl (EvalError ''Expected argument of type XNodeset'')
         else bindE (nodesOf data) (\<lambda>nodeset.
                bindE (sumLoop env doc nodeset (Fin 0)) (\<lambda>v. pushE (XNumber v) s1))))"

definition mathFn :: "(jsnum \<Rightarrow> jsnum) \<Rightarrow> jsenv \<Rightarrow> rnode \<Rightarrow> thunk list \<Rightarrow> thunk" where
  \<comment> \<open>the common shape of \<open>floorFn\<close>, \<open>ceilingFn\<close> and \<open>roundFn\<close>\<close>
  "mathFn f env doc argv s = (case argv of
       [] \<Rightarrow> Inl TypeError
     | a # as \<Rightarrow> bindE (visitPop a s) (\<lambda>(data, s1).
         bindE (toNumber env doc data) (\<lambda>v. pushE (XNumber (f v)) s1)))"

definition floorFn :: "jsenv \<Rightarrow> rnode \<Rightarrow> thunk list \<Rightarrow> thunk" where
  "floorFn = mathFn Math_floor"

definition ceilingFn :: "jsenv \<Rightarrow> rnode \<Rightarrow> thunk list \<Rightarrow> thunk" where
  "ceilingFn = mathFn Math_ceil"

definition roundFn :: "jsenv \<Rightarrow> rnode \<Rightarrow> thunk list \<Rightarrow> thunk" where
  "roundFn = mathFn Math_round"

definition stringFn :: "jsenv \<Rightarrow> rnode \<Rightarrow> thunk list \<Rightarrow> thunk" where
  "stringFn env doc argv s =
     bindE (argOrContext argv s) (\<lambda>(data, s1).
       bindE (toString env doc data) (\<lambda>v. pushE (XString v) s1))"

definition concatFn :: "jsenv \<Rightarrow> rnode \<Rightarrow> thunk list \<Rightarrow> thunk" where
  "concatFn env doc argv s =
     bindE (visitStrings env doc argv s) (\<lambda>(strs, s1). pushE (XString (concat strs)) s1)"

definition startsWithFn :: "jsenv \<Rightarrow> rnode \<Rightarrow> thunk list \<Rightarrow> thunk" where
  "startsWithFn env doc argv s =
     bindE (visitStrings env doc argv s) (\<lambda>(strs, s1). case strs of
         a0 # a1 # rest \<Rightarrow> pushE (XBoolean (take (length a1) a0 = a1)) s1
       | _ \<Rightarrow> Inl TypeError)"

definition containsFn :: "jsenv \<Rightarrow> rnode \<Rightarrow> thunk list \<Rightarrow> thunk" where
  "containsFn env doc argv s =
     bindE (visitStrings env doc argv s) (\<lambda>(strs, s1). case strs of
         a0 # a1 # rest \<Rightarrow> pushE (XBoolean (indexOf a0 a1 \<noteq> None)) s1
       | _ \<Rightarrow> Inl TypeError)"

definition substringBeforeFn :: "jsenv \<Rightarrow> rnode \<Rightarrow> thunk list \<Rightarrow> thunk" where
  "substringBeforeFn env doc argv s =
     bindE (visitStrings env doc argv s) (\<lambda>(strs, s1). case strs of
         a0 # a1 # rest \<Rightarrow>
           pushE (XString (case firstSplit a0 a1 of Some sub \<Rightarrow> sub | None \<Rightarrow> [])) s1
       | _ \<Rightarrow> Inl TypeError)"

definition substringAfterFn :: "jsenv \<Rightarrow> rnode \<Rightarrow> thunk list \<Rightarrow> thunk" where
  "substringAfterFn env doc argv s =
     bindE (visitStrings env doc argv s) (\<lambda>(strs, s1). case strs of
         a0 # a1 # rest \<Rightarrow>
           pushE (XString (case indexOf a0 a1 of
                             Some i \<Rightarrow> drop (i + length a1) a0 | None \<Rightarrow> [])) s1
       | _ \<Rightarrow> Inl TypeError)"

definition roundedArg :: "jsenv \<Rightarrow> rnode \<Rightarrow> thunk \<Rightarrow> XPath \<Rightarrow> error + (jsnum \<times> XPath)" where
  \<comment> \<open>\<open>this.visit(arg); Math.round(XDataEval.toNumber(this.popData()))\<close>\<close>
  "roundedArg env doc a s =
     bindE (visitPop a s) (\<lambda>(data, s1).
       bindE (toNumber env doc data) (\<lambda>v. Inr (Math_round v, s1)))"

definition substringFn :: "jsenv \<Rightarrow> rnode \<Rightarrow> thunk list \<Rightarrow> thunk" where
  "substringFn env doc argv s = (case argv of
       a0 # a1 # rest \<Rightarrow>
         bindE (visitString env doc a0 s) (\<lambda>(str, s1).
         bindE (roundedArg env doc a1 s1) (\<lambda>(start, s2).
           if isNaN start then pushE (XString []) s2
           else (let start1 = js_sub start (Fin 1);
                     start2 = (if js_ge start1 (Fin 0) then start1 else Fin 0)
                 in case rest of
                      [a2] \<Rightarrow>
                        bindE (roundedArg env doc a2 s2) (\<lambda>(end, s3).
                          if isNaN end then pushE (XString []) s3
                          else (let end1 = js_add end start1
                                in pushE (XString (js_slice str start2
                                     (Some (if js_ge end1 (Fin 0) then end1 else Fin 0)))) s3))
                    | _ \<Rightarrow> pushE (XString (js_slice str start2 None)) s2)))
     | _ \<Rightarrow> Inl TypeError)"

definition stringOrContext :: "jsenv \<Rightarrow> rnode \<Rightarrow> thunk list \<Rightarrow> XPath \<Rightarrow> error + (jsstring \<times> XPath)" where
  \<comment> \<open>the argument converted to a string, else the string-value of the context node\<close>
  "stringOrContext env doc argv s = (case argv of
       [] \<Rightarrow> bindE (ctx s) (\<lambda>c.
               bindE (readNode (node c) (stringValue env doc)) (\<lambda>str. Inr (str, s)))
     | a # as \<Rightarrow> visitString env doc a s)"

definition stringLengthFn :: "jsenv \<Rightarrow> rnode \<Rightarrow> thunk list \<Rightarrow> thunk" where
  "stringLengthFn env doc argv s =
     bindE (stringOrContext env doc argv s) (\<lambda>(str, s1).
       pushE (XNumber (Fin (of_nat (length str)))) s1)"

definition normalizeSpaceFn :: "jsenv \<Rightarrow> rnode \<Rightarrow> thunk list \<Rightarrow> thunk" where
  "normalizeSpaceFn env doc argv s =
     bindE (stringOrContext env doc argv s) (\<lambda>(str, s1).
       pushE (XString (collapseSpace (trim str))) s1)"

definition runAll :: "thunk list \<Rightarrow> thunk" where
  \<comment> \<open>\<open>for (const n of list) this.visit(n)\<close>\<close>
  "runAll ts s = foldl bindE (Inr s) ts"

definition translateFn :: "jsenv \<Rightarrow> rnode \<Rightarrow> thunk list \<Rightarrow> thunk" where
  "translateFn env doc argv s =
     bindE (runAll argv s) (\<lambda>s1.
     bindE (popDatum s1) (\<lambda>(d3, s2). bindE (toString env doc d3) (\<lambda>replacement.
     bindE (popDatum s2) (\<lambda>(d2, s3). bindE (toString env doc d2) (\<lambda>placeholder.
     bindE (popDatum s3) (\<lambda>(d1, s4). bindE (toString env doc d1) (\<lambda>original.
       pushE (XString
         (if length placeholder = length replacement
            then replaceChars original placeholder replacement (length replacement)
          else if length placeholder > length replacement
            then replaceChars
                   (filter (\<lambda>ch. ch \<notin> set (drop (length replacement) placeholder)) original)
                   placeholder replacement (length replacement)
          else replaceChars original placeholder replacement (length placeholder))) s4)))))))"

subsection \<open>Function calls\<close>

record FnSignature =
  paramCount :: nat
  omittableParam :: nat
  variadic :: bool
  fn :: "jsenv \<Rightarrow> rnode \<Rightarrow> thunk list \<Rightarrow> thunk"

definition functionTable :: "(jsstring \<times> FnSignature) list" where
  \<comment> \<open>the table \<open>functions\<close> of \<open>callFunction\<close>\<close>
  "functionTable =
     [(''last'', \<lparr>paramCount = 0, omittableParam = 0, variadic = False, fn = lastFn\<rparr>),
      (''position'', \<lparr>paramCount = 0, omittableParam = 0, variadic = False, fn = positionFn\<rparr>),
      (''count'', \<lparr>paramCount = 1, omittableParam = 0, variadic = False, fn = countFn\<rparr>),
      (''local-name'', \<lparr>paramCount = 1, omittableParam = 1, variadic = False, fn = localNameFn\<rparr>),
      (''namespace-uri'', \<lparr>paramCount = 1, omittableParam = 1, variadic = False, fn = namespaceUriFn\<rparr>),
      (''name'', \<lparr>paramCount = 1, omittableParam = 1, variadic = False, fn = nameFn\<rparr>),
      (''boolean'', \<lparr>paramCount = 1, omittableParam = 0, variadic = False, fn = booleanFn\<rparr>),
      (''not'', \<lparr>paramCount = 1, omittableParam = 0, variadic = False, fn = notFn\<rparr>),
      (''true'', \<lparr>paramCount = 0, omittableParam = 0, variadic = False, fn = trueFn\<rparr>),
      (''false'', \<lparr>paramCount = 0, omittableParam = 0, variadic = False, fn = falseFn\<rparr>),
      (''lang'', \<lparr>paramCount = 1, omittableParam = 0, variadic = False, fn = langFn\<rparr>),
      (''number'', \<lparr>paramCount = 1, omittableParam = 1, variadic = False, fn = numberFn\<rparr>),
      (''sum'', \<lparr>paramCount = 1, omittableParam = 0, variadic = False, fn = sumFn\<rparr>),
      (''floor'', \<lparr>paramCount = 1, omittableParam = 0, variadic = False, fn = floorFn\<rparr>),
      (''ceiling'', \<lparr>paramCount = 1, omittableParam = 0, variadic = False, fn = ceilingFn\<rparr>),
      (''round'', \<lparr>paramCount = 1, omittableParam = 0, variadic = False, fn = roundFn\<rparr>),
      (''string'', \<lparr>paramCount = 1, omittableParam = 1, variadic = False, fn = stringFn\<rparr>),
      (''concat'', \<lparr>paramCount = 2, omittableParam = 0, variadic = True, fn = concatFn\<rparr>),
      (''starts-with'', \<lparr>paramCount = 2, omittableParam = 0, variadic = False, fn = startsWithFn\<rparr>),
      (''contains'', \<lparr>paramCount = 2, omittableParam = 0, variadic = False, fn = containsFn\<rparr>),
      (''substring-before'', \<lparr>paramCount = 2, omittableParam = 0, variadic = False,
         fn = substringBeforeFn\<rparr>),
      (''substring-after'', \<lparr>paramCount = 2, omittableParam = 0, variadic = False,
         fn = substringAfterFn\<rparr>),
      (''substring'', \<lparr>paramCount = 3, omittableParam = 1, variadic = False, fn = substringFn\<rparr>),
      (''string-length'', \<lparr>paramCount = 1, omittableParam = 1, variadic = False,
         fn = stringLengthFn\<rparr>),
      (''normalize-space'', \<lparr>paramCount = 1, omittableParam = 1, variadic = False,
         fn = normalizeSpaceFn\<rparr>),
      (''translate'', \<lparr>paramCount = 3, omittableParam = 0, variadic = False, fn = translateFn\<rparr>)]"

definition inheritedNames :: "jsstring list" where
  \<comment> \<open>the properties that the object literal \<open>functions\<close> inherits from \<open>Object.prototype\<close>\<close>
  "inheritedNames =
     [''constructor'', ''hasOwnProperty'', ''isPrototypeOf'', ''propertyIsEnumerable'',
      ''toLocaleString'', ''toString'', ''valueOf'', ''__proto__'', ''__defineGetter__'',
      ''__defineSetter__'', ''__lookupGetter__'', ''__lookupSetter__'']"

definition callFunction :: "jsenv \<Rightarrow> rnode \<Rightarrow> jsstring \<Rightarrow> thunk list \<Rightarrow> thunk" where
  \<comment> \<open>\<open>functions[node.name]\<close> of an inherited name is an object with no \<open>paramCount\<close>, so that
      no comparison of the argument count holds, and with no \<open>fn\<close> to call\<close>
  "callFunction env doc nm argv s =
     (case map_of functionTable nm of
        None \<Rightarrow> if nm \<in> set inheritedNames then Inl TypeError
                else Inl (EvalError ''Function is not supported'')
      | Some func \<Rightarrow>
          (let argc = length argv
           in if argc < paramCount func \<and> paramCount func - argc \<noteq> omittableParam func
                then Inl (EvalError ''Function is missing argument(s)'')
              else if argc > paramCount func \<and> \<not> variadic func
                then Inl (EvalError ''Function expected fewer argument(s)'')
              else fn func env doc argv s))"

subsection \<open>Steps and predicates\<close>

definition visitStepNode :: "rnode \<Rightarrow> int \<Rightarrow> PathSpec \<Rightarrow> StepSpec \<Rightarrow> thunk list \<Rightarrow> thunk" where
  \<comment> \<open>\<open>pos\<close> is \<open>node.pos\<close>; \<open>preds\<close> are the visits of \<open>node.predicates\<close>\<close>
  "visitStepNode doc stepPos path st preds s =
     bindE (popDatum s) (\<lambda>(data, s1).
       bindE (if stepPos > 0 then sizeFalsy (dataValue data) else Inr False) (\<lambda>skip.
         if skip then pushE data s1
         else bindE (ctx s1) (\<lambda>c.
                bindE (step doc (dataValue data) (node c) path st) (\<lambda>arr.
                  if preds = []
                  then bindE (sortNodesetE doc (concat arr)) (\<lambda>v. pushE (XNodeset v None) s1)
                  else runAll preds (pushData (XPartitions arr) s1)))))"

definition leftPartitions :: "bool \<Rightarrow> thunk \<Rightarrow> XPath \<Rightarrow> error + (XNodeSet list \<times> XPath)" where
  \<comment> \<open>the partitions of a predicate with a \<open>leftExpr\<close>; \<open>isPath\<close> is
      \<open>node.leftExpr instanceof PathNode\<close>\<close>
  "leftPartitions isPath left s =
     bindE (left s) (\<lambda>s1.
       case popData s1 of (d, s2) \<Rightarrow>
         (let s3 = (if isPath then snd (popData s2) else s2)
          in case d of
               None \<Rightarrow> Inl TypeError
             | Some data \<Rightarrow>
                 (case nodesetArray data of
                    None \<Rightarrow> (case data of
                        XNodeset v arr \<Rightarrow> Inr ([v], s3)
                      | _ \<Rightarrow> Inl (EvalError ''Expected type XNodeset as predicate operand''))
                  | Some arr \<Rightarrow> Inr ([newSet (concat arr)], s3))))"

definition stepPartitions :: "XPath \<Rightarrow> error + (XNodeSet list \<times> XPath)" where
  \<comment> \<open>the partitions of a predicate of a step: the \<open>nodesetArray\<close> on top of the stack\<close>
  "stepPartitions s =
     bindE (popDatum s) (\<lambda>(data, s1).
       if \<not> isNodeset data then Inl (AssertionError ''Expected nodeset type as popped data'')
       else (case nodesetArray data of
               None \<Rightarrow> Inl (AssertionError ''Expected nodeset array as actual data value'')
             | Some arr \<Rightarrow> Inr (arr, s1)))"

fun partitionLoop :: "thunk \<Rightarrow> nat \<Rightarrow> nat \<Rightarrow> nref list \<Rightarrow> XNodeSet \<Rightarrow> XPath
    \<Rightarrow> error + (XNodeSet \<times> XPath)" where
  \<comment> \<open>the inner loop of \<open>visitPredicateNode\<close> over one partition: \<open>kept\<close> collects the nodes
      whose predicate holds, in the order visited\<close>
  "partitionLoop expr ctxSize ctxPos [] kept s = Inr (kept, s)"
| "partitionLoop expr ctxSize ctxPos (ctxNode # rest) kept s =
     bindE (expr (pushContext \<lparr>pos = Suc ctxPos, size' = ctxSize, node = ctxNode\<rparr> s)) (\<lambda>s1.
       bindE (popDatum s1) (\<lambda>(res, s2).
         bindE (evaluatePredicateExpr res s2) (\<lambda>ok.
           partitionLoop expr ctxSize (Suc ctxPos) rest
             (if ok then kept @ [ctxNode] else kept) (popContext s2))))"

fun partitionsLoop :: "thunk \<Rightarrow> XNodeSet list \<Rightarrow> XNodeSet \<Rightarrow> XNodeSet list \<Rightarrow> XPath
    \<Rightarrow> error + (XNodeSet \<times> XNodeSet list \<times> XPath)" where
  \<comment> \<open>the outer loop: \<open>result\<close> and the new \<open>nodesetArray\<close>\<close>
  "partitionsLoop expr [] result arr s = Inr (result, arr, s)"
| "partitionsLoop expr (part # rest) result arr s =
     bindE (partitionLoop expr (length part) 0 part [] s) (\<lambda>(tmp, s1).
       partitionsLoop expr rest (addAll tmp result) (addNodeset tmp arr) s1)"

definition visitPredicateNode :: "rnode \<Rightarrow> thunk \<Rightarrow> DocumentOrder \<Rightarrow> (bool \<times> thunk) option \<Rightarrow> thunk" where
  "visitPredicateNode doc expr order left s =
     bindE (case left of
              Some (isPath, l) \<Rightarrow> leftPartitions isPath l s
            | None \<Rightarrow> stepPartitions s) (\<lambda>(partitions, s1).
       bindE (reorderE doc partitions order) (\<lambda>ordered.
         bindE (partitionsLoop expr ordered [] [] s1) (\<lambda>(result, arr, s2).
           bindE (sortNodesetE doc result) (\<lambda>v. pushE (XNodeset v (Some arr)) s2))))"

fun isPathNode :: "XNodeT \<Rightarrow> bool" where
  "isPathNode (PathNode steps) = True"
| "isPathNode _ = False"

fun runSteps :: "(int \<Rightarrow> thunk) list \<Rightarrow> int \<Rightarrow> thunk" where
  \<comment> \<open>\<open>node.steps.forEach((node, index) => { node.pos = index; this.visit(node) })\<close>\<close>
  "runSteps [] i s = Inr s"
| "runSteps (t # ts) i s = bindE (t i s) (runSteps ts (i + 1))"

fun visit :: "jsenv \<Rightarrow> rnode \<Rightarrow> int \<Rightarrow> XNodeT \<Rightarrow> thunk" where
  \<comment> \<open>\<open>this.visit(node)\<close>; \<open>stepPos\<close> is the \<open>pos\<close> field of the node visited when it is a
      \<open>StepNode\<close>: its offset in the path that holds it, \<open>-1\<close> outside a path\<close>
  "visit env doc stepPos (NumberNode v) s = pushE (XNumber v) s"
| "visit env doc stepPos (StringNode v) s = pushE (XString v) s"
| "visit env doc stepPos (UnaryOpNode n op) s =
     bindE (visit env doc (- 1) n s) (unaryOp env doc op)"
| "visit env doc stepPos (BinaryOpNode l r op) s =
     bindE (visit env doc (- 1) l s) (\<lambda>s1.
       bindE (visit env doc (- 1) r s1) (binaryOp env doc op))"
| "visit env doc stepPos (CallNode nm args) s =
     callFunction env doc nm (map (\<lambda>a s'. visit env doc (- 1) a s') args) s"
| "visit env doc stepPos (StepNode path st preds) s =
     visitStepNode doc stepPos path st (map (\<lambda>p s'. visit env doc (- 1) p s') preds) s"
| "visit env doc stepPos (PredicateNode expr order left) s =
     visitPredicateNode doc (\<lambda>s'. visit env doc (- 1) expr s') order
       (map_option (\<lambda>l. (isPathNode l, \<lambda>s'. visit env doc (- 1) l s')) left) s"
| "visit env doc stepPos (PathNode steps) s =
     runSteps (map (\<lambda>n i s'. visit env doc i n s') steps) 0 (pushData (XNodeset [] None) s)"

subsection \<open>Queries\<close>

definition query :: "jsenv \<Rightarrow> rnode \<Rightarrow> XNodeT \<Rightarrow> XPath \<Rightarrow> error + XDataCType" where
  \<comment> \<open>\<open>query(queryString)\<close>, from the query tree that \<open>XParser\<close> returns for the string\<close>
  "query env doc q this =
     bindE (visit env doc (- 1) q (pushContext \<lparr>pos = 1, size' = 1, node = NRef []\<rparr> this)) (\<lambda>s1.
       bindE (popDatum s1) (\<lambda>(result, s2).
         if dataStack s2 \<noteq> []
         then Inl (EvalError ''Computation Error. Probable cause, bad query expression'')
         else Inr (dataValue result)))"

datatype XReturnType = RNumber jsnum | RString jsstring | RBoolean bool | RNode nref | RNull

definition returned :: "nref \<Rightarrow> XReturnType" where
  \<comment> \<open>a member of a node-set as a return value: a node, or \<open>null\<close>\<close>
  "returned n = (if n = NullRef then RNull else RNode n)"

definition queryOne :: "jsenv \<Rightarrow> rnode \<Rightarrow> XNodeT \<Rightarrow> XPath \<Rightarrow> error + XReturnType" where
  "queryOne env doc q this =
     bindE (query env doc q this) (\<lambda>v. case v of
         VNodeset ns \<Rightarrow> (case ns of [] \<Rightarrow> Inr RNull | n # rest \<Rightarrow> Inr (returned n))
       | VNumber x \<Rightarrow> Inr (RNumber x)
       | VString x \<Rightarrow> Inr (RString x)
       | VBoolean x \<Rightarrow> Inr (RBoolean x)
       | VNull \<Rightarrow> Inr RNull)"

definition queryAll :: "jsenv \<Rightarrow> rnode \<Rightarrow> XNodeT \<Rightarrow> XPath \<Rightarrow> error + XReturnType list" where
  "queryAll env doc q this =
     bindE (query env doc q this) (\<lambda>v. case v of
         VNodeset ns \<Rightarrow> Inr (map returned ns)
       | VNumber x \<Rightarrow> Inr [RNumber x]
       | VString x \<Rightarrow> Inr [RString x]
       | VBoolean x \<Rightarrow> Inr [RBoolean x]
       | VNull \<Rightarrow> Inr [RNull])"

definition newXPath :: XPath where
  \<comment> \<open>a new evaluator: both stacks are empty\<close>
  "newXPath = \<lparr>ctxStack = [], dataStack = []\<rparr>"

section \<open>The markup parser (parser.ts)\<close>

text \<open>
  \<open>XmlParser\<close> and \<open>HtmlParser\<close> build the tree in place: a node is an object that the
  parser stack, the children sequence of its parent, the namespace scope and the list of
  namespaced attributes all refer to. The model keeps the nodes in a store and refers to a
  node by its address, so that this sharing is kept. The parser reads tokens from a lexer; the
  lexer (\<open>lexer.ts\<close>) is a parameter of the model, given by the four methods the parser calls.
  The tables of \<open>constants.ts\<close> are a parameter too.

  A token is modelled by its \<open>value\<close> and \<open>type\<close>; \<open>line\<close>, \<open>col\<close> and \<open>msg\<close> are only printed.
  Of the fields of a node, the flags that are derived from the others and read by no part of
  the parser (\<open>hasChild\<close>, \<open>hasParent\<close>, \<open>hasText\<close>, \<open>hasComment\<close>, \<open>hasAttribute\<close>,
  \<open>isSelfEnclosing\<close>, \<open>isVoid\<close>, \<open>isNamespaced\<close>, \<open>isCData\<close>, \<open>hasEntity\<close>, \<open>mode\<close>) and the
  document name are left out. \<open>error\<close> prints its message and throws an \<open>Error\<close> without one;
  the model carries the printed message in the error value, without the quotation marks and
  the names it quotes.
\<close>

datatype TokenType = TokenGThan | TokenLThan | TokenQMark | TokenEqual | TokenText | TokenFSlash
  | TokenColon | TokenString | TokenName | TokenNumber | TokenComment | TokenDoctype | TokenCdata
  | TokenEof | TokenError | TokenUnknown

record Token =
  tokValue :: jsstring
  tokType :: TokenType

record 'l LexerOps =
  getToken :: "'l \<Rightarrow> Token \<times> 'l"
  getCurrentIndex :: "'l \<Rightarrow> nat"
  getPILexeme :: "'l \<Rightarrow> nat \<Rightarrow> jsstring"
  createSyntheticToken :: "jsstring \<Rightarrow> TokenType \<Rightarrow> 'l \<Rightarrow> Token \<times> 'l"

record Constants =
  XmlPrefix :: jsstring
  XmlnsPrefix :: jsstring
  XmlnsName :: jsstring
  XmlUri :: jsstring
  XmlnsUri :: jsstring
  XhtmlUri :: jsstring
  ReservedXmlPrefixes :: "jsstring list"
  ReservedXmlUris :: "jsstring list"
  HtmlVoidElementNames :: "jsstring list"

record ParserConfig =
  allowMissingNamespaces :: bool
  showWarnings :: bool
  allowDefaultNamespaceBindings :: bool
  ensureUniqueNamespacedAttributes :: bool

record HNode =
  nType :: RNodeType
  nParent :: "nat option"
  nIndex :: "nat option"           \<comment> \<open>\<open>None\<close> is \<open>NaN\<close>, or a field never assigned\<close>
  nChildren :: "nat list"
  nName :: RName                   \<comment> \<open>of an element or an attribute\<close>
  nValue :: jsstring               \<comment> \<open>\<open>value\<close>; \<open>uri\<close> of a namespace node\<close>
  nPrefix :: jsstring              \<comment> \<open>\<open>prefix\<close> of a namespace node, \<open>target\<close> of a PI\<close>
  nNamespace :: "nat option"
  nAttributes :: "(jsstring \<times> nat) list"
  nNamespaces :: "nat list"
  nPos :: int
  nIsDefault :: bool
  nIsGlobal :: bool
  nRootElement :: "nat option"
  nXmlDecl :: "(nat \<times> nat) option"
  nDtdDecl :: "(nat \<times> nat) option"
  nIsWellFormed :: bool

definition blankNode :: "RNodeType \<Rightarrow> HNode" where
  \<comment> \<open>a node as its class initialises it\<close>
  "blankNode t = \<lparr>nType = t, nParent = None, nIndex = None, nChildren = [],
     nName = \<lparr>qname = [], lname = [], pname = []\<rparr>, nValue = [], nPrefix = [],
     nNamespace = None, nAttributes = [], nNamespaces = [], nPos = - 1, nIsDefault = False,
     nIsGlobal = False, nRootElement = None, nXmlDecl = None, nDtdDecl = None,
     nIsWellFormed = False\<rparr>"

record 'l XmlParser =
  lexer :: 'l
  previousToken :: "Token option"
  currentToken :: "Token option"
  stack :: "nat list"                            \<comment> \<open>the top is the head\<close>
  heap :: "nat \<Rightarrow> HNode"                         \<comment> \<open>the nodes, by address\<close>
  allocated :: nat                               \<comment> \<open>the addresses below it are in use\<close>
  rootNode :: "nat option"
  pos' :: nat
  config :: ParserConfig
  isRootElementClosed :: bool
  currentScope :: "(jsstring \<times> nat) list list"   \<comment> \<open>\<open>table\<close> and its enclosing scopes\<close>
  scopeDisabled :: bool
  warnings :: nat
  warned :: "jsstring list"                      \<comment> \<open>the calls of \<open>warn\<close>, by their message\<close>
  uniqueNames :: "jsstring list"
  namespacedAttributes :: "nat list"

type_synonym ('l, 'a) P = "'l XmlParser \<Rightarrow> error + ('a \<times> 'l XmlParser)"
  \<comment> \<open>a method of the parser: it throws, or returns a value and leaves a parser state\<close>

subsection \<open>Sequencing\<close>

definition unitP :: "'a \<Rightarrow> ('l, 'a) P" where
  "unitP x s = Inr (x, s)"

definition failP :: "error \<Rightarrow> ('l, 'a) P" where
  "failP e s = Inl e"

definition bindP :: "('l, 'a) P \<Rightarrow> ('a \<Rightarrow> ('l, 'b) P) \<Rightarrow> ('l, 'b) P" where
  "bindP m f s = (case m s of Inl e \<Rightarrow> Inl e | Inr (x, s') \<Rightarrow> f x s')"

definition thenP :: "('l, 'a) P \<Rightarrow> ('l, 'b) P \<Rightarrow> ('l, 'b) P" where
  "thenP m k = bindP m (\<lambda>x. k)"

definition gets :: "('l XmlParser \<Rightarrow> 'a) \<Rightarrow> ('l, 'a) P" where
  "gets f s = Inr (f s, s)"

definition modify :: "('l XmlParser \<Rightarrow> 'l XmlParser) \<Rightarrow> ('l, unit) P" where
  "modify f s = Inr ((), f s)"

definition whenP :: "bool \<Rightarrow> ('l, unit) P \<Rightarrow> ('l, unit) P" where
  "whenP b m = (if b then m else unitP ())"

fun forP :: "'a list \<Rightarrow> ('a \<Rightarrow> ('l, unit) P) \<Rightarrow> ('l, unit) P" where
  "forP [] f = unitP ()"
| "forP (x # xs) f = thenP (f x) (forP xs f)"

text \<open>
  The loops whose exit depends on the tokens to come, and the recursion of \<open>parseElement\<close>, run
  on fuel: a run that needs more ends with \<open>OutOfFuel\<close>, which is no error of the code.
\<close>

fun whileP :: "nat \<Rightarrow> ('l, bool) P \<Rightarrow> ('l, unit) P \<Rightarrow> ('l, unit) P" where
  "whileP 0 c b = failP (OutOfFuel)"
| "whileP (Suc n) c b = bindP c (\<lambda>ok. if ok then thenP b (whileP n c b) else unitP ())"

fun doWhileP :: "nat \<Rightarrow> ('l, unit) P \<Rightarrow> ('l, bool) P \<Rightarrow> ('l, unit) P" where
  "doWhileP 0 b c = failP (OutOfFuel)"
| "doWhileP (Suc n) b c = thenP b (bindP c (\<lambda>ok. if ok then doWhileP n b c else unitP ()))"

subsection \<open>The store, the stack and the scope table\<close>

definition newNode :: "HNode \<Rightarrow> ('l, nat) P" where
  \<comment> \<open>\<open>new\<close>, and the assignments to the fields of the new node that follow it\<close>
  "newNode nd = bindP (gets allocated) (\<lambda>n.
     thenP (modify (\<lambda>s. s\<lparr>heap := (heap s)(n := nd), allocated := Suc n\<rparr>)) (unitP n))"

definition nodeAt :: "nat \<Rightarrow> ('l, HNode) P" where
  \<comment> \<open>a read of fields of a node\<close>
  "nodeAt n = bindP (gets allocated) (\<lambda>a.
     if n < a then gets (\<lambda>s. heap s n) else failP TypeError)"

definition updNode :: "nat \<Rightarrow> (HNode \<Rightarrow> HNode) \<Rightarrow> ('l, unit) P" where
  \<comment> \<open>an assignment to fields of a node; an address that was never handed out stands for no
      node\<close>
  "updNode n f = bindP (gets allocated) (\<lambda>a.
     if n < a then modify (\<lambda>s. s\<lparr>heap := (heap s)(n := f (heap s n))\<rparr>) else failP TypeError)"

definition push :: "nat \<Rightarrow> ('l, unit) P" where
  "push n = modify (\<lambda>s. s\<lparr>stack := n # stack s\<rparr>)"

definition pop :: "('l, unit) P" where
  "pop = modify (\<lambda>s. s\<lparr>stack := tl (stack s)\<rparr>)"

definition getParent :: "('l, nat) P" where
  \<comment> \<open>the top of the stack; the caller reads a field of it\<close>
  "getParent = bindP (gets stack) (\<lambda>st. case st of [] \<Rightarrow> failP TypeError | p # ps \<Rightarrow> unitP p)"

definition setParent :: "nat \<Rightarrow> ('l, unit) P" where
  \<comment> \<open>\<open>node.index = parent.children.push(node) - 1; node.parent = parent\<close>\<close>
  "setParent n = bindP getParent (\<lambda>p. bindP (nodeAt p) (\<lambda>par.
     thenP (updNode p (\<lambda>x. x\<lparr>nChildren := nChildren x @ [n]\<rparr>))
       (updNode n (\<lambda>x. x\<lparr>nIndex := Some (length (nChildren par)), nParent := Some p\<rparr>))))"

definition newChild :: "HNode \<Rightarrow> ('l, nat) P" where
  \<comment> \<open>a new node handed to \<open>setParent\<close>\<close>
  "newChild nd = bindP (newNode nd) (\<lambda>n. thenP (setParent n) (unitP n))"

definition nextPos :: "('l, int) P" where
  \<comment> \<open>\<open>this.pos++\<close>\<close>
  "nextPos = bindP (gets pos') (\<lambda>p. thenP (modify (\<lambda>s. s\<lparr>pos' := Suc p\<rparr>)) (unitP (int p)))"

definition root :: "('l, nat) P" where
  "root = bindP (gets rootNode) (\<lambda>r. case r of None \<Rightarrow> failP TypeError | Some n \<Rightarrow> unitP n)"

definition scopeInsert :: "jsstring \<Rightarrow> nat \<Rightarrow> ('l, bool) P" where
  \<comment> \<open>\<open>NamespaceScopeTable.insert\<close>\<close>
  "scopeInsert key n = bindP (gets currentScope) (\<lambda>sc. case sc of
       [] \<Rightarrow> failP TypeError
     | t # ts \<Rightarrow> if key \<in> fst ` set t then unitP False
                else thenP (modify (\<lambda>s. s\<lparr>currentScope := (t @ [(key, n)]) # ts\<rparr>)) (unitP True))"

definition scopeLookup :: "jsstring \<Rightarrow> ('l, nat option) P" where
  \<comment> \<open>\<open>NamespaceScopeTable.lookup\<close>: the innermost scope that holds the key\<close>
  "scopeLookup key = gets (\<lambda>s.
     case find (\<lambda>t. map_of t key \<noteq> None) (currentScope s) of
       None \<Rightarrow> None
     | Some t \<Rightarrow> map_of t key)"

definition newScope :: "('l, unit) P" where
  "newScope = modify (\<lambda>s. if scopeDisabled s then s else s\<lparr>currentScope := [] # currentScope s\<rparr>)"

definition backtrackScope :: "('l, unit) P" where
  "backtrackScope = modify (\<lambda>s. if scopeDisabled s then s
     else (case currentScope s of t # t' # ts \<Rightarrow> s\<lparr>currentScope := t' # ts\<rparr> | _ \<Rightarrow> s))"

definition mapSet :: "'k \<Rightarrow> 'v \<Rightarrow> ('k \<times> 'v) list \<Rightarrow> ('k \<times> 'v) list" where
  \<comment> \<open>\<open>Map.prototype.set\<close>: a key that is present keeps its place\<close>
  "mapSet key v m = (if key \<in> fst ` set m
     then map (\<lambda>kv. if fst kv = key then (key, v) else kv) m else m @ [(key, v)])"

subsection \<open>Warnings, errors and tokens\<close>

definition warn :: "jsstring \<Rightarrow> ('l, unit) P" where
  \<comment> \<open>\<open>this.warnings++\<close>, then the message is printed if \<open>showWarnings\<close> is on\<close>
  "warn msg = modify (\<lambda>s. s\<lparr>warnings := Suc (warnings s), warned := warned s @ [msg]\<rparr>)"

definition errorP :: "jsstring \<Rightarrow> ('l, 'a) P" where
  \<comment> \<open>\<open>this.error(token, msg)\<close>\<close>
  "errorP msg = failP (ParseError msg)"

definition current :: "('l, Token) P" where
  \<comment> \<open>a read of a field of \<open>this.currentToken\<close>\<close>
  "current = bindP (gets currentToken) (\<lambda>t. case t of None \<Rightarrow> failP TypeError | Some tok \<Rightarrow> unitP tok)"

definition previous :: "('l, Token) P" where
  "previous = bindP (gets previousToken) (\<lambda>t. case t of None \<Rightarrow> failP TypeError | Some tok \<Rightarrow> unitP tok)"

definition advance :: "'l LexerOps \<Rightarrow> ('l, unit) P" where
  \<comment> \<open>\<open>advance()\<close>; no caller passes \<open>failOnError\<close>\<close>
  "advance lx = bindP (gets lexer) (\<lambda>l. case getToken lx l of (token, l') \<Rightarrow>
     thenP (modify (\<lambda>s. s\<lparr>previousToken := currentToken s, lexer := l'\<rparr>))
       (if tokType token = TokenError \<or> tokType token = TokenUnknown
        then errorP ''A problem occurred while parsing.''
        else modify (\<lambda>s. s\<lparr>currentToken := Some token\<rparr>)))"

definition check :: "TokenType \<Rightarrow> ('l, bool) P" where
  "check tt = bindP current (\<lambda>t. unitP (tokType t = tt))"

definition consume :: "'l LexerOps \<Rightarrow> TokenType \<Rightarrow> ('l, unit) P" where
  "consume lx tt = bindP (check tt) (\<lambda>ok.
     if ok then advance lx else errorP ''Expected token of type'')"

definition matchT :: "'l LexerOps \<Rightarrow> TokenType \<Rightarrow> ('l, bool) P" where
  \<comment> \<open>\<open>match\<close>\<close>
  "matchT lx tt = bindP (check tt) (\<lambda>ok.
     if ok then thenP (advance lx) (unitP True) else unitP False)"

definition createRoot :: "Constants \<Rightarrow> bool \<Rightarrow> ('l, unit) P" where
  \<comment> \<open>\<open>html\<close> picks the method of \<open>HtmlParser\<close>; the two tables of reserved names have the
      same length\<close>
  "createRoot k html = bindP (newNode (blankNode Root)) (\<lambda>r.
     thenP (modify (\<lambda>s. s\<lparr>rootNode := Some r\<rparr>)) (thenP (push r)
       (if html then unitP ()
        else forP (zip (ReservedXmlPrefixes k) (ReservedXmlUris k)) (\<lambda>pu.
               bindP (newNode ((blankNode Namespace)
                        \<lparr>nPrefix := fst pu, nValue := snd pu, nIsGlobal := True\<rparr>)) (\<lambda>ns.
                 thenP (scopeInsert (fst pu) ns)
                   (updNode r (\<lambda>x. x\<lparr>nNamespaces := nNamespaces x @ [ns]\<rparr>)))))))"

subsection \<open>Names, namespace declarations and attributes\<close>

definition startsWith :: "jsstring \<Rightarrow> jsstring \<Rightarrow> bool" where
  \<comment> \<open>\<open>String.prototype.startsWith\<close>\<close>
  "startsWith s p = (take (length p) s = p)"

definition parseName :: "'l LexerOps \<Rightarrow> jsenv \<Rightarrow> Constants \<Rightarrow> bool \<Rightarrow> ('l, RName) P" where
  "parseName lx env k isElementName =
     bindP (matchT lx TokenName) (\<lambda>m.
       if \<not> m then failP (Unreachable ''Expected attribute name'')
       else bindP previous (\<lambda>firstTok. bindP (matchT lx TokenColon) (\<lambda>colon.
         bindP (if colon
                then thenP (consume lx TokenName) (bindP previous (\<lambda>localTok.
                       unitP \<lparr>qname = tokValue firstTok @ '':'' @ tokValue localTok,
                              lname = tokValue localTok, pname = tokValue firstTok\<rparr>))
                else unitP \<lparr>qname = tokValue firstTok, lname = tokValue firstTok,
                            pname = []\<rparr>) (\<lambda>nm.
         thenP (whenP (pname nm \<noteq> [] \<and> pname nm \<noteq> XmlnsName k
                        \<and> length (pname nm) > length (XmlPrefix k)
                        \<and> startsWith (toLowerCase env (pname nm)) (XmlPrefix k))
                  (warn ''prefix should not contain xml''))
        (thenP (whenP (pname nm \<noteq> [] \<and> length (lname nm) > length (XmlPrefix k)
                        \<and> startsWith (toLowerCase env (lname nm)) (XmlPrefix k))
                  (warn ''local name should not contain xml''))
           (if isElementName \<and> pname nm = XmlnsPrefix k
            then errorP ''Element names must not have the prefix xmlns''
            else unitP nm))))))"

definition parseNamespaceXml :: "'l LexerOps \<Rightarrow> jsenv \<Rightarrow> Constants \<Rightarrow> nat \<Rightarrow> ('l, nat) P" where
  \<comment> \<open>\<open>XmlParser.parseNamespace\<close>\<close>
  "parseNamespaceXml lx env k par =
     bindP (parseName lx env k False) (\<lambda>nm.
     thenP (consume lx TokenEqual) (thenP (consume lx TokenString) (bindP previous (\<lambda>valTok.
       let uri = trim (tokValue valTok);
           hasXmlPrefix = (lname nm = XmlPrefix k);
           hasXmlnsPrefix = (lname nm = XmlnsPrefix k \<and> lname nm \<noteq> qname nm);
           isDef = (lname nm = XmlnsName k);
           pre = (if isDef then [] else lname nm)
       in thenP (if hasXmlPrefix
                 then whenP (uri \<noteq> XmlUri k) (errorP
                   ''The xml prefix must not be bound to any other namespace name (uri)'')
                 else if pname nm = []
                 then whenP (uri = XmlUri k) (errorP
                   ''The xml namespace name (uri) must not be declared as a default namespace'')
                 else whenP (uri = XmlUri k) (errorP
                   ''Prefixes other than xml must not be bound to this namespace name (uri)''))
         (thenP (if hasXmlnsPrefix
                 then errorP ''The prefix xmlns must not be declared (as a namespace prefix)''
                 else if pname nm = []
                 then whenP (uri = XmlnsUri k) (errorP
                   ''The xmlns namespace name (uri) must not be declared as a default namespace'')
                 else whenP (uri = XmlnsUri k) (errorP
                   ''Prefixes other than xmlns must not be bound to this namespace name (uri)''))
         (thenP (whenP (lname nm \<noteq> [] \<and> uri = []) (errorP
                   ''Attribute value cannot be empty for a namespace with a prefix''))
         (bindP nextPos (\<lambda>p.
          bindP (newNode ((blankNode Namespace)\<lparr>nPrefix := pre, nValue := uri,
                   nParent := Some par, nIsDefault := isDef, nPos := p\<rparr>)) (\<lambda>node.
          bindP (scopeInsert pre node) (\<lambda>fresh.
            if \<not> fresh then errorP ''Duplicate namespace declaration found in element''
            else thenP (scopeInsert (if pre \<noteq> [] then pre else XmlnsName k) node)
                   (unitP node)))))))))))"

definition parseNamespaceHtml :: "'l LexerOps \<Rightarrow> jsenv \<Rightarrow> Constants \<Rightarrow> nat \<Rightarrow> ('l, nat) P" where
  \<comment> \<open>\<open>HtmlParser.parseNamespace\<close>\<close>
  "parseNamespaceHtml lx env k par =
     thenP (parseName lx env k False)
     (thenP (consume lx TokenEqual) (thenP (consume lx TokenString) (bindP previous (\<lambda>valTok.
       let uri = trim (tokValue valTok)
       in if uri \<noteq> XhtmlUri k
          then errorP
            ''The namespace name (uri) must only be used in a default namespace declaration''
          else bindP nextPos (\<lambda>p.
                 newNode ((blankNode Namespace)\<lparr>nValue := uri, nParent := Some par,
                   nIsDefault := True, nPos := p\<rparr>))))))"

definition parseAttributeXml :: "'l LexerOps \<Rightarrow> jsenv \<Rightarrow> Constants \<Rightarrow> nat \<Rightarrow> ('l, nat) P" where
  \<comment> \<open>\<open>XmlParser.parseAttribute\<close>\<close>
  "parseAttributeXml lx env k par =
     bindP current (\<lambda>t.
       if tokValue t = XmlnsPrefix k
       then bindP (nodeAt par) (\<lambda>parent.
              if nType parent \<noteq> Element
              then errorP ''Xml declaration cannot contain namespaces''
              else parseNamespaceXml lx env k par)
       else bindP (parseName lx env k False) (\<lambda>nm.
            thenP (consume lx TokenEqual) (thenP (consume lx TokenString)
            (bindP previous (\<lambda>valTok. bindP nextPos (\<lambda>p.
             bindP (newNode ((blankNode Attribute)\<lparr>nName := nm, nValue := tokValue valTok,
                      nParent := Some par, nPos := p\<rparr>)) (\<lambda>node.
               thenP (whenP (pname nm \<noteq> [])
                        (modify (\<lambda>s. s\<lparr>namespacedAttributes := namespacedAttributes s @ [node]\<rparr>)))
                 (unitP node))))))))"

definition parseAttributeHtml :: "'l LexerOps \<Rightarrow> jsenv \<Rightarrow> Constants \<Rightarrow> nat \<Rightarrow> ('l, nat) P" where
  \<comment> \<open>\<open>HtmlParser.parseAttribute\<close>\<close>
  "parseAttributeHtml lx env k par =
     bindP current (\<lambda>t.
       if tokValue t = XmlnsPrefix k then parseNamespaceHtml lx env k par
       else bindP (parseName lx env k False) (\<lambda>nm.
            bindP (bindP (check TokenEqual) (\<lambda>eq.
                     if eq
                     then thenP (consume lx TokenEqual) (bindP (check TokenString) (\<lambda>str.
                            thenP (if str then consume lx TokenString else advance lx)
                              (bindP previous (\<lambda>valTok. unitP (tokValue valTok)))))
                     else unitP [])) (\<lambda>v.
            bindP nextPos (\<lambda>p.
              newNode ((blankNode Attribute)\<lparr>nName := nm, nValue := v,
                nParent := Some par, nPos := p\<rparr>)))))"

fun resolveAttributes :: "Constants \<Rightarrow> nat list \<Rightarrow> ('l, bool) P" where
  \<comment> \<open>the loop of \<open>resolveNamespaces\<close> over \<open>this.namespacedAttributes\<close>; the result is
      \<open>False\<close> when the loop was left by \<open>return\<close>\<close>
  "resolveAttributes k [] = unitP True"
| "resolveAttributes k (a # as) =
     bindP (nodeAt a) (\<lambda>attr. bindP (scopeLookup (pname (nName attr))) (\<lambda>found.
     bindP (gets config) (\<lambda>cfg.
       case found of
         None \<Rightarrow> if allowMissingNamespaces cfg then unitP False
                 else errorP ''Could not resolve namespace with prefix for attribute''
       | Some ns \<Rightarrow>
           thenP (updNode a (\<lambda>x. x\<lparr>nNamespace := Some ns\<rparr>))
          (thenP (if ensureUniqueNamespacedAttributes cfg
                  then bindP (nodeAt ns) (\<lambda>nsNode. bindP (gets uniqueNames) (\<lambda>names.
                         let expandedName = trim (nValue nsNode) @ '':'' @ lname (nName attr)
                         in if expandedName \<in> set names
                            then errorP ''Duplicate attributes found in element declaration''
                            else modify (\<lambda>s. s\<lparr>uniqueNames := names @ [expandedName]\<rparr>)))
                  else unitP ())
             (resolveAttributes k as)))))"

definition resolveNamespacesXml :: "Constants \<Rightarrow> nat \<Rightarrow> ('l, unit) P" where
  \<comment> \<open>\<open>XmlParser.resolveNamespaces\<close>; the two early \<open>return\<close>s leave
      \<open>namespacedAttributes\<close> and \<open>uniqueNames\<close> as they are\<close>
  "resolveNamespacesXml k el =
     bindP (nodeAt el) (\<lambda>elNode. bindP (gets config) (\<lambda>cfg.
     bindP (if pname (nName elNode) \<noteq> []
            then bindP (scopeLookup (pname (nName elNode))) (\<lambda>found. case found of
                     None \<Rightarrow> if allowMissingNamespaces cfg then unitP False
                             else errorP ''Could not resolve namespace with prefix for element''
                   | Some ns \<Rightarrow> thenP (updNode el (\<lambda>x. x\<lparr>nNamespace := Some ns\<rparr>)) (unitP True))
            else if allowDefaultNamespaceBindings cfg
            then bindP (scopeLookup (XmlnsPrefix k)) (\<lambda>found. case found of
                     None \<Rightarrow> unitP True
                   | Some ns \<Rightarrow> bindP (nodeAt ns) (\<lambda>nsNode.
                       thenP (whenP (nIsDefault nsNode)
                                (updNode el (\<lambda>x. x\<lparr>nNamespace := Some ns\<rparr>)))
                         (unitP True)))
            else unitP True) (\<lambda>goOn.
       if \<not> goOn then unitP ()
       else bindP (gets namespacedAttributes) (\<lambda>attrs.
              bindP (resolveAttributes k attrs) (\<lambda>done.
                if \<not> done then unitP ()
                else modify (\<lambda>s. s\<lparr>namespacedAttributes := [], uniqueNames := []\<rparr>))))))"

subsection \<open>Comments, processing instructions and text\<close>

definition parseComment :: "'l LexerOps \<Rightarrow> ('l, unit) P" where
  "parseComment lx =
     bindP current (\<lambda>t. bindP nextPos (\<lambda>p.
       thenP (newChild ((blankNode Comment)
                \<lparr>nValue := js_slice (tokValue t) (Fin 4) (Some (Fin (- 3))), nPos := p\<rparr>))
         (advance lx)))"

definition parsePI :: "'l LexerOps \<Rightarrow> nat \<Rightarrow> bool \<Rightarrow> ('l, unit) P" where
  \<comment> \<open>\<open>n\<close> is the fuel of the loop that skips to the closing \<open>?\<close>\<close>
  "parsePI lx n ignoreQmark =
     thenP (whenP (\<not> ignoreQmark) (advance lx))
    (bindP (gets lexer) (\<lambda>l0. bindP (matchT lx TokenName) (\<lambda>m.
       if \<not> m then errorP ''Expected processing instruction target''
       else bindP previous (\<lambda>targetTok.
            thenP (whileP n (bindP (check TokenQMark) (\<lambda>q. unitP (\<not> q)))
                     (thenP (advance lx) (bindP (check TokenEof) (\<lambda>eof.
                        whenP eof (errorP ''Unexpected end of processing instruction'')))))
           (bindP (gets lexer) (\<lambda>l1.
            thenP (consume lx TokenQMark) (thenP (consume lx TokenGThan)
           (bindP nextPos (\<lambda>p.
            thenP (newChild ((blankNode ProcessingInstruction)
                     \<lparr>nPrefix := tokValue targetTok,
                      nValue := getPILexeme lx l1 (getCurrentIndex lx l0), nPos := p\<rparr>))
              (unitP ()))))))))))"

definition parseText :: "'l LexerOps \<Rightarrow> bool \<Rightarrow> ('l, unit) P" where
  "parseText lx expectsWhitespaceOnly =
     bindP current (\<lambda>t. bindP (check TokenCdata) (\<lambda>isCdata.
       let v = (if isCdata then js_slice (tokValue t) (Fin 9) (Some (Fin (- 3)))
                else tokValue t)
       in thenP (advance lx)
         (thenP (whenP (expectsWhitespaceOnly \<and> trim v \<noteq> [])
                   (warn ''Text at this part should be whitespace only.''))
         (bindP nextPos (\<lambda>p.
            thenP (newChild ((blankNode Text)\<lparr>nValue := v, nPos := p\<rparr>)) (unitP ()))))))"

subsection \<open>Elements and content\<close>

text \<open>
  \<open>misc\<close>, \<open>handleContent\<close> and \<open>parseElement\<close> call each other. \<open>parseElement\<close> is the
  recursive function; the other two take the parser of a nested element as the argument
  \<open>element\<close>. \<open>n\<close> is the fuel that is left. \<open>html\<close> picks the methods that \<open>HtmlParser\<close>
  overrides.
\<close>

definition misc :: "'l LexerOps \<Rightarrow> nat \<Rightarrow> ('l, unit) P \<Rightarrow> bool \<Rightarrow> ('l, unit) P" where
  "misc lx n element whitespaceText =
     thenP (bindP (check TokenLThan) (\<lambda>lt. whenP lt (advance lx)))
       (bindP current (\<lambda>t.
          if tokType t = TokenName then element
          else if tokType t = TokenQMark then parsePI lx n False
          else if tokType t = TokenComment then parseComment lx
          else if tokType t = TokenText \<or> tokType t = TokenCdata then parseText lx whitespaceText
          else if tokType t = TokenFSlash then unitP ()
          else failP (Unreachable ''Token found at an unexpected position'')))"

definition miscS :: "'l LexerOps \<Rightarrow> nat \<Rightarrow> ('l, unit) P \<Rightarrow> ('l, unit) P" where
  "miscS lx n element =
     whileP n (bindP current (\<lambda>t.
                 unitP (tokType t \<in> {TokenLThan, TokenComment, TokenText, TokenCdata})))
       (misc lx n element True)"

definition closeTag :: "'l LexerOps \<Rightarrow> jsenv \<Rightarrow> Constants \<Rightarrow> RName \<Rightarrow> ('l, unit) P" where
  \<comment> \<open>the end of both \<open>handleContent\<close> methods, from \<open>parseName\<close> on\<close>
  "closeTag lx env k nm =
     bindP (parseName lx env k False) (\<lambda>endName.
       thenP (whenP (qname endName \<noteq> qname nm) (errorP ''Closing tag mismatch''))
         (thenP (consume lx TokenGThan) pop))"

definition content :: "'l LexerOps \<Rightarrow> nat \<Rightarrow> ('l, unit) P \<Rightarrow> ('l, unit) P" where
  \<comment> \<open>\<open>do { this.misc(false) } while (!check(TokenFSlash) && !check(TokenEof))\<close>\<close>
  "content lx n element =
     doWhileP n (misc lx n element False)
       (bindP (check TokenFSlash) (\<lambda>slash. bindP (check TokenEof) (\<lambda>eof.
          unitP (\<not> slash \<and> \<not> eof))))"

definition handleContentXml :: "'l LexerOps \<Rightarrow> jsenv \<Rightarrow> Constants \<Rightarrow> nat \<Rightarrow> ('l, unit) P
    \<Rightarrow> nat \<Rightarrow> RName \<Rightarrow> ('l, unit) P" where
  \<comment> \<open>\<open>XmlParser.handleContent\<close>\<close>
  "handleContentXml lx env k n element el nm =
     bindP (check TokenFSlash) (\<lambda>slash.
       if slash then thenP (advance lx) (consume lx TokenGThan)
       else thenP (push el) (thenP (consume lx TokenGThan) (thenP (content lx n element)
              (thenP (consume lx TokenFSlash) (closeTag lx env k nm)))))"

fun scriptLoop :: "'l LexerOps \<Rightarrow> nat \<Rightarrow> nat \<Rightarrow> ('l, bool) P" where
  \<comment> \<open>the \<open>do ... while\<close> loop of \<open>HtmlParser.handleContent\<close> for a \<open>script\<close> element; the
      result is \<open>skipFSlash\<close>. The text child is created without \<open>setParent\<close>\<close>
  "scriptLoop lx 0 el = failP (OutOfFuel)"
| "scriptLoop lx (Suc n) el =
     bindP (gets lexer) (\<lambda>l. case createSyntheticToken lx ''</'' TokenFSlash l of (token, l') \<Rightarrow>
       thenP (modify (\<lambda>s. s\<lparr>lexer := l'\<rparr>))
         (bindP (if tokType token = TokenFSlash
                 then thenP (advance lx) (bindP current (\<lambda>c.
                        if tokType c = TokenName \<and> tokValue c = ''script''
                        then thenP (whenP (trim (tokValue token) \<noteq> [])
                                      (bindP (newNode ((blankNode Text)
                                                \<lparr>nValue := tokValue token, nParent := Some el\<rparr>))
                                         (\<lambda>child. updNode el
                                            (\<lambda>x. x\<lparr>nChildren := nChildren x @ [child]\<rparr>))))
                               (unitP True)
                        else unitP False))
                 else unitP False) (\<lambda>found.
            if found then unitP True
            else bindP (check TokenEof) (\<lambda>eof.
                   if \<not> eof \<and> tokType token \<noteq> TokenError then scriptLoop lx n el
                   else unitP False))))"

definition handleContentHtml :: "'l LexerOps \<Rightarrow> jsenv \<Rightarrow> Constants \<Rightarrow> nat \<Rightarrow> ('l, unit) P
    \<Rightarrow> nat \<Rightarrow> RName \<Rightarrow> ('l, unit) P" where
  \<comment> \<open>\<open>HtmlParser.handleContent\<close>\<close>
  "handleContentHtml lx env k n element el nm =
     bindP (check TokenFSlash) (\<lambda>slash.
       if slash then thenP (advance lx) (consume lx TokenGThan)
       else if qname nm \<in> set (HtmlVoidElementNames k) then consume lx TokenGThan
       else thenP (push el)
              (bindP (if qname nm \<noteq> ''script''
                      then thenP (consume lx TokenGThan)
                             (thenP (content lx n element) (unitP False))
                      else scriptLoop lx n el) (\<lambda>skipFSlash.
                 thenP (whenP (\<not> skipFSlash) (consume lx TokenFSlash))
                   (closeTag lx env k nm))))"

definition attributeList :: "'l LexerOps \<Rightarrow> jsenv \<Rightarrow> Constants \<Rightarrow> bool \<Rightarrow> nat \<Rightarrow> nat
    \<Rightarrow> ('l, unit) P" where
  \<comment> \<open>the \<open>while (this.check(TokenName))\<close> loop of \<open>parseElement\<close>\<close>
  "attributeList lx env k html n el =
     whileP n (check TokenName)
       (bindP (if html then parseAttributeHtml lx env k el
               else parseAttributeXml lx env k el) (\<lambda>attr.
          bindP (nodeAt attr) (\<lambda>a.
            if nType a = Attribute
            then updNode el (\<lambda>x. x\<lparr>nAttributes := mapSet (qname (nName a)) attr (nAttributes x)\<rparr>)
            else updNode el (\<lambda>x. x\<lparr>nNamespaces := nNamespaces x @ [attr]\<rparr>))))"

definition parseElementBody :: "'l LexerOps \<Rightarrow> jsenv \<Rightarrow> Constants \<Rightarrow> bool \<Rightarrow> nat
    \<Rightarrow> ('l, unit) P \<Rightarrow> ('l, unit) P" where
  \<comment> \<open>\<open>parseElement\<close>, with \<open>element\<close> for its nested calls\<close>
  "parseElementBody lx env k html n element =
     thenP newScope
    (bindP (parseName lx env k True) (\<lambda>nm. bindP nextPos (\<lambda>p.
     bindP (newChild ((blankNode Element)\<lparr>nName := nm, nPos := p\<rparr>)) (\<lambda>node.
     bindP root (\<lambda>r. bindP (nodeAt r) (\<lambda>rootBefore.
     thenP (whenP (nRootElement rootBefore = None)
              (updNode r (\<lambda>x. x\<lparr>nRootElement := Some node\<rparr>)))
    (thenP (attributeList lx env k html n node)
    (thenP (if html then unitP () else resolveNamespacesXml k node)
    (thenP (if html then handleContentHtml lx env k n element node nm
            else handleContentXml lx env k n element node nm)
    (bindP (nodeAt r) (\<lambda>rootAfter. bindP (gets isRootElementClosed) (\<lambda>closed.
     thenP (if nRootElement rootAfter = Some node
            then modify (\<lambda>s. s\<lparr>isRootElementClosed := True\<rparr>)
            else whenP closed (errorP ''Multiple root elements are prohibited''))
       backtrackScope))))))))))))"

fun parseElement :: "'l LexerOps \<Rightarrow> jsenv \<Rightarrow> Constants \<Rightarrow> bool \<Rightarrow> nat \<Rightarrow> ('l, unit) P" where
  "parseElement lx env k html 0 = failP (OutOfFuel)"
| "parseElement lx env k html (Suc n) =
     parseElementBody lx env k html n (parseElement lx env k html n)"

subsection \<open>The prolog and the document\<close>

definition skipNewline :: "'l LexerOps \<Rightarrow> ('l, unit) P" where
  \<comment> \<open>\<open>if (check(TokenText) && currentToken.value === "\n") advance()\<close>\<close>
  "skipNewline lx = bindP current (\<lambda>t.
     whenP (tokType t = TokenText \<and> tokValue t = [CHR 0x0A]) (advance lx))"

definition parseXmlDecl :: "'l LexerOps \<Rightarrow> jsenv \<Rightarrow> Constants \<Rightarrow> nat \<Rightarrow> ('l, unit) P" where
  "parseXmlDecl lx env k n =
     bindP (check TokenLThan) (\<lambda>lt. if \<not> lt then unitP () else
     thenP (advance lx) (bindP (check TokenQMark) (\<lambda>q. if \<not> q then unitP () else
     thenP (advance lx) (bindP (check TokenName) (\<lambda>nm. if \<not> nm then unitP () else
     bindP current (\<lambda>token.
       if toLowerCase env (tokValue token) \<noteq> XmlPrefix k then parsePI lx n True
       else thenP (advance lx) (bindP nextPos (\<lambda>p. bindP root (\<lambda>r.
            bindP (newNode ((blankNode XmlDecl)\<lparr>nPos := p, nParent := Some r\<rparr>)) (\<lambda>node.
            thenP (bindP (check TokenQMark) (\<lambda>q0. whenP (\<not> q0)
                     (doWhileP n
                        (bindP (parseAttributeXml lx env k node) (\<lambda>attr.
                           bindP (nodeAt attr) (\<lambda>a. updNode node (\<lambda>x.
                             x\<lparr>nAttributes := mapSet (qname (nName a)) attr (nAttributes x)\<rparr>))))
                        (bindP (check TokenQMark) (\<lambda>q1. unitP (\<not> q1))))))
           (thenP (consume lx TokenQMark) (thenP (consume lx TokenGThan)
           (thenP (bindP (nodeAt r) (\<lambda>rootNow. updNode r (\<lambda>x.
                     x\<lparr>nXmlDecl := Some (node, length (nChildren rootNow))\<rparr>)))
              (skipNewline lx))))))))))))))"

definition parseDoctype :: "'l LexerOps \<Rightarrow> ('l, unit) P" where
  "parseDoctype lx =
     bindP current (\<lambda>t. thenP (advance lx) (bindP nextPos (\<lambda>p. bindP root (\<lambda>r.
       bindP (newNode ((blankNode DTD)\<lparr>nValue := tokValue t, nPos := p, nParent := Some r\<rparr>))
         (\<lambda>node.
       thenP (bindP (nodeAt r) (\<lambda>rootNow. updNode r (\<lambda>x.
                x\<lparr>nDtdDecl := Some (node, case nXmlDecl rootNow of
                                              Some d \<Rightarrow> snd d + 1
                                            | None \<Rightarrow> length (nChildren rootNow))\<rparr>)))
         (skipNewline lx))))))"

definition parseProlog :: "'l LexerOps \<Rightarrow> jsenv \<Rightarrow> Constants \<Rightarrow> bool \<Rightarrow> nat \<Rightarrow> ('l, unit) P
    \<Rightarrow> ('l, unit) P" where
  \<comment> \<open>\<open>HtmlParser.parseProlog\<close> leaves \<open>parseXmlDecl\<close> out\<close>
  "parseProlog lx env k html n element =
     thenP (whenP (\<not> html) (parseXmlDecl lx env k n))
       (thenP (miscS lx n element) (bindP (check TokenDoctype) (\<lambda>d.
          whenP d (thenP (parseDoctype lx) (miscS lx n element)))))"

definition finishDocument :: "('l, unit) P" where
  \<comment> \<open>\<open>this.rootNode.isWellFormed = !this.warnings\<close>\<close>
  "finishDocument = bindP root (\<lambda>r. bindP (gets warnings) (\<lambda>w.
     updNode r (\<lambda>x. x\<lparr>nIsWellFormed := (w = 0)\<rparr>)))"

definition parseDocument :: "'l LexerOps \<Rightarrow> jsenv \<Rightarrow> Constants \<Rightarrow> bool \<Rightarrow> nat \<Rightarrow> ('l, unit) P" where
  "parseDocument lx env k html n =
     thenP (advance lx)
    (thenP (parseProlog lx env k html n (parseElement lx env k html n))
    (thenP (bindP (matchT lx TokenLThan) (\<lambda>lt.
              bindP (if lt then unitP True else check TokenName) (\<lambda>go.
                whenP go (parseElement lx env k html n))))
    (thenP (miscS lx n (parseElement lx env k html n))
    (thenP (consume lx TokenEof) finishDocument))))"

definition newParser :: "'l \<Rightarrow> ParserConfig \<Rightarrow> bool \<Rightarrow> 'l XmlParser" where
  \<comment> \<open>the constructors: \<open>HtmlParser\<close> disables the scope table\<close>
  "newParser l cfg html = \<lparr>lexer = l, previousToken = None, currentToken = None, stack = [],
     heap = (\<lambda>a. blankNode Root), allocated = 0, rootNode = None, pos' = 0, config = cfg,
     isRootElementClosed = False, currentScope = [[]], scopeDisabled = html, warnings = 0,
     warned = [], uniqueNames = [], namespacedAttributes = []\<rparr>"

definition parse :: "'l LexerOps \<Rightarrow> jsenv \<Rightarrow> Constants \<Rightarrow> bool \<Rightarrow> nat \<Rightarrow> ('l, nat) P" where
  \<comment> \<open>\<open>parse()\<close>: the result is the root node\<close>
  "parse lx env k html n =
     thenP (createRoot k html) (thenP (parseDocument lx env k html n) root)"

definition defaultConfig :: ParserConfig where
  "defaultConfig = \<lparr>allowMissingNamespaces = False, showWarnings = True,
     allowDefaultNamespaceBindings = True, ensureUniqueNamespacedAttributes = True\<rparr>"

section \<open>Statements to compare the code with\<close>

definition selectPositions :: "(nat \<Rightarrow> bool) \<Rightarrow> 'a list \<Rightarrow> 'a list" where
  \<comment> \<open>the members of a sequence whose position, counted from 1, satisfies \<open>P\<close>\<close>
  "selectPositions P xs = map fst (filter (\<lambda>cp. P (snd cp)) (zip xs [1..<Suc (length xs)]))"

definition roundHalfEven :: "jsnum \<Rightarrow> jsnum" where
  \<comment> \<open>rounding to the nearest integer, a tie going to the even neighbour\<close>
  "roundHalfEven x = (case x of
       Fin r \<Rightarrow> (let f = \<lfloor>r\<rfloor>; d = r - of_int f
                 in if d < 1/2 then Fin (of_int f)
                    else if 1/2 < d then Fin (of_int (f + 1))
                    else if even f then Fin (of_int f) else Fin (of_int (f + 1)))
     | _ \<Rightarrow> x)"

definition xpathSubstring :: "(jsnum \<Rightarrow> jsnum) \<Rightarrow> jsstring \<Rightarrow> jsnum \<Rightarrow> jsnum option \<Rightarrow> jsstring" where
  \<comment> \<open>\<open>substring(s, start, length?)\<close> as the specification words it, for a rounding \<open>rnd\<close>:
      nothing when an argument is \<open>NaN\<close>, else the characters at the positions \<open>p\<close>, counted
      from 1, with \<open>rnd start \<le> p\<close> and \<open>p < rnd start + rnd length\<close>\<close>
  "xpathSubstring rnd s start len =
     (if isNaN start \<or> len = Some NaN then []
      else selectPositions (\<lambda>p. js_le (rnd start) (Fin (of_nat p))
             \<and> (case len of None \<Rightarrow> True
                 | Some l \<Rightarrow> js_lt (Fin (of_nat p)) (js_add (rnd start) (rnd l)))) s)"

definition exactRange :: "jsnum \<Rightarrow> bool" where
  \<comment> \<open>the numbers on which \<open>substring\<close> computes without rounding: the values that are not
      finite, and the finite ones of a magnitude below \<open>2^52\<close>\<close>
  "exactRange x = (case x of Fin r \<Rightarrow> \<bar>r\<bar> < 2 ^ 52 | _ \<Rightarrow> True)"

definition plainEnv :: jsenv where
  \<comment> \<open>runtime parameters for the closed examples, none of which converts between strings and
      numbers, changes case or holds an entity\<close>
  "plainEnv = \<lparr>stringToNumber = (\<lambda>s. NaN), numberToString = (\<lambda>n. []),
                toLowerCase = (\<lambda>s. s), transposeEntities = (\<lambda>s. s)\<rparr>"

definition emptyDoc :: rnode where
  \<comment> \<open>the document parsed from the empty string\<close>
  "emptyDoc = RootNode [] None []"

definition elem :: "jsstring \<Rightarrow> int \<Rightarrow> rnode list \<Rightarrow> rnode" where
  \<comment> \<open>an element with no prefix, no attribute and no namespace declaration\<close>
  "elem nm p cs = ElementNode \<lparr>name = \<lparr>qname = nm, lname = nm, pname = []\<rparr>, attributes = [],
     namespaces = [], namespace = None, hasAttribute = False, elemPos = p\<rparr> cs"

definition sampleDoc :: rnode where
  \<comment> \<open>the tree of \<open><a><x/><b><x/><x/></b></a>\<close>; \<open>XmlParser\<close> numbers the nodes from 0 in the
      order it creates them\<close>
  "sampleDoc = RootNode
     [elem ''a'' 0 [elem ''x'' 1 [], elem ''b'' 2 [elem ''x'' 3 [], elem ''x'' 4 []]]] (Some 0) []"

definition allElements :: XNodeT where
  \<comment> \<open>what \<open>XParser\<close> returns for \<open>//*\<close>\<close>
  "allElements =
     PathNode (transformStepNode (StepNode Double (AxisStep Child (NameTest Wildcard)) []))"

definition rootDescendants :: XNodeT where
  \<comment> \<open>what \<open>XParser\<close> returns for \<open>/descendant::*\<close>\<close>
  "rootDescendants = PathNode [StepNode Single (AxisStep Descendant (NameTest Wildcard)) []]"

definition commentDoc :: "NamespaceNode list \<Rightarrow> rnode" where
  \<comment> \<open>the tree of \<open><!--only-->\<close>, a document with no root element: \<open>parseDocument\<close> calls
      \<open>parseElement\<close> only at a \<open><\<close> or a name, and \<open>rootElement\<close> stays \<open>null\<close>. \<open>nss\<close> are the
      namespace nodes of the root: the reserved ones that \<open>XmlParser.createRoot\<close> puts there,
      none for \<open>HtmlParser\<close>\<close>
  "commentDoc nss = RootNode [CommentNode 0 ''only''] None nss"

definition rootChildElements :: XNodeT where
  \<comment> \<open>what \<open>XParser\<close> returns for \<open>/*\<close>\<close>
  "rootChildElements = PathNode [StepNode Single (AxisStep Child (NameTest Wildcard)) []]"

definition rootChildNodes :: XNodeT where
  \<comment> \<open>what \<open>XParser\<close> returns for \<open>/node()\<close>\<close>
  "rootChildNodes = PathNode [StepNode Single (AxisStep Child (KindTest KindNode None)) []]"

definition axisNodes :: "Axis \<Rightarrow> XNodeT" where
  \<comment> \<open>what \<open>XParser\<close> returns for \<open>axis::node()\<close>\<close>
  "axisNodes axis = PathNode [StepNode PathNil (AxisStep axis (KindTest KindNode None)) []]"

definition queryAt :: "jsenv \<Rightarrow> rnode \<Rightarrow> nref \<Rightarrow> XNodeT \<Rightarrow> error + XDataCType" where
  \<comment> \<open>a query tree evaluated with \<open>n\<close> as the context node, the way \<open>visitPredicateNode\<close>
      evaluates a predicate for a member of a partition: the context is pushed, the tree is
      visited and its datum is popped\<close>
  "queryAt env doc n q =
     bindE (visit env doc (- 1) q (pushContext \<lparr>pos = 1, size' = 1, node = n\<rparr> newXPath)) (\<lambda>s1.
       bindE (popDatum s1) (\<lambda>(result, s2). Inr (dataValue result)))"

definition leavesValue :: "error + XPath \<Rightarrow> bool" where
  \<comment> \<open>a visit that returns leaves a datum on top of the stack whose \<open>value\<close> is not \<open>null\<close>\<close>
  "leavesValue r = (case r of
       Inl e \<Rightarrow> True
     | Inr s \<Rightarrow> (case dataStack s of [] \<Rightarrow> False | d # ds \<Rightarrow> dataValue d \<noteq> VNull))"

section \<open>Properties of the evaluator\<close>

subsection \<open>Substrings\<close>

lemma selectPositions_nths: "selectPositions P xs = nths xs {i. P (Suc i)}"
proof -
  have "zip xs [1..<Suc (length xs)] = map (\<lambda>(c, i). (c, Suc i)) (zip xs [0..<length xs])"
    by (simp add: map_Suc_upt [symmetric] zip_map2 del: upt_Suc)
  then show ?thesis
    by (simp add: selectPositions_def nths_def filter_map o_def case_prod_beta)
qed

lemma take_drop_nths: "take (t - f) (drop f xs) = nths xs {f..<t}"
proof -
  have "take (t - f) (drop f xs) = nths (drop f xs) {..<t - f}"
    by (simp add: nths_upt_eq_take)
  also have "\<dots> = nths xs ((+) f ` {..<t - f})"
    by (rule nths_drop)
  also have "(+) f ` {..<t - f} = {f..<t}"
  proof (rule set_eqI)
    fix x show "x \<in> (+) f ` {..<t - f} \<longleftrightarrow> x \<in> {f..<t}"
    proof
      assume "x \<in> (+) f ` {..<t - f}" then show "x \<in> {f..<t}" by auto
    next
      assume "x \<in> {f..<t}"
      then have "x - f \<in> {..<t - f}" and "x = f + (x - f)" by auto
      then show "x \<in> (+) f ` {..<t - f}" by (rule_tac image_eqI)
    qed
  qed
  finally show ?thesis .
qed

lemma selectPositions_cong:
  assumes "\<And>p. 0 < p \<Longrightarrow> p \<le> length xs \<Longrightarrow> P p = Q p"
  shows "selectPositions P xs = selectPositions Q xs"
proof -
  have "filter (\<lambda>cp. P (snd cp)) (zip xs [1..<Suc (length xs)])
      = filter (\<lambda>cp. Q (snd cp)) (zip xs [1..<Suc (length xs)])"
  proof (rule filter_cong [OF refl])
    fix cp assume "cp \<in> set (zip xs [1..<Suc (length xs)])"
    then have "snd cp \<in> set [1..<Suc (length xs)]"
      by (metis prod.collapse set_zip_rightD)
    then show "P (snd cp) = Q (snd cp)" by (intro assms) auto
  qed
  then show ?thesis by (simp add: selectPositions_def)
qed

lemma take_drop_select:
  assumes "\<And>p. 0 < p \<Longrightarrow> p \<le> length xs \<Longrightarrow> (f < p \<and> p \<le> t) = Q p"
  shows "take (t - f) (drop f xs) = selectPositions Q xs"
proof -
  have "{i. f < Suc i \<and> Suc i \<le> t} = {f..<t}" by auto
  then have "take (t - f) (drop f xs) = selectPositions (\<lambda>p. f < p \<and> p \<le> t) xs"
    by (simp add: selectPositions_nths take_drop_nths)
  also have "\<dots> = selectPositions Q xs" by (rule selectPositions_cong) (rule assms)
  finally show ?thesis .
qed

text \<open>What \<open>Math.round\<close> returns for a number: an infinity, a zero or an integer.\<close>

lemma Math_round_cases:
  assumes "x \<noteq> NaN"
  shows "Math_round x = PosInf \<or> Math_round x = NegInf \<or> Math_round x = NegZero
       \<or> (\<exists>r\<in>\<int>. Math_round x = Fin r)"
  using assms by (cases x) (auto simp: Math_round_def)

lemmas js_unfold = js_sub_def js_add_def js_neg_def js_ge_def js_le_def js_lt_def js_eq_def
  js_rat_def js_finite_def relativeIndex_def toIntegerOrInfinity_def js_trunc_def

lemma relativeIndex_Fin:
  "r \<in> \<int> \<Longrightarrow> relativeIndex n (if js_ge (Fin r) (Fin 0) then Fin r else Fin 0) = min (nat \<lfloor>r\<rfloor>) n"
  by (auto simp: js_unfold elim!: Ints_cases)

lemma js_arith:
  "js_sub PosInf (Fin 1) = PosInf" "js_sub NegInf (Fin 1) = NegInf"
  "js_sub NegZero (Fin 1) = Fin (- 1)"
  "js_sub (Fin r) (Fin 1) = Fin (r - 1)"
  "js_add PosInf NegInf = NaN" "js_add NegInf PosInf = NaN"
  "js_add PosInf PosInf = PosInf" "js_add NegInf NegInf = NegInf"
  "js_add PosInf NegZero = PosInf" "js_add NegZero PosInf = PosInf"
  "js_add NegInf NegZero = NegInf" "js_add NegZero NegInf = NegInf"
  "js_add PosInf (Fin r) = PosInf" "js_add (Fin r) PosInf = PosInf"
  "js_add NegInf (Fin r) = NegInf" "js_add (Fin r) NegInf = NegInf"
  "js_add NegZero NegZero = NegZero"
  "js_add NegZero (Fin r) = Fin r"
  "js_add (Fin r) NegZero = Fin r"
  "js_add (Fin r) (Fin t) = Fin (r + t)"
  by (auto simp: js_unfold)

lemma js_cmp:
  "js_le PosInf (Fin r) = False" "js_le NegInf (Fin r) = True"
  "js_le NegZero (Fin r) = (0 \<le> r)" "js_le (Fin t) (Fin r) = (t \<le> r)"
  "js_lt (Fin r) PosInf = True" "js_lt (Fin r) NegInf = False" "js_lt (Fin r) NaN = False"
  "js_lt (Fin r) NegZero = (r < 0)" "js_lt (Fin r) (Fin t) = (r < t)"
  "js_ge PosInf (Fin 0) = True" "js_ge NegInf (Fin 0) = False" "js_ge NaN (Fin 0) = False"
  "js_ge NegZero (Fin 0) = True"
  by (auto simp: js_unfold)

lemma relativeIndex_special:
  "relativeIndex n (Fin 0) = 0" "relativeIndex n PosInf = n" "relativeIndex n NegZero = 0"
  by (auto simp: js_unfold)

lemma int_bound_lt:
  fixes r :: rat
  assumes "r \<in> \<int>" "0 < p" "p \<le> n"
  shows "(min (nat (\<lfloor>r\<rfloor> - 1)) n < p) = (r \<le> of_nat p)"
proof -
  from assms(1) obtain k where r: "r = of_int k" by (rule Ints_cases)
  have "(r \<le> of_nat p) = (k \<le> int p)" unfolding r by (metis of_int_le_iff of_int_of_nat_eq)
  moreover have "\<lfloor>r\<rfloor> = k" unfolding r by simp
  ultimately show ?thesis using assms(2,3) by auto
qed

lemma int_bound_le:
  fixes r :: rat
  assumes "r \<in> \<int>" "0 < p"
  shows "(p \<le> nat (\<lfloor>r\<rfloor> - 1)) = (of_nat p < r)"
proof -
  from assms(1) obtain k where r: "r = of_int k" by (rule Ints_cases)
  have "(of_nat p < r) = (int p < k)" unfolding r by (metis of_int_less_iff of_int_of_nat_eq)
  moreover have "\<lfloor>r\<rfloor> = k" unfolding r by simp
  ultimately show ?thesis using assms(2) by auto
qed

lemma int_bound_le2:
  fixes r t :: rat
  assumes "r \<in> \<int>" "t \<in> \<int>" "0 < p"
  shows "(p \<le> nat (\<lfloor>t\<rfloor> + (\<lfloor>r\<rfloor> - 1))) = (of_nat p < r + t)"
proof -
  have "r + t \<in> \<int>" using assms by simp
  moreover have "\<lfloor>r + t\<rfloor> = \<lfloor>t\<rfloor> + \<lfloor>r\<rfloor>" using assms by (auto elim!: Ints_cases)
  ultimately show ?thesis using int_bound_le [of "r + t" p] assms(3) by (simp add: algebra_simps)
qed

lemma from_index:
  assumes "a = PosInf \<or> a = NegInf \<or> a = NegZero \<or> (\<exists>r\<in>\<int>. a = Fin r)" "0 < p" "p \<le> n"
  shows "(relativeIndex n (if js_ge (js_sub a (Fin 1)) (Fin 0) then js_sub a (Fin 1) else Fin 0) < p)
       = js_le a (Fin (of_nat p))"
  using assms
  by (elim disjE bexE)
     (simp_all add: js_arith js_cmp relativeIndex_Fin relativeIndex_special int_bound_lt
        split del: if_split cong: if_cong)

lemma to_index:
  assumes "a = PosInf \<or> a = NegInf \<or> a = NegZero \<or> (\<exists>r\<in>\<int>. a = Fin r)"
    and "b = PosInf \<or> b = NegInf \<or> b = NegZero \<or> (\<exists>r\<in>\<int>. b = Fin r)"
    and "0 < p" "p \<le> n"
  shows "(p \<le> relativeIndex n (if js_ge (js_add b (js_sub a (Fin 1))) (Fin 0)
                                 then js_add b (js_sub a (Fin 1)) else Fin 0))
       = js_lt (Fin (of_nat p)) (js_add a b)"
  using assms
  by (elim disjE bexE)
     (simp_all add: js_arith js_cmp relativeIndex_Fin relativeIndex_special int_bound_le
        int_bound_le2 split del: if_split cong: if_cong)

lemma callFunction_substring:
  "callFunction env doc ''substring'' [a, b] s = substringFn env doc [a, b] s"
  "callFunction env doc ''substring'' [a, b, c] s = substringFn env doc [a, b, c] s"
  by (simp_all add: callFunction_def functionTable_def)

lemma slice_from:
  assumes "a = PosInf \<or> a = NegInf \<or> a = NegZero \<or> (\<exists>r\<in>\<int>. a = Fin r)"
  shows "js_slice s (if js_ge (js_sub a (Fin 1)) (Fin 0) then js_sub a (Fin 1) else Fin 0) None
       = selectPositions (\<lambda>p. js_le a (Fin (of_nat p))) s"
  unfolding js_slice_def Let_def option.case
  by (rule take_drop_select) (simp add: from_index [OF assms])

lemma slice_from_to:
  assumes "a = PosInf \<or> a = NegInf \<or> a = NegZero \<or> (\<exists>r\<in>\<int>. a = Fin r)"
    and "b = PosInf \<or> b = NegInf \<or> b = NegZero \<or> (\<exists>r\<in>\<int>. b = Fin r)"
  shows "js_slice s (if js_ge (js_sub a (Fin 1)) (Fin 0) then js_sub a (Fin 1) else Fin 0)
           (Some (if js_ge (js_add b (js_sub a (Fin 1))) (Fin 0)
                  then js_add b (js_sub a (Fin 1)) else Fin 0))
       = selectPositions (\<lambda>p. js_le a (Fin (of_nat p)) \<and> js_lt (Fin (of_nat p)) (js_add a b)) s"
  unfolding js_slice_def Let_def option.case
  by (rule take_drop_select) (simp add: from_index [OF assms(1)] to_index [OF assms])

lemma Math_round_NaN: "(Math_round x = NaN) = (x = NaN)"
  by (cases x) (auto simp: Math_round_def)

lemmas run_defs = query_def visitString_def visitPop_def roundedArg_def
  pushE_def pushData_def popDatum_def popData_def bindE_def pushContext_def newXPath_def

lemma substring_two:
  "query env doc (CallNode ''substring'' [StringNode s, NumberNode x]) newXPath
     = Inr (VString (xpathSubstring Math_round s x None))"
proof (cases "x = NaN")
  case True
  then show ?thesis
    by (simp add: callFunction_substring substringFn_def run_defs xpathSubstring_def
         Math_round_NaN isNaN_def Let_def)
next
  case False
  then show ?thesis
    by (simp add: callFunction_substring substringFn_def run_defs xpathSubstring_def
         Math_round_NaN isNaN_def Let_def slice_from [OF Math_round_cases])
qed

lemma substring_three:
  "query env doc (CallNode ''substring'' [StringNode s, NumberNode x, NumberNode y]) newXPath
     = Inr (VString (xpathSubstring Math_round s x (Some y)))"
proof (cases "x = NaN \<or> y = NaN")
  case True
  then show ?thesis
    by (auto simp add: callFunction_substring substringFn_def run_defs xpathSubstring_def
         Math_round_NaN isNaN_def Let_def)
next
  case False
  then show ?thesis
    by (simp add: callFunction_substring substringFn_def run_defs xpathSubstring_def
         Math_round_NaN isNaN_def Let_def slice_from_to [OF Math_round_cases Math_round_cases])
qed

lemma substring_examples:
  "query env doc (CallNode ''substring''
      [StringNode ''12345'', NumberNode (Fin (3/2)), NumberNode (Fin (13/5))]) newXPath
     = Inr (VString ''234'')"
  "query env doc (CallNode ''substring''
      [StringNode ''12345'', BinaryOpNode (NumberNode (Fin 0)) (NumberNode (Fin 0)) OpDiv,
       NumberNode (Fin 3)]) newXPath
     = Inr (VString [])"
  "query env doc (CallNode ''substring''
      [StringNode ''12345'', UnaryOpNode (NumberNode (Fin 42)) OpMinus,
       BinaryOpNode (NumberNode (Fin 1)) (NumberNode (Fin 0)) OpDiv]) newXPath
     = Inr (VString ''12345'')"
  by code_simp+

text \<open>
  Claim C4, as the code has it. \<open>substring(s, start, length?)\<close> counts positions from 1 and
  returns the characters of \<open>s\<close> at the positions \<open>p\<close> with \<open>round(start) \<le> p\<close> and, when there
  is a length, \<open>p < round(start) + round(length)\<close>; positions outside the string select nothing;
  a \<open>NaN\<close> start or length gives the empty string. The rounding is that of \<open>Math.round\<close>, which
  takes a tie to the neighbour nearer to positive infinity, not to the even neighbour. The law
  is stated for a start and a length that are infinite, \<open>NaN\<close>, or of a magnitude below \<open>2^52\<close>:
  there \<open>start--\<close> and \<open>end += start\<close> are exact in doubles, as they are in the model. The three
  examples of the specification hold: none of them rounds a tie.
\<close>

theorem substring_rounds_as_Math_round:
  assumes "exactRange x" and "exactRange y"
  shows "query env doc (CallNode ''substring'' [StringNode s, NumberNode x]) newXPath
     = Inr (VString (xpathSubstring Math_round s x None))
   \<and> query env doc (CallNode ''substring'' [StringNode s, NumberNode x, NumberNode y]) newXPath
     = Inr (VString (xpathSubstring Math_round s x (Some y)))
   \<and> query env doc (CallNode ''substring''
        [StringNode ''12345'', NumberNode (Fin (3/2)), NumberNode (Fin (13/5))]) newXPath
     = Inr (VString ''234'')
   \<and> query env doc (CallNode ''substring''
        [StringNode ''12345'', BinaryOpNode (NumberNode (Fin 0)) (NumberNode (Fin 0)) OpDiv,
         NumberNode (Fin 3)]) newXPath
     = Inr (VString [])
   \<and> query env doc (CallNode ''substring''
        [StringNode ''12345'', UnaryOpNode (NumberNode (Fin 42)) OpMinus,
         BinaryOpNode (NumberNode (Fin 1)) (NumberNode (Fin 0)) OpDiv]) newXPath
     = Inr (VString ''12345'')"
  by (intro conjI substring_two substring_three substring_examples)

text \<open>The law at a tie: \<open>substring("12345", 2.5)\<close> starts at position 3.\<close>

theorem substring_tie_witness:
  "query plainEnv emptyDoc
     (CallNode ''substring'' [StringNode ''12345'', NumberNode (Fin (5/2))]) newXPath
   = Inr (VString ''345'')"
proof -
  have "xpathSubstring Math_round ''12345'' (Fin (5/2)) None = ''345''" by code_simp
  moreover have "exactRange (Fin (5/2))" by (simp add: exactRange_def)
  ultimately show ?thesis
    using substring_rounds_as_Math_round [of "Fin (5/2)" "Fin (5/2)" plainEnv emptyDoc "''12345''"]
    by simp
qed

text \<open>
  With ties rounded to the even neighbour, \<open>substring("12345", 2.5)\<close> would start at position 2;
  the code starts it at position 3.
\<close>

theorem substring_half_even_counterexample:
  "xpathSubstring roundHalfEven ''12345'' (Fin (5/2)) None = ''2345''
   \<and> query plainEnv emptyDoc
       (CallNode ''substring'' [StringNode ''12345'', NumberNode (Fin (5/2))]) newXPath
     = Inr (VString ''345'')"
  by code_simp

subsection \<open>\<open>count\<close> and \<open>sum\<close> of a value that is not a node-set\<close>

lemma callFunction_count_sum:
  "callFunction env doc ''count'' [a] s = countFn env doc [a] s"
  "callFunction env doc ''sum'' [a] s = sumFn env doc [a] s"
  by (simp_all add: callFunction_def functionTable_def)

text \<open>
  Claim C10. Let the query \<open>a\<close> evaluate to a number, a string or a boolean. Then \<open>count(a)\<close>
  evaluates to \<open>NaN\<close> and raises nothing, and \<open>sum(a)\<close> raises an \<open>EvalError\<close>.
\<close>

theorem count_sum_of_scalar:
  assumes "query env doc a this = Inr v"
    and "v = VNumber n \<or> v = VString str \<or> v = VBoolean b"
  shows "query env doc (CallNode ''count'' [a]) this = Inr (VNumber NaN)
       \<and> query env doc (CallNode ''sum'' [a]) this
         = Inl (EvalError ''Expected argument of type XNodeset'')"
proof -
  let ?s0 = "pushContext \<lparr>pos = 1, size' = 1, node = NRef []\<rparr> this"
  from assms(1) obtain s1 where s1: "visit env doc (- 1) a ?s0 = Inr s1"
    by (auto simp: query_def bindE_def split: sum.splits)
  with assms(1) obtain d ds where d: "dataStack s1 = d # ds"
    by (auto simp: query_def bindE_def popDatum_def popData_def split: sum.splits list.splits)
  with assms(1) s1 have ds: "ds = []" and v: "dataValue d = v"
    by (auto simp: query_def bindE_def popDatum_def popData_def split: if_splits)
  from v assms(2) have nn: "\<not> isNodeset d" by (cases d) auto
  show ?thesis
    using s1 d ds nn
    by (simp add: query_def callFunction_count_sum countFn_def sumFn_def visitPop_def bindE_def
         popDatum_def popData_def pushE_def pushData_def)
qed

text \<open>\<open>count("3")\<close> and \<open>sum("3")\<close>.\<close>

theorem count_sum_of_scalar_witness:
  "query plainEnv emptyDoc (CallNode ''count'' [StringNode ''3'']) newXPath = Inr (VNumber NaN)
   \<and> query plainEnv emptyDoc (CallNode ''sum'' [StringNode ''3'']) newXPath
     = Inl (EvalError ''Expected argument of type XNodeset'')"
  using count_sum_of_scalar [of plainEnv emptyDoc "StringNode ''3''" newXPath "VString ''3''"
      "Fin 0" "''3''" False]
  by (simp add: run_defs)

subsection \<open>Node-sets\<close>

lemma set_add: "set (add n s) = insert n (set s)"
  by (auto simp: add_def)

lemma distinct_add: "distinct s \<Longrightarrow> distinct (add n s)"
  by (auto simp: add_def)

lemma set_addAll: "set (addAll ns s) = set ns \<union> set s"
  unfolding addAll_def by (induction ns arbitrary: s) (auto simp: set_add)

lemma distinct_addAll: "distinct s \<Longrightarrow> distinct (addAll ns s)"
  unfolding addAll_def by (induction ns arbitrary: s) (auto simp: distinct_add)

lemma set_newSet: "set (newSet ns) = set ns"
  by (simp add: newSet_def set_addAll)

lemma distinct_newSet: "distinct (newSet ns)"
  by (simp add: newSet_def distinct_addAll)

lemma length_sortNodeset: "length (sortNodeset doc ns) = card (set ns)"
proof -
  have "length (sortNodeset doc ns) = card (set (sortNodeset doc ns))"
    by (simp add: sortNodeset_def distinct_newSet distinct_card)
  then show ?thesis by (simp add: sortNodeset_def set_newSet)
qed

lemma set_sortNodeset: "set (sortNodeset doc ns) = set ns"
  by (simp add: sortNodeset_def set_newSet)

lemma set_addIf: "set (addIf test n s) = set s \<union> (if test n then {n} else {})"
  by (auto simp: addIf_def set_add)

lemma set_descend:
  "set (descend test p n acc)
     = set acc \<union> {r. \<exists>q. q \<noteq> [] \<and> getNode n q \<noteq> None \<and> r = NRef (p @ q) \<and> test r}"
  "set (descendList test p i cs acc)
     = set acc \<union> {r. \<exists>j q. j < length cs \<and> getNode (cs ! j) q \<noteq> None
                          \<and> r = NRef (p @ (i + j) # q) \<and> test r}"
proof (induction test p n acc and test p i cs acc rule: descend_descendList.induct)
  case (1 test p n nodeset)
  have "{r. \<exists>q. q \<noteq> [] \<and> getNode n q \<noteq> None \<and> r = NRef (p @ q) \<and> test r}
      = {r. \<exists>j q. j < length (children n) \<and> getNode (children n ! j) q \<noteq> None
                   \<and> r = NRef (p @ (0 + j) # q) \<and> test r}" (is "?L = ?R")
  proof (rule set_eqI, rule iffI)
    fix r assume "r \<in> ?L"
    then obtain q where q: "q \<noteq> []" "getNode n q \<noteq> None" "r = NRef (p @ q)" "test r" by auto
    then obtain j q' where "q = j # q'" by (cases q) auto
    with q show "r \<in> ?R" by (auto split: if_splits)
  next
    fix r assume "r \<in> ?R"
    then obtain j q where "j < length (children n)" "getNode (children n ! j) q \<noteq> None"
      "r = NRef (p @ j # q)" "test r" by auto
    then show "r \<in> ?L" by (auto intro!: exI [of _ "j # q"])
  qed
  with 1 show ?case by simp
next
  case (2 test p i nodeset)
  show ?case by simp
next
  case (3 test p i c cs nodeset)
  have "{r. \<exists>j q. j < length (c # cs) \<and> getNode ((c # cs) ! j) q \<noteq> None
                 \<and> r = NRef (p @ (i + j) # q) \<and> test r}
      = (if test (NRef (p @ [i])) then {NRef (p @ [i])} else {})
        \<union> {r. \<exists>q. q \<noteq> [] \<and> getNode c q \<noteq> None \<and> r = NRef ((p @ [i]) @ q) \<and> test r}
        \<union> {r. \<exists>j q. j < length cs \<and> getNode (cs ! j) q \<noteq> None
                 \<and> r = NRef (p @ (Suc i + j) # q) \<and> test r}" (is "?L = ?A \<union> ?B \<union> ?C")
  proof (rule set_eqI, rule iffI)
    fix r assume "r \<in> ?L"
    then obtain j q where jq: "j < length (c # cs)" "getNode ((c # cs) ! j) q \<noteq> None"
      "r = NRef (p @ (i + j) # q)" "test r" by auto
    show "r \<in> ?A \<union> ?B \<union> ?C"
    proof (cases j)
      case 0
      with jq show ?thesis by (cases "q = []") auto
    next
      case (Suc k)
      with jq have "r \<in> ?C" by auto
      then show ?thesis by simp
    qed
  next
    fix r assume "r \<in> ?A \<union> ?B \<union> ?C"
    then consider "r \<in> ?A" | "r \<in> ?B" | "r \<in> ?C" by blast
    then show "r \<in> ?L"
    proof cases
      case 1
      then show ?thesis by (auto split: if_splits intro!: exI [of _ 0] exI [of _ "[]"])
    next
      case 2
      then obtain q where "q \<noteq> []" "getNode c q \<noteq> None" "r = NRef ((p @ [i]) @ q)" "test r"
        by auto
      then show ?thesis by (auto intro!: exI [of _ 0] exI [of _ q])
    next
      case 3
      then obtain j q where "j < length cs" "getNode (cs ! j) q \<noteq> None"
        "r = NRef (p @ (Suc i + j) # q)" "test r" by auto
      then show ?thesis by (auto intro!: exI [of _ "Suc j"] exI [of _ q])
    qed
  qed
  with 3 show ?case by (simp add: set_addIf Un_assoc Un_left_commute)
qed


lemma set_findDescendants_root:
  "set (findDescendants doc (NRef []) test acc)
     = set acc \<union> {r. \<exists>q. q \<noteq> [] \<and> getNode doc q \<noteq> None \<and> r = NRef q \<and> test r}"
proof -
  have "findDescendants doc (NRef []) test acc = descend test [] doc acc"
    by (simp add: findDescendants_def del: descend.simps)
  then show ?thesis by (simp only: set_descend(1) append_Nil)
qed

lemma concat_addNodeset: "concat (addNodeset ns arr) = concat arr @ ns"
  by (simp add: addNodeset_def)

lemma concat_forEachItem_aux:
  "concat (fold (\<lambda>item arr. addNodeset (f item) arr) xs acc) = concat acc @ concat (map f xs)"
  by (induction xs arbitrary: acc) (simp_all add: concat_addNodeset)

lemma concat_forEachItem: "concat (forEachItem xs f) = concat (map f xs)"
  by (simp add: forEachItem_def concat_forEachItem_aux)

lemma set_fold_addIf: "set (fold (addIf test) xs acc) = set acc \<union> {x \<in> set xs. test x}"
  by (induction xs arbitrary: acc) (auto simp: set_addIf)

lemma getNode_snoc:
  "getNode t (p @ [i]) = (case getNode t p of
       Some n \<Rightarrow> (if i < length (children n) then Some (children n ! i) else None)
     | None \<Rightarrow> None)"
proof (induction p arbitrary: t)
  case Nil
  show ?case by simp
next
  case (Cons j p)
  show ?case by (simp add: Cons.IH)
qed

lemma set_childRefs:
  "set (childRefs doc (NRef p)) = {r. \<exists>i. r = NRef (p @ [i]) \<and> getNode doc (p @ [i]) \<noteq> None}"
proof (cases "getNode doc p")
  case None
  then show ?thesis by (simp add: childRefs_def getNode_snoc)
next
  case (Some n)
  have a: "\<And>i. (getNode doc (p @ [i]) \<noteq> None) = (i < length (children n))"
    by (simp add: getNode_snoc Some)
  have b: "set (childRefs doc (NRef p)) = (\<lambda>i. NRef (p @ [i])) ` {..<length (children n)}"
    by (simp add: childRefs_def Some atLeast0LessThan)
  have c: "(\<lambda>i. NRef (p @ [i])) ` {..<length (children n)}
         = {r. \<exists>i. r = NRef (p @ [i]) \<and> i < length (children n)}"
    by blast
  show ?thesis unfolding a b c ..
qed

lemma childRefs_ARef: "childRefs doc (ARef p k) = []"
  by (simp add: childRefs_def)

lemma childRefs_NullRef: "childRefs doc NullRef = []"
  by (simp add: childRefs_def)

lemma sortNodesetE_nodes: "NullRef \<notin> set ns \<Longrightarrow> sortNodesetE doc ns = Inr (sortNodeset doc ns)"
  by (simp add: sortNodesetE_def comparesNull_def)

lemma element_children:
  assumes "set xs = insert (NRef []) {r. \<exists>q. q \<noteq> [] \<and> getNode doc q \<noteq> None \<and> r = NRef q}"
  shows "set (concat (map (\<lambda>item. if isParent doc item
            then traverseAllLinear doc item (elementNameTest doc Wildcard) [] else []) xs))
       = {r. \<exists>q. q \<noteq> [] \<and> r = NRef q \<and> isElement doc r}" (is "?L = ?R")
proof (rule set_eqI, rule iffI)
  fix r assume "r \<in> ?L"
  then obtain item where "r \<in> set (traverseAllLinear doc item (elementNameTest doc Wildcard) [])"
    by (auto split: if_splits)
  then have "r \<in> set (childRefs doc item)" "isElement doc r"
    by (auto simp: traverseAllLinear_def set_fold_addIf elementNameTest_def split: if_splits)
  then show "r \<in> ?R" by (cases item) (auto simp: set_childRefs childRefs_ARef childRefs_NullRef)
next
  fix r assume "r \<in> ?R"
  then obtain q where q: "q \<noteq> []" "r = NRef q" "isElement doc r" by auto
  then have g: "getNode doc q \<noteq> None" by (auto simp: isElement_def nodeType_def)
  from q(1) have qq: "butlast q @ [last q] = q" by simp
  with g have "getNode doc (butlast q @ [last q]) \<noteq> None" by simp
  then obtain n where n: "getNode doc (butlast q) = Some n" "last q < length (children n)"
    by (auto simp: getNode_snoc split: option.splits if_splits)
  then have par: "isParent doc (NRef (butlast q))"
    by (cases n) (auto simp: isParent_def isRoot_def isElement_def nodeType_def)
  have "r \<in> set (childRefs doc (NRef (butlast q)))"
    unfolding set_childRefs using q(2) qq g by (intro CollectI exI [of _ "last q"]) simp
  with q(3) par
  have "r \<in> set (traverseAllLinear doc (NRef (butlast q)) (elementNameTest doc Wildcard) [])"
    by (simp add: traverseAllLinear_def set_fold_addIf elementNameTest_def)
  moreover have "NRef (butlast q) \<in> set xs"
    unfolding assms using n(1) by (cases "butlast q = []") auto
  ultimately show "r \<in> ?L" using par by auto
qed

lemma callFunction_count:
  "callFunction env doc ''count'' [a] s = countFn env doc [a] s"
  by (simp add: callFunction_def functionTable_def)

lemmas visit_defs = query_def visitPop_def pushE_def pushData_def popDatum_def popData_def
  bindE_def pushContext_def newXPath_def visitStepNode_def ctx_def step_def sizeFalsy_def
  countFn_def nodesOf_def callFunction_count

lemma count_rootDescendants:
  "query env doc (CallNode ''count'' [rootDescendants]) newXPath
     = Inr (VNumber (Fin (of_nat (card {r. \<exists>q. q \<noteq> [] \<and> r = NRef q \<and> isElement doc r}))))"
proof -
  have "{r. \<exists>q. q \<noteq> [] \<and> getNode doc q \<noteq> None \<and> r = NRef q \<and> elementNameTest doc Wildcard r}
      = {r. \<exists>q. q \<noteq> [] \<and> r = NRef q \<and> isElement doc r}"
    by (auto simp: elementNameTest_def isElement_def nodeType_def)
  moreover have "sortNodesetE doc (findDescendants doc (NRef []) (elementNameTest doc Wildcard) [])
      = Inr (sortNodeset doc (findDescendants doc (NRef []) (elementNameTest doc Wildcard) []))"
    by (rule sortNodesetE_nodes) (simp add: set_findDescendants_root)
  ultimately show ?thesis
    by (simp add: rootDescendants_def visit_defs s1DescendantNameTest_def firstOrEach_def
          items_def length_sortNodeset concat_addNodeset set_findDescendants_root)
qed

lemma count_allElements:
  "query env doc (CallNode ''count'' [allElements]) newXPath
     = Inr (VNumber (Fin (of_nat (card {r. \<exists>q. q \<noteq> [] \<and> r = NRef q \<and> isElement doc r}))))"
proof -
  let ?all = "findDescendants doc (NRef []) (kindTest doc KindNode None) [NRef []]"
  let ?f = "\<lambda>item. if isParent doc item
            then traverseAllLinear doc item (elementNameTest doc Wildcard) [] else []"
  have all: "set ?all = insert (NRef []) {r. \<exists>q. q \<noteq> [] \<and> getNode doc q \<noteq> None \<and> r = NRef q}"
    unfolding set_findDescendants_root by (simp add: kindTest_def)
  then have ne: "?all \<noteq> []" by auto
  have ne': "sortNodeset doc ?all \<noteq> []"
  proof
    assume "sortNodeset doc ?all = []"
    then have "set (sortNodeset doc ?all) = {}" by simp
    then show False unfolding set_sortNodeset using ne by simp
  qed
  have children: "set (concat (forEachItem (sortNodeset doc ?all) ?f))
      = {r. \<exists>q. q \<noteq> [] \<and> r = NRef q \<and> isElement doc r}"
    unfolding concat_forEachItem
    by (subst element_children) (simp_all only: set_sortNodeset all)
  have nodes: "NullRef \<notin> set (sortNodeset doc ?all)"
    unfolding set_sortNodeset all by simp
  have sorted1: "sortNodesetE doc ?all = Inr (sortNodeset doc ?all)"
    by (rule sortNodesetE_nodes) (simp only: all, simp)
  have sorted2: "sortNodesetE doc (concat (forEachItem (sortNodeset doc ?all) ?f))
      = Inr (sortNodeset doc (concat (forEachItem (sortNodeset doc ?all) ?f)))"
    by (rule sortNodesetE_nodes) (simp only: children, simp)
  have "query env doc (CallNode ''count'' [allElements]) newXPath
      = Inr (VNumber (Fin (of_nat (length (sortNodeset doc
            (concat (forEachItem (sortNodeset doc ?all) ?f)))))))"
    using ne ne' nodes
    by (simp add: allElements_def visit_defs s1DescendantOrSelfKindTest_def
          s1ChildNameTest_def firstOrEach_def items_def addIf_def add_def kindTest_def
          concat_addNodeset readsNode_def sorted1 sorted2 del: set_concat)
  also have "length (sortNodeset doc (concat (forEachItem (sortNodeset doc ?all) ?f)))
      = card {r. \<exists>q. q \<noteq> [] \<and> r = NRef q \<and> isElement doc r}"
    unfolding length_sortNodeset children ..
  finally show ?thesis .
qed

text \<open>
  Claim C3, as the code has it. For every document \<open>count(//*)\<close> and \<open>count(/descendant::*)\<close>
  return the same number, the number of elements of the document: the root element is itself
  a descendant of the root, so nothing is to be added for it.
\<close>

theorem count_allElements_rootDescendants:
  "query env doc (CallNode ''count'' [allElements]) newXPath
     = query env doc (CallNode ''count'' [rootDescendants]) newXPath
   \<and> query env doc (CallNode ''count'' [rootDescendants]) newXPath
     = Inr (VNumber (Fin (of_nat (card {r. \<exists>q. q \<noteq> [] \<and> r = NRef q \<and> isElement doc r}))))"
  by (simp only: count_allElements count_rootDescendants)

text \<open>The five elements of the sample document.\<close>

theorem count_allElements_witness:
  "query plainEnv sampleDoc (CallNode ''count'' [allElements]) newXPath = Inr (VNumber (Fin 5))"
proof -
  have "query plainEnv sampleDoc (CallNode ''count'' [rootDescendants]) newXPath
      = Inr (VNumber (Fin 5))"
    by code_simp
  with count_allElements_rootDescendants [of plainEnv sampleDoc] show ?thesis by simp
qed

text \<open>
  The sample document has a root element, and both counts are 5: \<open>count(//*)\<close> is not
  \<open>count(/descendant::*) + 1\<close>.
\<close>

theorem count_plus_one_counterexample:
  "rootElementRef sampleDoc = Some (NRef [0])
   \<and> query plainEnv sampleDoc (CallNode ''count'' [allElements]) newXPath = Inr (VNumber (Fin 5))
   \<and> query plainEnv sampleDoc (CallNode ''count'' [rootDescendants]) newXPath
     = Inr (VNumber (Fin 5))
   \<and> js_add (Fin 5) (Fin 1) \<noteq> Fin 5"
  by code_simp

subsection \<open>The axes from a context node\<close>

text \<open>
  Claim C2 at the sample document, with the first \<open>x\<close> child of \<open>b\<close> as the context node. The
  \<open>x\<close> child of \<open>a\<close> precedes it, and is in none of the five node-sets: \<open>findPreceding\<close>
  returns at once when the context node is the first child of its parent.
\<close>

theorem axes_miss_preceding_node:
  "queryAt plainEnv sampleDoc (NRef [0, 1, 0]) (axisNodes Preceding) = Inr (VNodeset [])
   \<and> queryAt plainEnv sampleDoc (NRef [0, 1, 0]) (axisNodes Ancestor)
     = Inr (VNodeset [NRef [], NRef [0], NRef [0, 1]])
   \<and> queryAt plainEnv sampleDoc (NRef [0, 1, 0]) (axisNodes Self) = Inr (VNodeset [NRef [0, 1, 0]])
   \<and> queryAt plainEnv sampleDoc (NRef [0, 1, 0]) (axisNodes Descendant) = Inr (VNodeset [])
   \<and> queryAt plainEnv sampleDoc (NRef [0, 1, 0]) (axisNodes Following)
     = Inr (VNodeset [NRef [0, 1, 1]])
   \<and> isElement sampleDoc (NRef [0, 0])"
  by code_simp

subsection \<open>\<open>queryOne\<close>\<close>

text \<open>
  Every visit that returns leaves a datum with a value on top of the data stack: the datum
  without a value that a step with predicates pushes is consumed by the predicates.
\<close>

lemma lv_Inl [simp]: "leavesValue (Inl e)"
  by (simp add: leavesValue_def)

lemma lv_pushData [simp]: "leavesValue (Inr (pushData d s)) = (dataValue d \<noteq> VNull)"
  by (simp add: leavesValue_def pushData_def)

lemma lv_pushE [simp]: "leavesValue (pushE d s) = (dataValue d \<noteq> VNull)"
  by (simp add: pushE_def)

lemma lv_bindE: "(\<And>x. m = Inr x \<Longrightarrow> leavesValue (f x)) \<Longrightarrow> leavesValue (bindE m f)"
  by (cases m) (simp_all add: bindE_def)

lemma lv_bindE_left: "leavesValue m \<Longrightarrow> leavesValue (bindE m Inr)"
  by (cases m) (simp_all add: bindE_def)

lemmas lv_intros = lv_bindE

lemma lv_unaryOp: "leavesValue (unaryOp env doc op s)"
  by (auto simp: unaryOp_def intro!: lv_bindE)

lemma lv_binaryOp: "leavesValue (binaryOp env doc op s)"
  by (auto simp: binaryOp_def evaluateArithmeticExpr_def evaluateRelativeExpr_def
        evaluateConditionalExpr_def evaluatePipeExpr_def
      intro!: lv_bindE split: prod.splits option.splits)

lemma lv_functions:
  "leavesValue (lastFn env doc argv s)"
  "leavesValue (positionFn env doc argv s)"
  "leavesValue (countFn env doc argv s)"
  "leavesValue (nameLikeFn f doc argv s)"
  "leavesValue (booleanFn env doc argv s)"
  "leavesValue (notFn env doc argv s)"
  "leavesValue (trueFn env doc argv s)"
  "leavesValue (falseFn env doc argv s)"
  "leavesValue (langFn env doc argv s)"
  "leavesValue (numberFn env doc argv s)"
  "leavesValue (sumFn env doc argv s)"
  "leavesValue (mathFn g env doc argv s)"
  "leavesValue (stringFn env doc argv s)"
  "leavesValue (concatFn env doc argv s)"
  "leavesValue (startsWithFn env doc argv s)"
  "leavesValue (containsFn env doc argv s)"
  "leavesValue (substringBeforeFn env doc argv s)"
  "leavesValue (substringAfterFn env doc argv s)"
  "leavesValue (substringFn env doc argv s)"
  "leavesValue (stringLengthFn env doc argv s)"
  "leavesValue (normalizeSpaceFn env doc argv s)"
  "leavesValue (translateFn env doc argv s)"
  by (auto simp: lastFn_def positionFn_def countFn_def nameLikeFn_def booleanFn_def notFn_def
        trueFn_def falseFn_def langFn_def numberFn_def sumFn_def mathFn_def stringFn_def
        concatFn_def startsWithFn_def containsFn_def substringBeforeFn_def substringAfterFn_def
        substringFn_def stringLengthFn_def normalizeSpaceFn_def translateFn_def Let_def
      intro!: lv_bindE split: list.splits prod.splits option.splits)


lemma lv_callFunction: "leavesValue (callFunction env doc nm argv s)"
proof (cases "map_of functionTable nm")
  case None
  then show ?thesis by (simp add: callFunction_def)
next
  case (Some func)
  then have "(nm, func) \<in> set functionTable" by (rule map_of_SomeD)
  then have "leavesValue (fn func env doc argv s)"
    unfolding functionTable_def
    by (auto simp: lv_functions localNameFn_def namespaceUriFn_def nameFn_def floorFn_def
          ceilingFn_def roundFn_def)
  with Some show ?thesis by (simp add: callFunction_def Let_def)
qed

lemma lv_runAll_aux:
  assumes "\<And>t s. t \<in> set ts \<Longrightarrow> leavesValue (t s)" "leavesValue m"
  shows "leavesValue (foldl bindE m ts)"
  using assms
proof (induction ts arbitrary: m)
  case Nil
  then show ?case by simp
next
  case (Cons t ts)
  have "leavesValue (bindE m t)" by (rule lv_bindE) (simp add: Cons.prems(1))
  with Cons show ?case by simp
qed

lemma lv_runAll:
  assumes "\<And>t s. t \<in> set ts \<Longrightarrow> leavesValue (t s)" "ts \<noteq> []"
  shows "leavesValue (runAll ts s)"
proof -
  from assms(2) obtain t ts' where ts: "ts = t # ts'" by (cases ts) auto
  have "leavesValue (bindE (Inr s) t)" by (rule lv_bindE) (simp add: assms(1) ts)
  then have "leavesValue (foldl bindE (bindE (Inr s) t) ts')"
    by (intro lv_runAll_aux) (simp_all add: assms(1) ts)
  then show ?thesis by (simp add: runAll_def ts)
qed

lemma lv_sizeFalsy: "sizeFalsy (dataValue d) = Inr b \<Longrightarrow> dataValue d \<noteq> VNull"
  by (auto simp: sizeFalsy_def)

lemma lv_visitStepNode:
  assumes "\<And>t s. t \<in> set preds \<Longrightarrow> leavesValue (t s)"
  shows "leavesValue (visitStepNode doc stepPos path st preds s)"
proof -
  have rest: "\<And>arr s1. leavesValue
      (if preds = [] then bindE (sortNodesetE doc (concat arr)) (\<lambda>v. pushE (XNodeset v None) s1)
       else runAll preds (pushData (XPartitions arr) s1))"
    using assms by (auto intro!: lv_bindE simp: lv_runAll)
  have skipped: "\<And>data s1. (if 0 < stepPos then sizeFalsy (dataValue data) else Inr False) = Inr True
      \<Longrightarrow> leavesValue (pushE data s1)"
    by (auto simp: sizeFalsy_def split: if_splits)
  show ?thesis
    unfolding visitStepNode_def
    by (auto intro!: lv_bindE simp: rest skipped simp del: lv_pushE)
qed

lemma lv_visitPredicateNode: "leavesValue (visitPredicateNode doc expr order left s)"
  unfolding visitPredicateNode_def by (auto intro!: lv_bindE)

lemma lv_runSteps_aux:
  assumes "\<And>t i s. t \<in> set ts \<Longrightarrow> leavesValue (t i s)" "ts \<noteq> []"
  shows "leavesValue (runSteps ts i s)"
  using assms
proof (induction ts arbitrary: i s)
  case Nil
  then show ?case by simp
next
  case (Cons t ts)
  show ?case
  proof (cases "ts = []")
    case True
    have "leavesValue (t i s)" by (simp add: Cons.prems(1))
    then show ?thesis using True by (cases "t i s") (simp_all add: bindE_def)
  next
    case False
    have "\<And>s'. leavesValue (runSteps ts (i + 1) s')"
      by (rule Cons.IH) (simp_all add: Cons.prems(1) False)
    then show ?thesis by (simp add: lv_bindE)
  qed
qed

lemma lv_runSteps:
  assumes "\<And>t i s. t \<in> set ts \<Longrightarrow> leavesValue (t i s)" "leavesValue (Inr s)"
  shows "leavesValue (runSteps ts i s)"
  using assms by (cases "ts = []") (simp_all add: lv_runSteps_aux)

lemma lv_visit: "leavesValue (visit env doc stepPos q s)"
proof (induction q arbitrary: stepPos s)
  case (NumberNode v)
  show ?case by simp
next
  case (StringNode v)
  show ?case by simp
next
  case (CallNode nm args)
  show ?case by (simp add: lv_callFunction)
next
  case (UnaryOpNode n op)
  show ?case by (auto intro!: lv_bindE lv_unaryOp)
next
  case (BinaryOpNode l r op)
  show ?case by (auto intro!: lv_bindE lv_binaryOp)
next
  case (StepNode path st preds)
  show ?case
    unfolding visit.simps
  proof (rule lv_visitStepNode)
    fix t s'
    assume "t \<in> set (map (\<lambda>p s'. visit env doc (- 1) p s') preds)"
    then show "leavesValue (t s')" using StepNode by auto
  qed
next
  case (PredicateNode expr order left)
  show ?case by (simp add: lv_visitPredicateNode)
next
  case (PathNode steps)
  show ?case
    unfolding visit.simps
  proof (rule lv_runSteps)
    fix t i s'
    assume "t \<in> set (map (\<lambda>n i s'. visit env doc i n s') steps)"
    then show "leavesValue (t i s')" using PathNode by auto
  next
    show "leavesValue (Inr (pushData (XNodeset [] None) s))" by simp
  qed
qed

lemma query_not_null: "query env doc q this \<noteq> Inr VNull"
proof -
  let ?r = "visit env doc (- 1) q (pushContext \<lparr>pos = 1, size' = 1, node = NRef []\<rparr> this)"
  have "leavesValue ?r" by (rule lv_visit)
  then show ?thesis
    by (cases ?r)
       (auto simp: query_def bindE_def leavesValue_def popDatum_def popData_def
          split: list.splits)
qed

lemma queryOne_cases:
  "(queryOne env doc q this = Inr RNull \<longleftrightarrow>
      query env doc q this = Inr (VNodeset [])
      \<or> (\<exists>ns. query env doc q this = Inr (VNodeset (NullRef # ns))))
   \<and> (query env doc q this = Inr (VNodeset (n # ns)) \<longrightarrow> queryOne env doc q this = Inr (returned n))
   \<and> (query env doc q this = Inr (VNumber x) \<longrightarrow> queryOne env doc q this = Inr (RNumber x))
   \<and> (query env doc q this = Inr (VString str) \<longrightarrow> queryOne env doc q this = Inr (RString str))
   \<and> (query env doc q this = Inr (VBoolean b) \<longrightarrow> queryOne env doc q this = Inr (RBoolean b))
   \<and> (queryOne env doc q this = Inl e \<longleftrightarrow> query env doc q this = Inl e)"
  using query_not_null [of env doc q this]
  by (auto simp: queryOne_def returned_def bindE_def
        split: sum.splits XDataCType.splits list.splits if_splits)

text \<open>
  Claim C9 says that \<open>queryOne\<close> returns \<open>null\<close> exactly when \<open>query\<close> returns the empty node-set.
  By \<open>queryOne_cases\<close> it returns the first member of a node-set that is not empty, a scalar
  unchanged and the error of \<open>query\<close>; but the first member can be \<open>null\<close>. On a document with no
  root element, such as \<open><!--only-->\<close>, the first step of \<open>/*\<close> and of \<open>/node()\<close> adds
  \<open>this.root.rootElement\<close>, which is \<open>null\<close>, to its node-set: \<open>query\<close> returns a node-set of size 1,
  \<open>queryOne\<close> returns \<open>null\<close> and \<open>queryAll\<close> an array that holds \<open>null\<close>, and nothing is thrown.
\<close>

theorem queryOne_null_of_nonempty:
  "query env (RootNode cs None nss) rootChildElements newXPath = Inr (VNodeset [NullRef])
   \<and> queryOne env (RootNode cs None nss) rootChildElements newXPath = Inr RNull
   \<and> queryAll env (RootNode cs None nss) rootChildElements newXPath = Inr [RNull]
   \<and> query env (RootNode cs None nss) rootChildNodes newXPath = Inr (VNodeset [NullRef])
   \<and> queryOne env (RootNode cs None nss) rootChildNodes newXPath = Inr RNull
   \<and> query env (commentDoc nss) rootChildElements newXPath = Inr (VNodeset [NullRef])
   \<and> queryOne env (commentDoc nss) rootChildElements newXPath = Inr RNull"
  by code_simp

end
